theory Spec2Isabelle
  imports Complex_Main "HOL-Library.AList" "HOL-Library.Word"
begin

unbundle bit_operations_syntax

section \<open>Python values\<close>

text \<open>
  The program keeps its data in the values that \<^verbatim>\<open>json.load\<close> produces: \<^verbatim>\<open>None\<close>, booleans,
  numbers, strings, lists and dictionaries with string keys. A dictionary is an association
  list in insertion order. Numbers are the finite ones (Python's \<^verbatim>\<open>int\<close> and the finite
  \<^verbatim>\<open>float\<close> values are rational numbers; \<^verbatim>\<open>NaN\<close> and the infinities are not modelled).
  A string is a list of characters, one \<^typ>\<open>char\<close> for each code point below 256.
\<close>

datatype json =
    JNull
  | JBool bool
  | JNum rat
  | JStr string
  | JArr "json list"
  | JObj "(string \<times> json) list"

datatype error =
    TypeError | AttributeError | KeyError | IndexError | ValueError
  | RequestException | HTTPError nat | JSONDecodeError | ApiException

text \<open>Python's truth value of an object, as \<^verbatim>\<open>if x:\<close>, \<^verbatim>\<open>not x\<close>, \<^verbatim>\<open>and\<close> and \<^verbatim>\<open>or\<close> test it.\<close>

fun truthy :: "json \<Rightarrow> bool" where
  "truthy JNull = False"
| "truthy (JBool b) = b"
| "truthy (JNum r) = (r \<noteq> 0)"
| "truthy (JStr s) = (s \<noteq> [])"
| "truthy (JArr xs) = (xs \<noteq> [])"
| "truthy (JObj kvs) = (kvs \<noteq> [])"

text \<open>\<^verbatim>\<open>a or b\<close> yields \<^verbatim>\<open>a\<close> when it is true and \<^verbatim>\<open>b\<close> otherwise.\<close>

definition py_or :: "json \<Rightarrow> json \<Rightarrow> json" where
  "py_or a b = (if truthy a then a else b)"

text \<open>\<^verbatim>\<open>d.get(k, default)\<close> on a dictionary.\<close>

definition dict_get :: "(string \<times> json) list \<Rightarrow> string \<Rightarrow> json \<Rightarrow> json" where
  "dict_get d k dflt = (case map_of d k of Some v \<Rightarrow> v | None \<Rightarrow> dflt)"

text \<open>\<^verbatim>\<open>x.get(k, default)\<close> on any value: only a dictionary has the method.\<close>

definition py_get :: "json \<Rightarrow> string \<Rightarrow> json \<Rightarrow> error + json" where
  "py_get x k dflt = (case x of JObj d \<Rightarrow> Inr (dict_get d k dflt) | _ \<Rightarrow> Inl AttributeError)"

text \<open>
  The number a value stands for in an order comparison with a number: \<^verbatim>\<open>bool\<close> is a subclass
  of \<^verbatim>\<open>int\<close>; comparing anything else with a number raises \<^verbatim>\<open>TypeError\<close>.
\<close>

fun as_number :: "json \<Rightarrow> rat option" where
  "as_number (JNum r) = Some r"
| "as_number (JBool b) = Some (if b then 1 else 0)"
| "as_number _ = None"


section \<open>Weather client: air-quality analysis\<close>

text \<open>
  \<^verbatim>\<open>WeatherAPI.analyze_air_pollution(components, extended)\<close>. The translation table
  \<^verbatim>\<open>translate_pollution_status\<close> of the utilities module is a parameter. The Russian word for
  "unknown" that the source returns for an empty map is given by its UTF-8 bytes.
\<close>

definition unknown_ru :: string where
  "unknown_ru = [CHR 0xD0, CHR 0x9D, CHR 0xD0, CHR 0xB5, CHR 0xD0, CHR 0xB8, CHR 0xD0, CHR 0xB7,
                 CHR 0xD0, CHR 0xB2, CHR 0xD0, CHR 0xB5, CHR 0xD1, CHR 0x81, CHR 0xD1, CHR 0x82,
                 CHR 0xD0, CHR 0xBD, CHR 0xD0, CHR 0xBE]"

definition classify_pm25 :: "rat \<Rightarrow> string \<times> rat" where
  "classify_pm25 pm25 =
     (if pm25 \<le> 12 then (''Good'', 1)
      else if pm25 \<le> 35 then (''Fair'', 2)
      else if pm25 \<le> 55 then (''Moderate'', 3)
      else if pm25 \<le> 150 then (''Poor'', 4)
      else (''Very Poor'', 5))"

definition analyze_air_pollution ::
  "(string \<Rightarrow> json) \<Rightarrow> (string \<times> json) list \<Rightarrow> bool \<Rightarrow> error + (string \<times> json) list" where
  "analyze_air_pollution translate_pollution_status components extended =
     (if components = [] then
        Inr [(''status'', JStr unknown_ru), (''status_ru'', JStr unknown_ru), (''aqi'', JNum 0)]
      else
        let pm25 = dict_get components ''pm2_5'' (JNum 0);
            pm10 = dict_get components ''pm10'' (JNum 0)
        in case as_number pm25 of
             None \<Rightarrow> Inl TypeError
           | Some v \<Rightarrow>
               let (status, aqi) = classify_pm25 v;
                   result = [(''status'', JStr status),
                             (''status_ru'', translate_pollution_status status),
                             (''aqi'', JNum aqi),
                             (''pm25'', pm25),
                             (''pm10'', pm10)]
               in Inr (if extended then
                         result @
                         [(''components'', JObj
                            [(''co'', dict_get components ''co'' (JNum 0)),
                             (''no'', dict_get components ''no'' (JNum 0)),
                             (''no2'', dict_get components ''no2'' (JNum 0)),
                             (''o3'', dict_get components ''o3'' (JNum 0)),
                             (''so2'', dict_get components ''so2'' (JNum 0)),
                             (''pm2_5'', dict_get components ''pm2_5'' (JNum 0)),
                             (''pm10'', dict_get components ''pm10'' (JNum 0)),
                             (''nh3'', dict_get components ''nh3'' (JNum 0))])]
                       else result))"


section \<open>Conversation orchestrator: wind direction\<close>

text \<open>
  The fragment of \<^verbatim>\<open>WeatherBot.handle_city_weather\<close> that renders the wind direction. The source
  labels the octants with the Russian abbreviations (Cyrillic S, SV, V, YuV, Yu, YuZ, Z, SZ for
  north, north-east, east, south-east, south, south-west, west, north-west) and starts from the
  label \<^verbatim>\<open>"?"\<close>; the labels are the constructors of \<open>wind_label\<close>.
\<close>

datatype wind_label =
  North | North_East | East | South_East | South | South_West | West | North_West | Undetermined

text \<open>The dictionary \<^verbatim>\<open>wind_directions\<close>, iterated in insertion order.\<close>

definition wind_directions :: "((rat \<times> rat) \<times> wind_label) list" where
  "wind_directions =
     [((0, 22.5), North), ((22.5, 67.5), North_East), ((67.5, 112.5), East),
      ((112.5, 157.5), South_East), ((157.5, 202.5), South), ((202.5, 247.5), South_West),
      ((247.5, 292.5), West), ((292.5, 337.5), North_West), ((337.5, 360), North)]"

text \<open>The \<^verbatim>\<open>for\<close> loop over the table: the first interval that matches wins.\<close>

fun find_direction :: "rat \<Rightarrow> ((rat \<times> rat) \<times> wind_label) list \<Rightarrow> wind_label" where
  "find_direction wind_deg [] = Undetermined"
| "find_direction wind_deg (((start, stop), direction) # rest) =
     (if (start \<le> wind_deg \<and> wind_deg < stop) \<or> (start = 0 \<and> wind_deg = 0) then direction
      else find_direction wind_deg rest)"

text \<open>
  \<^verbatim>\<open>wind_deg\<close> is the value under \<^verbatim>\<open>wind.deg\<close> of the response, or the string \<^verbatim>\<open>'N/A'\<close>. A value
  that is neither \<^verbatim>\<open>'N/A'\<close> nor a number raises \<^verbatim>\<open>TypeError\<close> in the first comparison.
\<close>

definition wind_dir :: "json \<Rightarrow> error + wind_label" where
  "wind_dir wind_deg =
     (if wind_deg \<noteq> JStr ''N/A'' then
        (case as_number wind_deg of
           None \<Rightarrow> Inl TypeError
         | Some d \<Rightarrow> Inr (find_direction d wind_directions))
      else Inr Undetermined)"

text \<open>\<^verbatim>\<open>weather.get('wind', {}).get('deg', 'N/A')\<close> followed by the lookup.\<close>

definition city_weather_wind_dir :: "json \<Rightarrow> error + wind_label" where
  "city_weather_wind_dir weather =
     (case py_get weather ''wind'' (JObj []) of
        Inl e \<Rightarrow> Inl e
      | Inr wind \<Rightarrow>
          (case py_get wind ''deg'' (JStr ''N/A'') of
             Inl e \<Rightarrow> Inl e
           | Inr wind_deg \<Rightarrow> wind_dir wind_deg))"


section \<open>Text helpers of the Python runtime\<close>

text \<open>\<^verbatim>\<open>str(n)\<close> for an integer: its decimal numeral.\<close>

fun str_nat :: "nat \<Rightarrow> string" where
  "str_nat n =
     (if n < 10 then [''0123456789'' ! n]
      else str_nat (n div 10) @ [''0123456789'' ! (n mod 10)])"

declare str_nat.simps [simp del]

definition str_int :: "int \<Rightarrow> string" where
  "str_int i = (if i < 0 then CHR ''-'' # str_nat (nat (- i)) else str_nat (nat i))"

text \<open>\<^verbatim>\<open>s.strip()\<close>: the white space of \<^verbatim>\<open>str.isspace\<close> among the code points below 256.\<close>

definition is_space :: "char \<Rightarrow> bool" where
  "is_space c = ((of_char c :: nat) \<in> set [9, 10, 11, 12, 13, 28, 29, 30, 31, 32, 133, 160])"

definition strip :: "string \<Rightarrow> string" where
  "strip s = rev (dropWhile is_space (rev (dropWhile is_space s)))"

text \<open>
  \<^verbatim>\<open>int(s)\<close> for a string: white space around, an optional sign, decimal digits with single
  underscores between them; anything else raises \<^verbatim>\<open>ValueError\<close> (the result \<open>None\<close>). The white
  space \<^verbatim>\<open>int\<close> skips is not that of \<^verbatim>\<open>str.strip\<close>: below U+007F only the six ASCII characters
  tab, line feed, vertical tab, form feed, carriage return and space count, so that
  \<^verbatim>\<open>int('\x1f7')\<close> raises, and above it U+0085 and U+00A0 do. A numeral of more than
  \<^verbatim>\<open>sys.int_max_str_digits\<close> digits (4300 unless configured otherwise) raises as well.
\<close>

definition int_space :: "char \<Rightarrow> bool" where
  "int_space c = ((of_char c :: nat) \<in> set [9, 10, 11, 12, 13, 32, 133, 160])"

definition int_max_str_digits :: nat where
  "int_max_str_digits = 4300"

definition is_digit :: "char \<Rightarrow> bool" where
  "is_digit c = (c \<in> set ''0123456789'')"

definition digit_value :: "char \<Rightarrow> nat" where
  "digit_value c = of_char c - 48"

fun more_digits :: "nat \<Rightarrow> string \<Rightarrow> nat option" where
  "more_digits acc [] = Some acc"
| "more_digits acc [c] = (if is_digit c then Some (10 * acc + digit_value c) else None)"
| "more_digits acc (c # d # cs) =
     (if is_digit c then more_digits (10 * acc + digit_value c) (d # cs)
      else if c = CHR ''_'' \<and> is_digit d then more_digits (10 * acc + digit_value d) cs
      else None)"

definition parse_digits :: "string \<Rightarrow> nat option" where
  "parse_digits s =
     (case s of
        [] \<Rightarrow> None
      | c # cs \<Rightarrow> if is_digit c then more_digits (digit_value c) cs else None)"

definition int_of_str :: "string \<Rightarrow> int option" where
  "int_of_str s =
     (let body = rev (dropWhile int_space (rev (dropWhile int_space s)))
      in if length (filter is_digit body) > int_max_str_digits then None
         else (case body of
                 [] \<Rightarrow> None
               | c # cs \<Rightarrow>
                   if c = CHR ''-'' then map_option (\<lambda>n. - int n) (parse_digits cs)
                   else if c = CHR ''+'' then map_option int (parse_digits cs)
                   else map_option int (parse_digits (c # cs))))"


section \<open>User data store\<close>

text \<open>
  The files the store touches. A file holds one of four things, told apart by what
  \<^verbatim>\<open>json.load\<close> does on it:
  a text that it parses (\<open>Document\<close>, with the value it parses to, which is also what
  \<^verbatim>\<open>json.dump\<close> of that value writes);
  a text on which it raises \<^verbatim>\<open>JSONDecodeError\<close>, the empty text among them (\<open>Garbage\<close>);
  a text on which it raises another exception, such as \<^verbatim>\<open>ValueError\<close> for an integer literal
  longer than the interpreter converts or \<^verbatim>\<open>RecursionError\<close> for too deep a nesting
  (\<open>Rejected\<close>);
  bytes that are not UTF-8, on which already reading the file raises \<^verbatim>\<open>UnicodeDecodeError\<close>
  (\<open>Undecodable\<close>).
  Whether the operating system lets a path be read, written or renamed is part of the state,
  so that the branches that catch I/O errors are branches of the model.
\<close>

datatype content = Document json | Garbage string | Rejected string | Undecodable string

record filesystem =
  files :: "string \<rightharpoonup> content"
  readable :: "string \<Rightarrow> bool"
  writable :: "string \<Rightarrow> bool"
  renamable :: "string \<Rightarrow> bool"

definition DEFAULT_DATA_FILE :: string where
  "DEFAULT_DATA_FILE = ''User_Data.json''"

text \<open>\<^verbatim>\<open>d.update(data)\<close>: every pair of \<open>data\<close> is stored in turn.\<close>

definition dict_update :: "(string \<times> json) list \<Rightarrow> (string \<times> json) list \<Rightarrow> (string \<times> json) list" where
  "dict_update d data = fold (\<lambda>(k, v). AList.update k v) data d"

text \<open>\<^verbatim>\<open>UserStorage._ensure_file_exists\<close>\<close>

definition ensure_file_exists :: "string \<Rightarrow> filesystem \<Rightarrow> filesystem" where
  "ensure_file_exists data_file s =
     (if files s data_file = None then
        (if writable s data_file
         then s\<lparr>files := (files s)(data_file \<mapsto> Document (JObj []))\<rparr>
         else s)
      else s)"

text \<open>\<^verbatim>\<open>UserStorage._backup_and_reset\<close>\<close>

definition backup_and_reset :: "string \<Rightarrow> filesystem \<Rightarrow> filesystem" where
  "backup_and_reset data_file s =
     ensure_file_exists data_file
       (case files s data_file of
          None \<Rightarrow> s
        | Some c \<Rightarrow>
            if renamable s data_file
            then s\<lparr>files := (files s)(data_file := None, data_file @ ''.corrupted'' \<mapsto> c)\<rparr>
            else s)"

text \<open>
  \<^verbatim>\<open>UserStorage._load_data\<close>: the dictionary read, and the file system after the call. Only
  the handler of \<^verbatim>\<open>json.JSONDecodeError\<close> calls \<^verbatim>\<open>_backup_and_reset\<close>; every other exception
  reaches the handler of \<^verbatim>\<open>Exception\<close>, which returns the empty dictionary and leaves the
  file where it is.
\<close>

definition load_data :: "string \<Rightarrow> filesystem \<Rightarrow> (string \<times> json) list \<times> filesystem" where
  "load_data data_file s =
     (case files s data_file of
        None \<Rightarrow> ([], s)
      | Some c \<Rightarrow>
          if \<not> readable s data_file then ([], s)
          else (case c of
                  Garbage t \<Rightarrow> ([], backup_and_reset data_file s)
                | Rejected t \<Rightarrow> ([], s)
                | Undecodable t \<Rightarrow> ([], s)
                | Document (JObj d) \<Rightarrow> (d, s)
                | Document _ \<Rightarrow> ([], s)))"

text \<open>
  \<^verbatim>\<open>UserStorage._save_data\<close>. The copy to the \<^verbatim>\<open>.backup\<close> sibling opens the sibling for writing
  before it reads the data file; when that read raises (bytes that do not decode) the bare
  \<^verbatim>\<open>except\<close> swallows the exception and the sibling is left empty.
\<close>

definition save_data :: "string \<Rightarrow> (string \<times> json) list \<Rightarrow> filesystem \<Rightarrow> bool \<times> filesystem" where
  "save_data data_file data s =
     (let s1 = (case files s data_file of
                  None \<Rightarrow> s
                | Some c \<Rightarrow>
                    if readable s data_file \<and> writable s (data_file @ ''.backup'')
                    then s\<lparr>files := (files s)(data_file @ ''.backup'' \<mapsto>
                                      (case c of Undecodable t \<Rightarrow> Garbage [] | _ \<Rightarrow> c))\<rparr>
                    else s)
      in if writable s1 data_file
         then (True, s1\<lparr>files := (files s1)(data_file \<mapsto> Document (JObj data))\<rparr>)
         else (False, s1))"

text \<open>\<^verbatim>\<open>UserStorage.load_user\<close>\<close>

definition load_user :: "string \<Rightarrow> int \<Rightarrow> filesystem \<Rightarrow> json \<times> filesystem" where
  "load_user data_file user_id s =
     (let (all_data, s') = load_data data_file s;
          user_key = str_int user_id
      in case map_of all_data user_key of
           Some user_data \<Rightarrow> (user_data, s')
         | None \<Rightarrow> (JObj [], s'))"

text \<open>
  \<^verbatim>\<open>UserStorage.save_user\<close>. \<^verbatim>\<open>all_data[user_key].update(data)\<close> raises \<^verbatim>\<open>AttributeError\<close> when
  the stored value is not a dictionary; nothing in the method catches it.
\<close>

definition save_user ::
  "string \<Rightarrow> int \<Rightarrow> (string \<times> json) list \<Rightarrow> filesystem \<Rightarrow> error + (bool \<times> filesystem)" where
  "save_user data_file user_id data s =
     (let (all_data, s') = load_data data_file s;
          user_key = str_int user_id
      in case map_of all_data user_key of
           Some (JObj existing) \<Rightarrow>
             Inr (save_data data_file
                    (AList.update user_key (JObj (dict_update existing data)) all_data) s')
         | Some _ \<Rightarrow> Inl AttributeError
         | None \<Rightarrow> Inr (save_data data_file (AList.update user_key (JObj data) all_data) s'))"

text \<open>\<^verbatim>\<open>UserStorage.load_all\<close>\<close>

definition load_all :: "string \<Rightarrow> filesystem \<Rightarrow> (string \<times> json) list \<times> filesystem" where
  "load_all data_file s = load_data data_file s"

text \<open>
  \<^verbatim>\<open>UserStorage.update_user_notification\<close>. The membership test and the item assignments work on
  a dictionary whose \<^verbatim>\<open>notifications\<close> entry is a dictionary; on every other value one of them
  raises \<^verbatim>\<open>TypeError\<close>.
\<close>

definition update_user_notification ::
  "string \<Rightarrow> int \<Rightarrow> json \<Rightarrow> json \<Rightarrow> json \<Rightarrow> filesystem \<Rightarrow> error + (bool \<times> filesystem)" where
  "update_user_notification data_file user_id enabled interval_h last_sent s =
     (let (user_data, s') = load_user data_file user_id s
      in case user_data of
           JObj d \<Rightarrow>
             (let d1 = (if map_of d ''notifications'' = None
                        then AList.update ''notifications'' (JObj []) d else d)
              in case map_of d1 ''notifications'' of
                   Some (JObj n) \<Rightarrow>
                     (let n1 = AList.update ''enabled'' enabled n;
                          n2 = AList.update ''interval_h'' interval_h n1;
                          n3 = (if truthy last_sent
                                then AList.update ''last_sent'' last_sent n2 else n2)
                      in save_user data_file user_id
                           (AList.update ''notifications'' (JObj n3) d1) s')
                 | _ \<Rightarrow> Inl TypeError)
         | _ \<Rightarrow> Inl TypeError)"

text \<open>\<^verbatim>\<open>UserStorage.update_user_location\<close>\<close>

definition update_user_location ::
  "string \<Rightarrow> int \<Rightarrow> json \<Rightarrow> json \<Rightarrow> json \<Rightarrow> filesystem \<Rightarrow> error + (bool \<times> filesystem)" where
  "update_user_location data_file user_id city lat lon s =
     (let (user_data, s') = load_user data_file user_id s
      in case user_data of
           JObj d \<Rightarrow>
             save_user data_file user_id
               (AList.update ''lon'' lon (AList.update ''lat'' lat (AList.update ''city'' city d))) s'
         | _ \<Rightarrow> Inl TypeError)"


section \<open>More operations on Python values\<close>

text \<open>Sequencing of computations that may raise: the first exception ends the computation.\<close>

definition bind_err :: "error + 'a \<Rightarrow> ('a \<Rightarrow> error + 'b) \<Rightarrow> error + 'b" where
  "bind_err m f = (case m of Inl e \<Rightarrow> Inl e | Inr x \<Rightarrow> f x)"

fun traverse :: "('a \<Rightarrow> error + 'b) \<Rightarrow> 'a list \<Rightarrow> error + 'b list" where
  "traverse f [] = Inr []"
| "traverse f (x # xs) =
     bind_err (f x) (\<lambda>y. bind_err (traverse f xs) (\<lambda>ys. Inr (y # ys)))"

fun is_prefix :: "string \<Rightarrow> string \<Rightarrow> bool" where
  "is_prefix [] s = True"
| "is_prefix (c # cs) [] = False"
| "is_prefix (c # cs) (d # ds) = (c = d \<and> is_prefix cs ds)"

fun is_substring :: "string \<Rightarrow> string \<Rightarrow> bool" where
  "is_substring t [] = (t = [])"
| "is_substring t (c # cs) = (is_prefix t (c # cs) \<or> is_substring t cs)"

text \<open>\<^verbatim>\<open>k in x\<close> for a string \<open>k\<close>: key of a dictionary, element of a list, substring of a string.\<close>

definition py_contains :: "json \<Rightarrow> string \<Rightarrow> error + bool" where
  "py_contains x k =
     (case x of
        JObj d \<Rightarrow> Inr (map_of d k \<noteq> None)
      | JArr xs \<Rightarrow> Inr (JStr k \<in> set xs)
      | JStr s \<Rightarrow> Inr (is_substring k s)
      | _ \<Rightarrow> Inl TypeError)"

text \<open>\<^verbatim>\<open>x[k]\<close> for a string \<open>k\<close>.\<close>

definition py_item :: "json \<Rightarrow> string \<Rightarrow> error + json" where
  "py_item x k =
     (case x of
        JObj d \<Rightarrow> (case map_of d k of Some v \<Rightarrow> Inr v | None \<Rightarrow> Inl KeyError)
      | _ \<Rightarrow> Inl TypeError)"

text \<open>\<^verbatim>\<open>len(x)\<close>\<close>

definition py_len :: "json \<Rightarrow> error + nat" where
  "py_len x =
     (case x of
        JStr s \<Rightarrow> Inr (length s)
      | JArr xs \<Rightarrow> Inr (length xs)
      | JObj d \<Rightarrow> Inr (length d)
      | _ \<Rightarrow> Inl TypeError)"

text \<open>\<^verbatim>\<open>x[0]\<close>: a dictionary of the program has string keys only, so the key 0 is missing.\<close>

definition py_first :: "json \<Rightarrow> error + json" where
  "py_first x =
     (case x of
        JArr [] \<Rightarrow> Inl IndexError
      | JArr (y # ys) \<Rightarrow> Inr y
      | JStr [] \<Rightarrow> Inl IndexError
      | JStr (c # cs) \<Rightarrow> Inr (JStr [c])
      | JObj d \<Rightarrow> Inl KeyError
      | _ \<Rightarrow> Inl TypeError)"

text \<open>The items a \<^verbatim>\<open>for\<close> loop over a value visits.\<close>

definition py_iter :: "json \<Rightarrow> error + json list" where
  "py_iter x =
     (case x of
        JArr xs \<Rightarrow> Inr xs
      | JStr s \<Rightarrow> Inr (map (\<lambda>c. JStr [c]) s)
      | JObj d \<Rightarrow> Inr (map (\<lambda>(k, v). JStr k) d)
      | _ \<Rightarrow> Inl TypeError)"


section \<open>Weather client: requests, retry and cache\<close>

text \<open>
  What one call of \<^verbatim>\<open>requests.get\<close> yields: a response with its status code and, when the
  body parses, the value of \<^verbatim>\<open>response.json()\<close>; or no response at all (the connection failed
  or timed out and a \<^verbatim>\<open>RequestException\<close> is raised).
\<close>

datatype http_result = Response nat "json option" | No_response

text \<open>
  The surroundings of the client. \<open>provider n url params\<close> is the outcome of the \<open>n\<close>-th
  outbound request of the process; \<open>clock\<close> is the time at which the current operation runs;
  \<open>format_value\<close> is the text an f-string inserts for a value; \<open>float_of_str\<close> is \<^verbatim>\<open>float\<close> on a
  string; \<open>translate_weather_description\<close> is the table of the utilities module; \<open>ttl\<close> is the
  time-to-live of the cache of the utilities module.
\<close>

record client_env =
  api_key :: string
  provider :: "nat \<Rightarrow> string \<Rightarrow> (string \<times> json) list \<Rightarrow> http_result"
  clock :: nat
  ttl :: nat
  format_value :: "json \<Rightarrow> string"
  float_of_str :: "string \<Rightarrow> rat option"
  translate_weather_description :: "json \<Rightarrow> error + json"

record client_state =
  cache :: "string \<rightharpoonup> json \<times> nat"
  calls :: nat

definition BASE_URL :: string where
  "BASE_URL = ''https://api.openweathermap.org''"

definition GEOCODING_URL :: string where
  "GEOCODING_URL = BASE_URL @ ''/geo/1.0/direct''"

definition CURRENT_WEATHER_URL :: string where
  "CURRENT_WEATHER_URL = BASE_URL @ ''/data/2.5/weather''"

definition FORECAST_URL :: string where
  "FORECAST_URL = BASE_URL @ ''/data/2.5/forecast''"

definition AIR_POLLUTION_URL :: string where
  "AIR_POLLUTION_URL = BASE_URL @ ''/data/2.5/air_pollution''"

text \<open>
  Modelled from the spec: \<^verbatim>\<open>load_cache\<close> of the utilities module, which is not among the
  sources. \<^verbatim>\<open>load_cache(key)\<close> returns a previously stored value for the key if present and
  not expired, else an absent result. An entry stored at time \<open>t\<close> is served while the clock
  is below \<open>t + ttl\<close>.
\<close>

definition load_cache :: "client_env \<Rightarrow> string \<Rightarrow> client_state \<Rightarrow> json" where
  "load_cache env key c =
     (case cache c key of
        Some (v, t) \<Rightarrow> if clock env < t + ttl env then v else JNull
      | None \<Rightarrow> JNull)"

text \<open>
  Modelled from the spec: \<^verbatim>\<open>save_cache\<close> of the utilities module, which is not among the
  sources. \<^verbatim>\<open>save_cache(key, value)\<close> persists a value under the key with the time-to-live,
  overwriting any prior entry for that key.
\<close>

definition save_cache :: "client_env \<Rightarrow> string \<Rightarrow> json \<Rightarrow> client_state \<Rightarrow> client_state" where
  "save_cache env key v c = c\<lparr>cache := (cache c)(key \<mapsto> (v, clock env))\<rparr>"

text \<open>
  Modelled from the spec: \<^verbatim>\<open>retry_request\<close> of the utilities module, which is not among the
  sources. \<^verbatim>\<open>retry_request(operation, max_attempts)\<close> invokes the operation, catches a failure
  and invokes it again, up to \<open>max_attempts\<close> times; it returns the operation's result on the
  first call that returns, and no result after the last failure. The delay between two
  attempts does not move the clock of the model.
\<close>

fun retry_request :: "('s \<Rightarrow> (error + json) \<times> 's) \<Rightarrow> nat \<Rightarrow> 's \<Rightarrow> json \<times> 's" where
  "retry_request operation 0 s = (JNull, s)"
| "retry_request operation (Suc n) s =
     (case operation s of
        (Inr r, s') \<Rightarrow> (r, s')
      | (Inl e, s') \<Rightarrow> retry_request operation n s')"

text \<open>
  The inner function \<^verbatim>\<open>_request\<close> of \<^verbatim>\<open>WeatherAPI._make_request\<close>: one outbound call. A 429
  raises; \<^verbatim>\<open>raise_for_status\<close> raises for every status from 400 to 599, and the handler turns
  404 and 401 into the result \<^verbatim>\<open>None\<close> and raises the others again.
\<close>

definition request ::
  "client_env \<Rightarrow> string \<Rightarrow> (string \<times> json) list \<Rightarrow> client_state \<Rightarrow> (error + json) \<times> client_state" where
  "request env url params c =
     (let c' = c\<lparr>calls := Suc (calls c)\<rparr>
      in case provider env (calls c) url params of
           No_response \<Rightarrow> (Inl RequestException, c')
         | Response status_code body \<Rightarrow>
             if status_code = 429 then (Inl RequestException, c')
             else if 400 \<le> status_code \<and> status_code < 600 then
               (if status_code = 404 then (Inr JNull, c')
                else if status_code = 401 then (Inr JNull, c')
                else (Inl (HTTPError status_code), c'))
             else (case body of
                     Some j \<Rightarrow> (Inr j, c')
                   | None \<Rightarrow> (Inl JSONDecodeError, c')))"

text \<open>The cache key of \<^verbatim>\<open>_make_request\<close>, when the call has one.\<close>

definition cache_key :: "client_env \<Rightarrow> string \<Rightarrow> bool \<Rightarrow> json \<Rightarrow> json \<Rightarrow> string option" where
  "cache_key env endpoint_name use_cache lat lon =
     (if use_cache \<and> lat \<noteq> JNull \<and> lon \<noteq> JNull
      then Some (format_value env lat @ ''_'' @ format_value env lon @ ''_'' @ endpoint_name)
      else None)"

text \<open>The request parameters after \<^verbatim>\<open>params['appid'] = ...\<close> and \<^verbatim>\<open>params['lang'] = 'ru'\<close>.\<close>

definition with_key_and_language :: "client_env \<Rightarrow> (string \<times> json) list \<Rightarrow> (string \<times> json) list" where
  "with_key_and_language env params =
     AList.update ''lang'' (JStr ''ru'') (AList.update ''appid'' (JStr (api_key env)) params)"

text \<open>\<^verbatim>\<open>WeatherAPI._make_request\<close>; the result \<^verbatim>\<open>None\<close> is \<open>JNull\<close>.\<close>

definition make_request ::
  "client_env \<Rightarrow> string \<Rightarrow> (string \<times> json) list \<Rightarrow> string \<Rightarrow> bool \<Rightarrow> json \<Rightarrow> json \<Rightarrow>
   client_state \<Rightarrow> json \<times> client_state" where
  "make_request env url params endpoint_name use_cache lat lon c =
     (let key = cache_key env endpoint_name use_cache lat lon;
          cached_data = (case key of Some k \<Rightarrow> load_cache env k c | None \<Rightarrow> JNull)
      in if truthy cached_data then (cached_data, c)
         else
           let (result, c') = retry_request (request env url (with_key_and_language env params)) 3 c
           in (result,
               if truthy result
               then (case key of Some k \<Rightarrow> save_cache env k result c' | None \<Rightarrow> c')
               else c'))"

text \<open>
  \<^verbatim>\<open>float(x)\<close>, with \<open>None\<close> for the exception: \<^verbatim>\<open>TypeError\<close> for what is no number or string,
  \<^verbatim>\<open>ValueError\<close> for a string that is no numeral, \<^verbatim>\<open>OverflowError\<close> for an integer that rounds
  to \<open>2 ^ 1024\<close> or beyond. The numbers of the model are rationals, so the rounding of an
  integer beyond \<open>2 ^ 53\<close> to the nearest double is not part of it; a latitude or longitude
  is far below.
\<close>

definition py_float :: "client_env \<Rightarrow> json \<Rightarrow> rat option" where
  "py_float env x =
     (case x of
        JNum r \<Rightarrow> if \<bar>r\<bar> < 2 ^ 1024 - 2 ^ 970 then Some r else None
      | JBool b \<Rightarrow> Some (if b then 1 else 0)
      | JStr s \<Rightarrow> float_of_str env s
      | _ \<Rightarrow> None)"

text \<open>
  The part of \<^verbatim>\<open>WeatherAPI.get_coordinates\<close> after the request: the coordinates of the first
  candidate. Every exception inside is caught and gives \<^verbatim>\<open>None\<close>.
\<close>

definition first_candidate :: "client_env \<Rightarrow> json \<Rightarrow> (rat \<times> rat) option" where
  "first_candidate env response =
     (case response of
        JArr (location # others) \<Rightarrow>
          (case location of
             JObj d \<Rightarrow>
               (let lat = dict_get d ''lat'' JNull;
                    lon = dict_get d ''lon'' JNull
                in if lat = JNull \<or> lon = JNull then None
                   else (case (py_float env lat, py_float env lon) of
                           (Some a, Some b) \<Rightarrow> Some (a, b)
                         | _ \<Rightarrow> None))
           | _ \<Rightarrow> None)
      | _ \<Rightarrow> None)"

text \<open>\<^verbatim>\<open>WeatherAPI.get_coordinates\<close>\<close>

definition get_coordinates ::
  "client_env \<Rightarrow> string \<Rightarrow> rat \<Rightarrow> client_state \<Rightarrow> (rat \<times> rat) option \<times> client_state" where
  "get_coordinates env city limit c =
     (if city = [] \<or> length (strip city) < 2 then (None, c)
      else
        let params = [(''q'', JStr city), (''limit'', JNum limit)];
            (response, c') = make_request env GEOCODING_URL params ''geocoding'' False JNull JNull c
        in (first_candidate env response, c'))"

text \<open>
  The step shared by \<^verbatim>\<open>get_current_weather\<close> and \<^verbatim>\<open>get_forecast_5d3h\<close>: when the item has a
  non-empty \<^verbatim>\<open>weather\<close> entry whose first element has a description, the translation is stored
  under \<^verbatim>\<open>description_ru\<close> of that element.
\<close>

definition add_description_ru :: "(json \<Rightarrow> error + json) \<Rightarrow> json \<Rightarrow> error + json" where
  "add_description_ru translate item =
     bind_err (py_contains item ''weather'') (\<lambda>present.
       if \<not> present then Inr item
       else bind_err (py_item item ''weather'') (\<lambda>w.
         bind_err (py_len w) (\<lambda>n.
           if \<not> 0 < n then Inr item
           else bind_err (py_first w) (\<lambda>entry.
             bind_err (py_get entry ''description'' (JStr [])) (\<lambda>desc.
               if \<not> truthy desc then Inr item
               else bind_err (translate desc) (\<lambda>t.
                 (case (item, w, entry) of
                    (JObj d, JArr (y # ys), JObj e) \<Rightarrow>
                      Inr (JObj (AList.update ''weather''
                                  (JArr (JObj (AList.update ''description_ru'' t e) # ys)) d))
                  | _ \<Rightarrow> Inr item)))))))"

text \<open>\<^verbatim>\<open>WeatherAPI.get_current_weather\<close>\<close>

definition get_current_weather ::
  "client_env \<Rightarrow> json \<Rightarrow> json \<Rightarrow> client_state \<Rightarrow> json \<times> client_state" where
  "get_current_weather env lat lon c =
     (let params = [(''lat'', lat), (''lon'', lon), (''units'', JStr ''metric'')];
          (data, c') = make_request env CURRENT_WEATHER_URL params ''weather'' True lat lon c
      in if truthy data then
           (case add_description_ru (translate_weather_description env) data of
              Inl e \<Rightarrow> (JNull, c')
            | Inr data' \<Rightarrow> (data', c'))
         else (data, c'))"

text \<open>
  \<^verbatim>\<open>WeatherAPI.get_forecast_5d3h\<close>. The loop visits the items of whatever is stored under
  \<^verbatim>\<open>list\<close>; only the elements of a list can be changed in place.
\<close>

definition translate_forecast :: "(json \<Rightarrow> error + json) \<Rightarrow> json \<Rightarrow> error + json" where
  "translate_forecast translate forecast_list =
     (case forecast_list of
        JArr xs \<Rightarrow> bind_err (traverse (add_description_ru translate) xs) (\<lambda>ys. Inr (JArr ys))
      | _ \<Rightarrow> bind_err (py_iter forecast_list) (\<lambda>items.
               bind_err (traverse (add_description_ru translate) items) (\<lambda>ys. Inr forecast_list)))"

definition get_forecast_5d3h ::
  "client_env \<Rightarrow> json \<Rightarrow> json \<Rightarrow> client_state \<Rightarrow> json \<times> client_state" where
  "get_forecast_5d3h env lat lon c =
     (let params = [(''lat'', lat), (''lon'', lon), (''units'', JStr ''metric'')];
          (data, c') = make_request env FORECAST_URL params ''forecast'' True lat lon c
      in if \<not> truthy data then (JArr [], c')
         else (case bind_err (py_contains data ''list'') (\<lambda>present.
                      if \<not> present then Inr (JArr [])
                      else bind_err (py_item data ''list'')
                             (translate_forecast (translate_weather_description env))) of
                 Inl e \<Rightarrow> (JArr [], c')
               | Inr forecast_list \<Rightarrow> (forecast_list, c')))"

text \<open>\<^verbatim>\<open>WeatherAPI.get_air_pollution\<close>\<close>

definition get_air_pollution ::
  "client_env \<Rightarrow> json \<Rightarrow> json \<Rightarrow> client_state \<Rightarrow> json \<times> client_state" where
  "get_air_pollution env lat lon c =
     (let params = [(''lat'', lat), (''lon'', lon)];
          (data, c') = make_request env AIR_POLLUTION_URL params ''air_pollution'' True lat lon c
      in if \<not> truthy data then (JNull, c')
         else (case bind_err (py_contains data ''list'') (\<lambda>present.
                      if \<not> present then Inr JNull
                      else bind_err (py_item data ''list'') (\<lambda>samples.
                             bind_err (py_len samples) (\<lambda>n.
                               if n = 0 then Inr JNull else py_first samples))) of
                 Inl e \<Rightarrow> (JNull, c')
               | Inr pollution_data \<Rightarrow> (pollution_data, c')))"


section \<open>The hash of a string in the Python runtime\<close>

text \<open>
  The identifier of an inline result is \<^verbatim>\<open>str(hash(query_text))\<close>. The built-in \<^verbatim>\<open>hash\<close> of a
  string is SipHash-1-3 (CPython 3.11 and later) of the bytes of the string, keyed with two
  64-bit words that the interpreter draws when the process starts (from the operating
  system's random source, or from \<^verbatim>\<open>PYTHONHASHSEED\<close> when that is set; all zero for the seed 0).
  The functions below follow \<^verbatim>\<open>siphash13\<close> of CPython's \<^verbatim>\<open>pyhash.c\<close>, for strings whose code
  points are below 256 (one byte each).
\<close>

definition ROTATE :: "64 word \<Rightarrow> nat \<Rightarrow> 64 word" where
  "ROTATE x b = push_bit b x OR drop_bit (64 - b) x"

definition HALF_ROUND ::
  "64 word \<Rightarrow> 64 word \<Rightarrow> 64 word \<Rightarrow> 64 word \<Rightarrow> nat \<Rightarrow> nat \<Rightarrow>
   64 word \<times> 64 word \<times> 64 word \<times> 64 word" where
  "HALF_ROUND a b c d s t =
     (let a1 = a + b;
          c1 = c + d;
          b1 = ROTATE b s XOR a1;
          d1 = ROTATE d t XOR c1;
          a2 = ROTATE a1 32
      in (a2, b1, c1, d1))"

definition SINGLE_ROUND ::
  "64 word \<times> 64 word \<times> 64 word \<times> 64 word \<Rightarrow> 64 word \<times> 64 word \<times> 64 word \<times> 64 word" where
  "SINGLE_ROUND v =
     (case v of (v0, v1, v2, v3) \<Rightarrow>
        (case HALF_ROUND v0 v1 v2 v3 13 16 of (a0, a1, a2, a3) \<Rightarrow>
           (case HALF_ROUND a2 a1 a0 a3 17 21 of (b2, b1, b0, b3) \<Rightarrow> (b0, b1, b2, b3))))"

text \<open>Up to eight bytes as a little-endian word.\<close>

fun le64 :: "string \<Rightarrow> 64 word" where
  "le64 [] = 0"
| "le64 (c # cs) = of_char c OR push_bit 8 (le64 cs)"

text \<open>One message word: \<^verbatim>\<open>v3 ^= mi; SINGLE_ROUND; v0 ^= mi\<close>.\<close>

definition compress ::
  "64 word \<Rightarrow> 64 word \<times> 64 word \<times> 64 word \<times> 64 word \<Rightarrow> 64 word \<times> 64 word \<times> 64 word \<times> 64 word" where
  "compress mi v =
     (case v of (v0, v1, v2, v3) \<Rightarrow>
        (case SINGLE_ROUND (v0, v1, v2, v3 XOR mi) of
           (w0, w1, w2, w3) \<Rightarrow> (w0 XOR mi, w1, w2, w3)))"

text \<open>The loop over the full blocks of eight bytes; the rest is returned with the state.\<close>

fun absorb ::
  "64 word \<times> 64 word \<times> 64 word \<times> 64 word \<Rightarrow> string \<Rightarrow>
   (64 word \<times> 64 word \<times> 64 word \<times> 64 word) \<times> string" where
  "absorb v (a # b # c # d # e # f # g # h # rest) =
     absorb (compress (le64 [a, b, c, d, e, f, g, h]) v) rest"
| "absorb v tail = (v, tail)"

definition siphash13 :: "64 word \<Rightarrow> 64 word \<Rightarrow> string \<Rightarrow> 64 word" where
  "siphash13 k0 k1 src =
     (let b0 = push_bit 56 (word_of_nat (length src) :: 64 word);
          v = (k0 XOR 0x736f6d6570736575, k1 XOR 0x646f72616e646f6d,
               k0 XOR 0x6c7967656e657261, k1 XOR 0x7465646279746573)
      in case absorb v src of
           (v', tail) \<Rightarrow>
             (let b = b0 OR le64 tail
              in case compress b v' of
                   (v0, v1, v2, v3) \<Rightarrow>
                     (case SINGLE_ROUND (SINGLE_ROUND (SINGLE_ROUND (v0, v1, v2 XOR 0xff, v3))) of
                        (w0, w1, w2, w3) \<Rightarrow> (w0 XOR w1) XOR (w2 XOR w3))))"

text \<open>
  \<^verbatim>\<open>hash(s)\<close> in a process whose hash secret is \<open>secret\<close>: the empty string hashes to 0, and the
  value \<open>-1\<close>, which the interpreter keeps for errors, is replaced by \<open>-2\<close>.
\<close>

definition py_hash :: "64 word \<times> 64 word \<Rightarrow> string \<Rightarrow> int" where
  "py_hash secret s =
     (if s = [] then 0
      else let x = sint (siphash13 (fst secret) (snd secret) s)
           in if x = - 1 then - 2 else x)"


section \<open>Conversation orchestrator: state and messages\<close>

text \<open>
  The texts the bot sends are Russian templates filled with values. A message of the model
  names the template and carries the values inserted into it, so two messages are equal
  exactly when the same template is filled with the same values. A day button carries its
  position (the numbered emoji), the index of the weekday name and the callback data.
\<close>

datatype button = Day_button nat nat string | Back_button

datatype heading = Weekday_heading nat string | Plain_heading string

datatype message =
    Weather_notification json json json json json
  | Saved_location_menu json
  | Location_prompt
  | Forecast_location_prompt
  | Fetching_forecast json
  | Forecast_unavailable
  | Day_selector "button list"
  | Geolocation_not_found
  | Forecast_day_unavailable
  | No_data_for_day
  | Day_forecast string
  | Extended_location_prompt
  | Fetching_extended json
  | Weather_unavailable
  | Extended_report "json list" "json list option"

record article =
  article_id :: string
  article_city :: json
  article_temp :: json
  article_desc :: json

text \<open>
  The surroundings of the bot: the environment of the weather client; the reading of
  \<^verbatim>\<open>datetime.now()\<close> during the operation, in seconds; \<^verbatim>\<open>datetime.strptime\<close> (text and format,
  \<open>None\<close> when it raises), \<^verbatim>\<open>strftime\<close>, \<^verbatim>\<open>weekday\<close> and \<^verbatim>\<open>datetime.fromtimestamp\<close>; whether
  the chat platform accepts a message for a chat, and an answer to an inline query; the hash
  secret of the running process; and the functions of the utilities module that the handlers
  call.
\<close>

record bot_env =
  api :: client_env
  now :: rat
  strptime :: "string \<Rightarrow> string \<Rightarrow> rat option"
  strftime :: "rat \<Rightarrow> string \<Rightarrow> string"
  weekday :: "rat \<Rightarrow> nat"
  fromtimestamp :: "rat \<Rightarrow> rat option"
  delivers :: "int \<Rightarrow> bool"
  answers_inline :: "string \<Rightarrow> bool"
  hash_secret :: "64 word \<times> 64 word"
  translate_country_code :: "json \<Rightarrow> error + json"
  convert_pressure_hpa_to_mmhg :: "json \<Rightarrow> error + json"
  translate_pollution_status :: "string \<Rightarrow> json"
  format_forecast_day :: "json list \<Rightarrow> heading \<Rightarrow> error + string"

text \<open>
  What the bot can change: the files of the store, the state of the weather client, the
  messages delivered so far (with the chat they went to), the answers given to inline queries
  (with the query identifier) and the dialog state of each user.
\<close>

record world =
  store :: filesystem
  client :: client_state
  outbox :: "(int \<times> message) list"
  inline_answers :: "(string \<times> article) list"
  user_states :: "int \<rightharpoonup> (string \<times> json) list"

text \<open>
  \<^verbatim>\<open>bot.send_message\<close> (and \<^verbatim>\<open>bot.edit_message_text\<close>, which replaces the text of a message of the
  chat): the platform delivers the message or the call raises.
\<close>

definition send_message :: "bot_env \<Rightarrow> int \<Rightarrow> message \<Rightarrow> world \<Rightarrow> error + world" where
  "send_message env chat_id msg w =
     (if delivers env chat_id then Inr (w\<lparr>outbox := outbox w @ [(chat_id, msg)]\<rparr>)
      else Inl ApiException)"

definition datetime_format :: string where
  "datetime_format = ''%Y-%m-%d %H:%M:%S''"

definition date_format :: string where
  "date_format = ''%Y-%m-%d''"


section \<open>Conversation orchestrator: notifications\<close>

text \<open>
  The values \<^verbatim>\<open>_send_notification\<close> reads from the weather: temperature, description, humidity
  and wind speed, in this order.
\<close>

definition notification_values :: "json \<Rightarrow> error + (json \<times> json \<times> json \<times> json)" where
  "notification_values weather =
     bind_err (py_get weather ''main'' (JObj [])) (\<lambda>main.
     bind_err (py_get main ''temp'' (JStr ''N/A'')) (\<lambda>temp.
     bind_err (py_get weather ''weather'' (JArr [JObj []])) (\<lambda>conditions.
     bind_err (py_first conditions) (\<lambda>condition.
     bind_err (py_get condition ''description_ru'' (JStr ''N/A'')) (\<lambda>desc.
     bind_err (py_get main ''humidity'' (JStr ''N/A'')) (\<lambda>humidity.
     bind_err (py_get weather ''wind'' (JObj [])) (\<lambda>wind_entry.
     bind_err (py_get wind_entry ''speed'' (JStr ''N/A'')) (\<lambda>wind.
       Inr (temp, desc, humidity, wind)))))))))"

text \<open>
  \<^verbatim>\<open>WeatherBot._send_notification\<close>. Every exception inside is caught and logged, so the result
  is the world as it is when the method ends.
\<close>

definition send_notification :: "bot_env \<Rightarrow> int \<Rightarrow> json \<Rightarrow> world \<Rightarrow> world" where
  "send_notification env user_id user_data w =
     (case bind_err (py_get user_data ''lat'' JNull) (\<lambda>lat.
           bind_err (py_get user_data ''lon'' JNull) (\<lambda>lon.
           bind_err (py_get user_data ''city'' (JStr unknown_ru)) (\<lambda>city.
             Inr (lat, lon, city)))) of
        Inl e \<Rightarrow> w
      | Inr (lat, lon, city) \<Rightarrow>
          if lat = JNull \<or> lon = JNull then w
          else
            let (weather, c') = get_current_weather (api env) lat lon (client w);
                w1 = w\<lparr>client := c'\<rparr>
            in if \<not> truthy weather then w1
               else
                 (case notification_values weather of
                    Inl e \<Rightarrow> w1
                  | Inr (temp, desc, humidity, wind) \<Rightarrow>
                      (case send_message env user_id
                              (Weather_notification city temp desc humidity wind) w1 of
                         Inl e \<Rightarrow> w1
                       | Inr w2 \<Rightarrow>
                           (case bind_err (py_get user_data ''notifications'' (JObj []))
                                   (\<lambda>n. py_get n ''interval_h'' (JNum 2)) of
                              Inl e \<Rightarrow> w2
                            | Inr interval_h \<Rightarrow>
                                (case update_user_notification DEFAULT_DATA_FILE user_id
                                        (JBool True) interval_h
                                        (JStr (strftime env (now env) datetime_format))
                                        (store w2) of
                                   Inl e \<Rightarrow> w2
                                 | Inr (ok, s') \<Rightarrow> w2\<lparr>store := s'\<rparr>)))))"

text \<open>
  \<^verbatim>\<open>timedelta(hours=h)\<close>, in seconds: a number is needed, and the result has to stay within the
  range of \<^verbatim>\<open>timedelta\<close> (less than a thousand million days in either direction).
\<close>

definition timedelta_hours :: "json \<Rightarrow> rat option" where
  "timedelta_hours h =
     (case as_number h of
        None \<Rightarrow> None
      | Some x \<Rightarrow>
          if - 999999999 * 24 \<le> x \<and> x < 1000000000 * 24 then Some (x * 3600) else None)"

text \<open>
  The test of the notification loop on a stored \<^verbatim>\<open>last_sent\<close>: true when the text parses and
  less than the interval has passed since. Whatever raises inside is swallowed by the bare
  \<^verbatim>\<open>except\<close>, and the notification goes ahead.
\<close>

definition sent_recently :: "bot_env \<Rightarrow> json \<Rightarrow> json \<Rightarrow> bool" where
  "sent_recently env last_sent_str interval_h =
     (case last_sent_str of
        JStr text \<Rightarrow>
          (case strptime env text datetime_format of
             None \<Rightarrow> False
           | Some last_sent \<Rightarrow>
               (case timedelta_hours interval_h of
                  None \<Rightarrow> False
                | Some interval \<Rightarrow> now env - last_sent < interval))
      | _ \<Rightarrow> False)"

text \<open>
  The body of the loop of \<^verbatim>\<open>WeatherBot._check_and_send_notifications\<close> for one entry of the
  document. An exception inside is logged and the loop goes on with the next user.
\<close>

definition notify_user :: "bot_env \<Rightarrow> string \<times> json \<Rightarrow> world \<Rightarrow> world" where
  "notify_user env entry w =
     (case entry of
        (user_id_str, user_data) \<Rightarrow>
          (case int_of_str user_id_str of
             None \<Rightarrow> w
           | Some user_id \<Rightarrow>
               (case py_get user_data ''notifications'' (JObj []) of
                  Inl e \<Rightarrow> w
                | Inr notifications \<Rightarrow>
                    (case bind_err (py_get notifications ''enabled'' (JBool False)) (\<lambda>enabled.
                          bind_err (py_get notifications ''last_sent'' JNull) (\<lambda>last_sent_str.
                          bind_err (py_get notifications ''interval_h'' (JNum 2)) (\<lambda>interval_h.
                            Inr (enabled, last_sent_str, interval_h)))) of
                       Inl e \<Rightarrow> w
                     | Inr (enabled, last_sent_str, interval_h) \<Rightarrow>
                         if \<not> truthy enabled then w
                         else if truthy last_sent_str \<and> sent_recently env last_sent_str interval_h
                         then w
                         else send_notification env user_id user_data w))))"

text \<open>\<^verbatim>\<open>WeatherBot._check_and_send_notifications\<close>: one cycle of the background loop.\<close>

definition check_and_send_notifications :: "bot_env \<Rightarrow> world \<Rightarrow> world" where
  "check_and_send_notifications env w =
     (let (all_users, s') = load_all DEFAULT_DATA_FILE (store w)
      in fold (notify_user env) all_users (w\<lparr>store := s'\<rparr>))"


text \<open>
  Two properties of a user record, in the words of the specification: its notifications are
  enabled (the \<^verbatim>\<open>enabled\<close> entry of its \<^verbatim>\<open>notifications\<close> dictionary is true in Python's sense), and
  it holds saved coordinates (\<^verbatim>\<open>lat\<close> and \<^verbatim>\<open>lon\<close> are present and not \<^verbatim>\<open>None\<close>).
\<close>

definition notifications_enabled :: "json \<Rightarrow> bool" where
  "notifications_enabled user_data =
     (case user_data of
        JObj d \<Rightarrow>
          (case dict_get d ''notifications'' (JObj []) of
             JObj n \<Rightarrow> truthy (dict_get n ''enabled'' (JBool False))
           | _ \<Rightarrow> False)
      | _ \<Rightarrow> False)"

definition has_saved_coordinates :: "json \<Rightarrow> bool" where
  "has_saved_coordinates user_data =
     (case user_data of
        JObj d \<Rightarrow> dict_get d ''lat'' JNull \<noteq> JNull \<and> dict_get d ''lon'' JNull \<noteq> JNull
      | _ \<Rightarrow> False)"

text \<open>
  A property of the store that the proofs about the loop carry from one user to the next: the
  data file can be read and written and is a document in which \<open>key\<close> holds a dictionary (of
  distinct keys, as every dictionary is) with the property \<open>P\<close>.
\<close>

definition holds_record ::
  "string \<Rightarrow> string \<Rightarrow> ((string \<times> json) list \<Rightarrow> bool) \<Rightarrow> filesystem \<Rightarrow> bool" where
  "holds_record data_file key P s =
     (readable s data_file \<and> writable s data_file \<and>
      (\<exists>all_data r. files s data_file = Some (Document (JObj all_data)) \<and>
         map_of all_data key = Some (JObj r) \<and> distinct (map fst r) \<and> P r))"


section \<open>Conversation orchestrator: request handlers\<close>

text \<open>
  A handler takes the chat and the user of the incoming event. An exception that the handler
  does not catch is its result. The store of the bot is the default data file.
\<close>

text \<open>\<^verbatim>\<open>WeatherBot.handle_current_weather_request\<close>\<close>

definition handle_current_weather_request :: "bot_env \<Rightarrow> int \<Rightarrow> int \<Rightarrow> world \<Rightarrow> error + world" where
  "handle_current_weather_request env chat_id user_id w =
     (let (user_data, s') = load_user DEFAULT_DATA_FILE user_id (store w);
          w1 = w\<lparr>store := s'\<rparr>
      in bind_err (py_get user_data ''lat'' JNull) (\<lambda>lat.
         bind_err (py_get user_data ''lon'' JNull) (\<lambda>lon.
         bind_err (py_get user_data ''city'' (JStr [])) (\<lambda>city.
           if truthy lat \<and> truthy lon \<and> truthy city
           then send_message env chat_id (Saved_location_menu city) w1
           else send_message env chat_id Location_prompt w1))))"

text \<open>
  The location that the forecast and the extended-data requests use: the last-queried value
  of each field, or the saved one when the last-queried value is false in Python's sense.
\<close>

definition last_or_saved :: "json \<Rightarrow> error + (json \<times> json \<times> json)" where
  "last_or_saved user_data =
     bind_err (py_get user_data ''last_lat'' JNull) (\<lambda>last_lat.
     bind_err (py_get user_data ''lat'' JNull) (\<lambda>saved_lat.
     bind_err (py_get user_data ''last_lon'' JNull) (\<lambda>last_lon.
     bind_err (py_get user_data ''lon'' JNull) (\<lambda>saved_lon.
     bind_err (py_get user_data ''last_city'' JNull) (\<lambda>last_city.
     bind_err (py_get user_data ''city'' (JStr [])) (\<lambda>saved_city.
       Inr (py_or last_lat saved_lat, py_or last_lon saved_lon, py_or last_city saved_city)))))))"

text \<open>The keys of a list in the order in which they first appear.\<close>

definition first_seen :: "string list \<Rightarrow> string list" where
  "first_seen keys = rev (remdups (rev keys))"

text \<open>
  The day under which a forecast period is grouped: the date of its \<^verbatim>\<open>dt_txt\<close>, when there is
  one and it parses (a failure of \<^verbatim>\<open>strptime\<close> is swallowed by the bare \<^verbatim>\<open>except\<close>).
\<close>

definition period_day :: "bot_env \<Rightarrow> json \<Rightarrow> error + string option" where
  "period_day env item =
     bind_err (py_get item ''dt_txt'' (JStr [])) (\<lambda>dt_str.
       Inr (if truthy dt_str then
              (case dt_str of
                 JStr text \<Rightarrow>
                   (case strptime env text datetime_format of
                      Some dt \<Rightarrow> Some (strftime env dt date_format)
                    | None \<Rightarrow> None)
               | _ \<Rightarrow> None)
            else None))"

definition forecast_days :: "bot_env \<Rightarrow> json \<Rightarrow> error + string list" where
  "forecast_days env forecast =
     bind_err (py_iter forecast) (\<lambda>items.
     bind_err (traverse (period_day env) items) (\<lambda>days.
       Inr (first_seen (concat (map (\<lambda>d. case d of Some k \<Rightarrow> [k] | None \<Rightarrow> []) days)))))"

text \<open>
  The inline keyboard of the day selector: a button for each of the first five days whose key
  parses as a date, and the back button.
\<close>

definition day_button :: "bot_env \<Rightarrow> nat \<times> string \<Rightarrow> button list" where
  "day_button env numbered =
     (case numbered of
        (i, day_key) \<Rightarrow>
          (case strptime env day_key date_format of
             None \<Rightarrow> []
           | Some dt \<Rightarrow>
               if weekday env dt < 7
               then [Day_button i (weekday env dt) (''forecast_day_'' @ day_key)]
               else []))"

definition day_selector :: "bot_env \<Rightarrow> string list \<Rightarrow> button list" where
  "day_selector env days = concat (map (day_button env) (zip [1..<6] (take 5 days))) @ [Back_button]"

text \<open>\<^verbatim>\<open>WeatherBot.handle_forecast_request\<close>\<close>

definition handle_forecast_request :: "bot_env \<Rightarrow> int \<Rightarrow> int \<Rightarrow> world \<Rightarrow> error + world" where
  "handle_forecast_request env chat_id user_id w =
     (let (user_data, s') = load_user DEFAULT_DATA_FILE user_id (store w);
          w1 = w\<lparr>store := s'\<rparr>
      in bind_err (last_or_saved user_data) (\<lambda>(lat, lon, city).
           if \<not> truthy lat \<or> \<not> truthy lon then
             bind_err (send_message env chat_id Forecast_location_prompt w1) (\<lambda>w2.
               Inr (w2\<lparr>user_states := (user_states w2)
                          (user_id \<mapsto> [(''waiting_for_city'', JBool True),
                                       (''forecast_mode'', JBool True)])\<rparr>))
           else
             bind_err (send_message env chat_id (Fetching_forecast city) w1) (\<lambda>w2.
               let (forecast, c') = get_forecast_5d3h (api env) lat lon (client w2);
                   w3 = w2\<lparr>client := c'\<rparr>
               in if \<not> truthy forecast then send_message env chat_id Forecast_unavailable w3
                  else bind_err (forecast_days env forecast) (\<lambda>days.
                         send_message env chat_id (Day_selector (day_selector env days)) w3))))"

text \<open>
  Whether a forecast period belongs to the chosen day: its \<^verbatim>\<open>dt_txt\<close> is true and starts with
  the day key (a true value that is not a string has no \<^verbatim>\<open>startswith\<close>).
\<close>

definition period_of_day :: "string \<Rightarrow> json \<Rightarrow> error + bool" where
  "period_of_day day_key item =
     bind_err (py_get item ''dt_txt'' (JStr [])) (\<lambda>dt_str.
       if \<not> truthy dt_str then Inr False
       else (case dt_str of
               JStr text \<Rightarrow> Inr (is_prefix day_key text)
             | _ \<Rightarrow> Inl AttributeError))"

definition day_heading :: "bot_env \<Rightarrow> string \<Rightarrow> heading" where
  "day_heading env day_key =
     (case strptime env day_key date_format of
        None \<Rightarrow> Plain_heading day_key
      | Some dt \<Rightarrow>
          if weekday env dt < 7
          then Weekday_heading (weekday env dt) (strftime env dt ''%d.%m.%Y'')
          else Plain_heading day_key)"

text \<open>\<^verbatim>\<open>WeatherBot.handle_forecast_day\<close>\<close>

definition handle_forecast_day :: "bot_env \<Rightarrow> int \<Rightarrow> int \<Rightarrow> string \<Rightarrow> world \<Rightarrow> error + world" where
  "handle_forecast_day env chat_id user_id day_key w =
     (let (user_data, s') = load_user DEFAULT_DATA_FILE user_id (store w);
          w1 = w\<lparr>store := s'\<rparr>
      in bind_err (py_get user_data ''lat'' JNull) (\<lambda>lat.
         bind_err (py_get user_data ''lon'' JNull) (\<lambda>lon.
           if \<not> truthy lat \<or> \<not> truthy lon
           then send_message env chat_id Geolocation_not_found w1
           else
             let (forecast, c') = get_forecast_5d3h (api env) lat lon (client w1);
                 w2 = w1\<lparr>client := c'\<rparr>
             in if \<not> truthy forecast then send_message env chat_id Forecast_day_unavailable w2
                else bind_err (py_iter forecast) (\<lambda>items.
                     bind_err (traverse (period_of_day day_key) items) (\<lambda>flags.
                       let day_items = map fst (filter snd (zip items flags))
                       in if day_items = [] then send_message env chat_id No_data_for_day w2
                          else bind_err (format_forecast_day env day_items (day_heading env day_key))
                                 (\<lambda>forecast_text.
                                    send_message env chat_id (Day_forecast forecast_text) w2))))))"

text \<open>
  The weather part of the extended report: the values inserted into the template, in the
  order in which the source reads them. \<open>country_ru\<close> is the stored \<^verbatim>\<open>last_country\<close>.
\<close>

definition clock_time :: "bot_env \<Rightarrow> json \<Rightarrow> error + json" where
  "clock_time env stamp =
     (if \<not> truthy stamp then Inr (JStr ''N/A'')
      else (case as_number stamp of
              None \<Rightarrow> Inl TypeError
            | Some x \<Rightarrow>
                (case fromtimestamp env x of
                   None \<Rightarrow> Inl ValueError
                 | Some dt \<Rightarrow> Inr (JStr (strftime env dt ''%H:%M'')))))"

definition extended_weather_values :: "bot_env \<Rightarrow> json \<Rightarrow> json \<Rightarrow> json \<Rightarrow> error + json list" where
  "extended_weather_values env city country_ru weather =
     bind_err (py_get weather ''main'' (JObj [])) (\<lambda>main.
     bind_err (py_get main ''temp'' (JStr ''N/A'')) (\<lambda>temp.
     bind_err (py_get main ''feels_like'' (JStr ''N/A'')) (\<lambda>feels_like.
     bind_err (py_get main ''humidity'' (JStr ''N/A'')) (\<lambda>humidity.
     bind_err (py_get main ''pressure'' (JStr ''N/A'')) (\<lambda>pressure.
     bind_err (py_get weather ''wind'' (JObj [])) (\<lambda>wind_entry.
     bind_err (py_get wind_entry ''speed'' (JStr ''N/A'')) (\<lambda>wind_speed.
     bind_err (py_get weather ''weather'' (JArr [JObj []])) (\<lambda>conditions.
     bind_err (py_first conditions) (\<lambda>condition.
     bind_err (py_get condition ''description_ru'' (JStr ''N/A'')) (\<lambda>desc.
     bind_err (py_get weather ''sys'' (JObj [])) (\<lambda>sys.
     bind_err (py_get sys ''country'' (JStr [])) (\<lambda>country.
     bind_err (if \<not> truthy country_ru then translate_country_code env country else Inr country_ru)
       (\<lambda>country_name.
     bind_err (convert_pressure_hpa_to_mmhg env pressure) (\<lambda>pressure_mmhg.
     bind_err (py_get sys ''sunrise'' (JNum 0)) (\<lambda>sunrise.
     bind_err (py_get sys ''sunset'' (JNum 0)) (\<lambda>sunset.
     bind_err (clock_time env sunrise) (\<lambda>sunrise_str.
     bind_err (clock_time env sunset) (\<lambda>sunset_str.
       (case desc of
          JStr text \<Rightarrow>
            Inr [city, country_name, temp, feels_like, desc, humidity, pressure_mmhg,
                 wind_speed, sunrise_str, sunset_str]
        | _ \<Rightarrow> Inl AttributeError)))))))))))))))))))"

text \<open>
  The air-quality part: the translated status and the two particulate values, which the
  template formats with one decimal (\<^verbatim>\<open>:.1f\<close>), first \<^verbatim>\<open>pm25\<close>, then \<^verbatim>\<open>pm10\<close>. That format
  takes a number; a string raises \<^verbatim>\<open>ValueError\<close>, and \<^verbatim>\<open>None\<close>, a list or a dictionary raises
  \<^verbatim>\<open>TypeError\<close>.
\<close>

definition format_1f :: "json \<Rightarrow> error + json" where
  "format_1f x =
     (case x of
        JStr t \<Rightarrow> Inl ValueError
      | _ \<Rightarrow> if as_number x = None then Inl TypeError else Inr x)"

definition extended_air_values :: "bot_env \<Rightarrow> json \<Rightarrow> error + json list option" where
  "extended_air_values env pollution_data =
     (if \<not> truthy pollution_data then Inr None
      else
        bind_err (py_get pollution_data ''components'' (JObj [])) (\<lambda>components.
        bind_err (if \<not> truthy components then analyze_air_pollution (translate_pollution_status env) [] True
                  else (case components of
                          JObj d \<Rightarrow> analyze_air_pollution (translate_pollution_status env) d True
                        | _ \<Rightarrow> Inl AttributeError)) (\<lambda>analysis.
          let status_ru = dict_get analysis ''status_ru'' (JStr unknown_ru);
              pm25 = dict_get analysis ''pm25'' (JNum 0);
              pm10 = dict_get analysis ''pm10'' (JNum 0)
          in bind_err (format_1f pm25) (\<lambda>pm25_text.
             bind_err (format_1f pm10) (\<lambda>pm10_text.
               Inr (Some [status_ru, pm25_text, pm10_text]))))))"

text \<open>\<^verbatim>\<open>WeatherBot.handle_extended_data_request\<close>\<close>

definition handle_extended_data_request :: "bot_env \<Rightarrow> int \<Rightarrow> int \<Rightarrow> world \<Rightarrow> error + world" where
  "handle_extended_data_request env chat_id user_id w =
     (let (user_data, s') = load_user DEFAULT_DATA_FILE user_id (store w);
          w1 = w\<lparr>store := s'\<rparr>
      in bind_err (last_or_saved user_data) (\<lambda>(lat, lon, city).
         bind_err (py_get user_data ''last_country'' (JStr [])) (\<lambda>country_ru.
           if \<not> truthy lat \<or> \<not> truthy lon then
             bind_err (send_message env chat_id Extended_location_prompt w1) (\<lambda>w2.
               Inr (w2\<lparr>user_states := (user_states w2)
                          (user_id \<mapsto> [(''waiting_for_city'', JBool True),
                                       (''extended_mode'', JBool True)])\<rparr>))
           else
             bind_err (send_message env chat_id (Fetching_extended city) w1) (\<lambda>w2.
               let (weather, c1) = get_current_weather (api env) lat lon (client w2);
                   (pollution_data, c2) = get_air_pollution (api env) lat lon c1;
                   w3 = w2\<lparr>client := c2\<rparr>
               in if \<not> truthy weather then send_message env chat_id Weather_unavailable w3
                  else bind_err (extended_weather_values env city country_ru weather) (\<lambda>values.
                       bind_err (extended_air_values env pollution_data) (\<lambda>air.
                         send_message env chat_id (Extended_report values air) w3))))))"

text \<open>
  \<^verbatim>\<open>WeatherBot.handle_inline_query\<close>. A failure of \<^verbatim>\<open>answer_inline_query\<close> is caught and logged.
\<close>

definition handle_inline_query :: "bot_env \<Rightarrow> string \<Rightarrow> string \<Rightarrow> world \<Rightarrow> error + world" where
  "handle_inline_query env query_id query w =
     (let query_text = strip query
      in if query_text = [] \<or> length query_text < 2 then Inr w
         else
           let (coords, c1) = get_coordinates (api env) query_text 1 (client w)
           in (case coords of
                 None \<Rightarrow> Inr (w\<lparr>client := c1\<rparr>)
               | Some (lat, lon) \<Rightarrow>
                   let (weather, c2) = get_current_weather (api env) (JNum lat) (JNum lon) c1;
                       w1 = w\<lparr>client := c2\<rparr>
                   in if \<not> truthy weather then Inr w1
                      else
                        bind_err (py_get weather ''name'' (JStr query_text)) (\<lambda>city_name.
                        bind_err (py_get weather ''main'' (JObj [])) (\<lambda>main.
                        bind_err (py_get main ''temp'' (JStr ''N/A'')) (\<lambda>temp.
                        bind_err (py_get weather ''weather'' (JArr [JObj []])) (\<lambda>conditions.
                        bind_err (py_first conditions) (\<lambda>condition.
                        bind_err (py_get condition ''description_ru'' (JStr ''N/A'')) (\<lambda>desc.
                          (case desc of
                             JStr text \<Rightarrow>
                               (let result =
                                      \<lparr>article_id = str_int (py_hash (hash_secret env) query_text),
                                       article_city = city_name, article_temp = temp,
                                       article_desc = desc\<rparr>
                                in if answers_inline env query_id
                                   then Inr (w1\<lparr>inline_answers :=
                                                inline_answers w1 @ [(query_id, result)]\<rparr>)
                                   else Inr w1)
                           | _ \<Rightarrow> Inl AttributeError)))))))))"


section \<open>Concrete states for the worked examples\<close>

text \<open>A file system with the given files on which every read, write and rename succeeds.\<close>

definition fs_example :: "(string \<rightharpoonup> content) \<Rightarrow> filesystem" where
  "fs_example fs = \<lparr>files = fs, readable = (\<lambda>_. True), writable = (\<lambda>_. True), renamable = (\<lambda>_. True)\<rparr>"

text \<open>
  A client environment whose provider answers the \<open>n\<close>-th request with \<open>answers n\<close>, and a
  client that has made no call and cached nothing.
\<close>

definition env_example :: "(nat \<Rightarrow> http_result) \<Rightarrow> client_env" where
  "env_example answers =
     \<lparr>api_key = ''key'', provider = (\<lambda>n url params. answers n), clock = 1000, ttl = 600,
      format_value = (\<lambda>v. case v of JNum r \<Rightarrow> str_int (floor r) | JStr s \<Rightarrow> s | _ \<Rightarrow> ''None''),
      float_of_str = (\<lambda>s. None), translate_weather_description = Inr\<rparr>"

definition client_example :: client_state where
  "client_example = \<lparr>cache = Map.empty, calls = 0\<rparr>"

text \<open>
  An environment of the bot in which the platform accepts every message, the clock reads two
  hours, one timestamp and one date parse, every time is formatted as a text of the first
  of January 1970 (a Thursday) and the hash secret is given; a
  world with the given files in which nothing has been sent; a current-weather payload; a
  user record with notifications enabled that has never been notified, and one that was
  notified half an hour before the clock reading.
\<close>

definition bot_env_example :: "(nat \<Rightarrow> http_result) \<Rightarrow> 64 word \<times> 64 word \<Rightarrow> bot_env" where
  "bot_env_example answers secret =
     \<lparr>api = env_example answers, now = 7200,
      strptime = (\<lambda>s fmt. if fmt = datetime_format \<and> s = ''1970-01-01 01:30:00'' then Some 5400
                        else if fmt = date_format \<and> s = ''1970-01-01'' then Some 0
                        else None),
      strftime = (\<lambda>t fmt. if fmt = date_format then ''1970-01-01'' else ''1970-01-01 02:00:00''),
      weekday = (\<lambda>t. 3), fromtimestamp = Some,
      delivers = (\<lambda>chat. True), answers_inline = (\<lambda>query_id. True),
      hash_secret = secret,
      translate_country_code = Inr, convert_pressure_hpa_to_mmhg = Inr,
      translate_pollution_status = JStr,
      format_forecast_day = (\<lambda>items h. Inr ''forecast'')\<rparr>"

definition world_example :: "(string \<rightharpoonup> content) \<Rightarrow> world" where
  "world_example fs =
     \<lparr>store = fs_example fs, client = client_example, outbox = [], inline_answers = [],
      user_states = Map.empty\<rparr>"

definition weather_example :: json where
  "weather_example =
     JObj [(''name'', JStr ''Oslo''),
           (''main'', JObj [(''temp'', JNum 5), (''humidity'', JNum 80)]),
           (''wind'', JObj [(''speed'', JNum 3)]),
           (''weather'', JArr [JObj [(''description'', JStr ''rain'')]])]"

definition user_example :: "(string \<times> json) list" where
  "user_example =
     [(''lat'', JNum 59), (''lon'', JNum 10), (''city'', JStr ''Oslo''),
      (''notifications'', JObj [(''enabled'', JBool True), (''interval_h'', JNum 1)])]"

definition notified_user_example :: "(string \<times> json) list" where
  "notified_user_example =
     [(''lat'', JNum 59), (''lon'', JNum 10), (''city'', JStr ''Oslo''),
      (''notifications'', JObj [(''enabled'', JBool True), (''interval_h'', JNum 1),
                                (''last_sent'', JStr ''1970-01-01 01:30:00'')])]"

text \<open>
  A provider that answers the first request with one geocoding candidate and every later
  request with a current-weather payload.
\<close>

definition london_weather :: json where
  "london_weather =
     JObj [(''name'', JStr ''London''),
           (''main'', JObj [(''temp'', JNum 12)]),
           (''weather'', JArr [JObj [(''description'', JStr ''mist'')]])]"

definition london_answers :: "nat \<Rightarrow> http_result" where
  "london_answers n =
     (if n = 0
      then Response 200 (Some (JArr [JObj [(''name'', JStr ''London''), (''lat'', JNum 51.5),
                                           (''lon'', JNum (- 0.12))]]))
      else Response 200 (Some london_weather))"

text \<open>
  A forecast payload with two periods of one day; a record that holds a last-queried location
  and no saved one; the same with a last-queried latitude of zero; a record with a saved
  location whose last-queried latitude is zero; and a record whose saved and last-queried
  location is latitude 0, longitude 0.
\<close>

definition forecast_example :: json where
  "forecast_example =
     JObj [(''list'', JArr [JObj [(''dt_txt'', JStr ''1970-01-01 01:30:00''),
                                  (''main'', JObj [(''temp'', JNum 4)])],
                            JObj [(''dt_txt'', JStr ''1970-01-01 01:30:00''),
                                  (''main'', JObj [(''temp'', JNum 6)])]])]"

definition last_only_example :: "(string \<times> json) list" where
  "last_only_example =
     [(''last_city'', JStr ''London''), (''last_lat'', JNum 51), (''last_lon'', JNum 1)]"

definition last_zero_example :: "(string \<times> json) list" where
  "last_zero_example =
     [(''last_city'', JStr ''Libreville''), (''last_lat'', JNum 0), (''last_lon'', JNum 9)]"

definition saved_and_last_zero_example :: "(string \<times> json) list" where
  "saved_and_last_zero_example =
     [(''city'', JStr ''Moscow''), (''lat'', JNum 55), (''lon'', JNum 37),
      (''last_lat'', JNum 0), (''last_lon'', JNum 10)]"

definition zero_location_example :: "(string \<times> json) list" where
  "zero_location_example =
     [(''city'', JStr ''Null Island''), (''lat'', JNum 0), (''lon'', JNum 0),
      (''last_city'', JStr ''Null Island''), (''last_lat'', JNum 0), (''last_lon'', JNum 0)]"


section \<open>Air-quality analysis: the five tiers\<close>

text \<open>
  Claim C1. For a components map that holds a number \<open>v\<close> under \<^verbatim>\<open>pm2_5\<close>, the analysis returns
  a result whose status and index are fixed by \<open>v\<close> alone, whatever else the map holds and
  whether or not the extended form is asked for: Good and 1 up to 12, Fair and 2 above 12 and
  up to 35, Moderate and 3 above 35 and up to 55, Poor and 4 above 55 and up to 150, Very Poor
  and 5 above 150. The breakpoints 12, 35, 55 and 150 belong to the lower tier.
\<close>

theorem analyze_air_pollution_tiers:
  assumes "map_of components ''pm2_5'' = Some (JNum v)"
  shows "\<exists>r. analyze_air_pollution tr components ext = Inr r \<and>
           (v \<le> 12 \<longrightarrow>
              map_of r ''status'' = Some (JStr ''Good'') \<and> map_of r ''aqi'' = Some (JNum 1)) \<and>
           (12 < v \<and> v \<le> 35 \<longrightarrow>
              map_of r ''status'' = Some (JStr ''Fair'') \<and> map_of r ''aqi'' = Some (JNum 2)) \<and>
           (35 < v \<and> v \<le> 55 \<longrightarrow>
              map_of r ''status'' = Some (JStr ''Moderate'') \<and> map_of r ''aqi'' = Some (JNum 3)) \<and>
           (55 < v \<and> v \<le> 150 \<longrightarrow>
              map_of r ''status'' = Some (JStr ''Poor'') \<and> map_of r ''aqi'' = Some (JNum 4)) \<and>
           (150 < v \<longrightarrow>
              map_of r ''status'' = Some (JStr ''Very Poor'') \<and> map_of r ''aqi'' = Some (JNum 5))"
proof -
  from assms have ne: "components \<noteq> []" by auto
  from assms have g: "dict_get components ''pm2_5'' (JNum 0) = JNum v"
    by (simp add: dict_get_def)
  show ?thesis
    using ne g by (simp add: analyze_air_pollution_def classify_pm25_def Let_def)
qed

theorem analyze_air_pollution_tiers_witness:
  "map_of [(''pm2_5'', JNum 12), (''pm10'', JNum 20)] ''pm2_5'' = Some (JNum 12) \<and>
   (\<exists>r. analyze_air_pollution JStr [(''pm2_5'', JNum 12), (''pm10'', JNum 20)] False = Inr r \<and>
        map_of r ''status'' = Some (JStr ''Good'') \<and> map_of r ''aqi'' = Some (JNum 1))"
  using analyze_air_pollution_tiers [of "[(''pm2_5'', JNum 12), (''pm10'', JNum 20)]" 12 JStr False]
  by simp


section \<open>Wind direction\<close>

text \<open>
  Below 360 the loop returns the octant of the bearing: north from 0 up to 22.5 (0 included)
  and again from 337.5, and the seven other directions in between, each on a half-open
  interval that contains its lower boundary.
\<close>

lemma wind_dir_below_360:
  assumes "0 \<le> d" "d < 360"
  shows "wind_dir (JNum d) =
           Inr (if d < 22.5 then North else if d < 67.5 then North_East
                else if d < 112.5 then East else if d < 157.5 then South_East
                else if d < 202.5 then South else if d < 247.5 then South_West
                else if d < 292.5 then West else if d < 337.5 then North_West else North)"
  using assms by (simp add: wind_dir_def wind_directions_def)

text \<open>
  Claim C2. The claim says that a bearing of exactly 360 wraps back to north. In the code the
  last interval of the table is tested as \<open>337.5 \<le> d < 360\<close>, and the extra test
  \<open>start = 0 \<and> d = 0\<close> only repeats what the first interval already accepts, so no entry
  matches 360 and the label stays the initial question mark: a response whose wind bearing is
  360 is rendered with an undetermined direction.
\<close>

theorem wind_dir_360_undetermined:
  "city_weather_wind_dir (JObj [(''wind'', JObj [(''speed'', JNum 4), (''deg'', JNum 360)])])
     = Inr Undetermined"
  by (simp add: city_weather_wind_dir_def py_get_def dict_get_def wind_dir_def wind_directions_def)


section \<open>User data store: merge on save, recovery on load\<close>

lemma map_of_dict_update:
  "distinct (map fst data) \<Longrightarrow> map_of (dict_update d data) = map_of d ++ map_of data"
proof (induction data arbitrary: d)
  case Nil
  then show ?case by (simp add: dict_update_def)
next
  case (Cons p data)
  obtain k v where p: "p = (k, v)" by (cases p)
  from Cons.prems p have notin: "k \<notin> dom (map_of data)" and dist: "distinct (map fst data)"
    by (auto simp: dom_map_of_conv_image_fst)
  have "map_of (dict_update d (p # data)) = map_of (dict_update (AList.update k v d) data)"
    by (simp add: dict_update_def p)
  also have "\<dots> = (map_of d)(k \<mapsto> v) ++ map_of data"
    by (simp only: Cons.IH [OF dist] update_conv')
  also have "\<dots> = (map_of d ++ map_of data)(k \<mapsto> v)"
    using notin by (rule map_add_upd_left)
  finally show ?case by (simp only: p map_of.simps fst_conv snd_conv map_add_upd)
qed

lemma load_data_flags:
  "load_data df s = (d, s') \<Longrightarrow>
     readable s' = readable s \<and> writable s' = writable s \<and> renamable s' = renamable s"
  by (auto simp: load_data_def backup_and_reset_def ensure_file_exists_def
           split: option.splits if_splits content.splits json.splits)

lemma save_data_ok:
  assumes "writable s df"
  shows "\<exists>s'. save_data df data s = (True, s') \<and> files s' df = Some (Document (JObj data)) \<and>
           readable s' = readable s \<and> writable s' = writable s \<and> renamable s' = renamable s"
  using assms by (auto simp: save_data_def Let_def split: option.splits)

lemma load_data_document:
  "files s df = Some (Document (JObj d)) \<Longrightarrow> readable s df \<Longrightarrow> load_data df s = (d, s)"
  by (simp add: load_data_def)


lemma load_user_fst:
  "fst (load_user df uid s) =
     (case map_of (fst (load_data df s)) (str_int uid) of Some v \<Rightarrow> v | None \<Rightarrow> JObj [])"
  by (simp add: load_user_def Let_def split: prod.splits option.splits)

lemma load_user_snd: "snd (load_user df uid s) = snd (load_data df s)"
  by (simp add: load_user_def Let_def split: prod.splits option.splits)

lemma save_user_step:
  assumes r: "readable s df" and w: "writable s df"
    and rec: "fst (load_user df uid s) = JObj r0"
    and dist: "distinct (map fst data)"
  shows "\<exists>s' r1. save_user df uid data s = Inr (True, s') \<and>
           readable s' = readable s \<and> writable s' = writable s \<and>
           load_user df uid s' = (JObj r1, s') \<and>
           map_of r1 = map_of r0 ++ map_of data \<and>
           (map_of (fst (load_data df s)) (str_int uid) = None \<longrightarrow> r1 = data)"
proof -
  obtain all_data s1 where ld: "load_data df s = (all_data, s1)"
    by (cases "load_data df s")
  from load_data_flags [OF ld] w have w1: "writable s1 df" and fl1: "readable s1 = readable s"
    "writable s1 = writable s" by simp_all
  define key where "key = str_int uid"
  define r1 where "r1 = (case map_of all_data key of None \<Rightarrow> data | Some _ \<Rightarrow> dict_update r0 data)"
  define all' where "all' = AList.update key (JObj r1) all_data"
  from save_data_ok [OF w1, of all'] obtain s' where
    sd: "save_data df all' s1 = (True, s')" and f': "files s' df = Some (Document (JObj all'))"
    and fl': "readable s' = readable s1" "writable s' = writable s1"
    by blast
  have su: "save_user df uid data s = Inr (True, s')"
  proof (cases "map_of all_data key")
    case None
    then show ?thesis
      using ld sd by (simp add: save_user_def key_def [symmetric] all'_def r1_def)
  next
    case (Some v)
    with rec ld have "v = JObj r0"
      by (simp add: load_user_fst key_def)
    with Some show ?thesis
      using ld sd by (simp add: save_user_def key_def [symmetric] all'_def r1_def)
  qed
  have rd': "readable s' df" using fl' fl1 r by simp
  have "load_data df s' = (all', s')"
    using f' rd' by (rule load_data_document)
  moreover have "map_of all' key = Some (JObj r1)"
    by (simp add: all'_def update_conv')
  ultimately have lu: "load_user df uid s' = (JObj r1, s')"
    by (simp add: load_user_def key_def [symmetric])
  have m: "map_of r1 = map_of r0 ++ map_of data"
  proof (cases "map_of all_data key")
    case None
    with rec ld have "r0 = []" by (simp add: load_user_fst key_def)
    with None show ?thesis by (simp add: r1_def)
  next
    case (Some v)
    then show ?thesis using dist by (simp add: r1_def map_of_dict_update)
  qed
  have c: "map_of (fst (load_data df s)) (str_int uid) = None \<longrightarrow> r1 = data"
    using ld by (simp add: r1_def key_def)
  from su fl' fl1 lu m c show ?thesis by auto
qed

text \<open>
  Claim C3. On a store whose data file can be read and written, and for a user whose stored
  value is a dictionary \<open>r0\<close> (the empty one when the user has no record), three saves in a
  row succeed. After two saves with disjoint field sets the record holds every field of both
  and keeps the other fields it had; the third save overwrites exactly the fields it names and
  leaves every other field unchanged; and when no record existed, the first save creates one
  that holds exactly the given fields.
\<close>

theorem save_user_shallow_merge:
  assumes io: "readable s0 df" "writable s0 df"
    and rec: "fst (load_user df uid s0) = JObj r0"
    and dist: "distinct (map fst d1)" "distinct (map fst d2)" "distinct (map fst d3)"
    and disj: "fst ` set d1 \<inter> fst ` set d2 = {}"
  shows "\<exists>s1 s2 s3 r1 r2 r3.
           save_user df uid d1 s0 = Inr (True, s1) \<and> fst (load_user df uid s1) = JObj r1 \<and>
           save_user df uid d2 s1 = Inr (True, s2) \<and> fst (load_user df uid s2) = JObj r2 \<and>
           save_user df uid d3 s2 = Inr (True, s3) \<and> fst (load_user df uid s3) = JObj r3 \<and>
           (\<forall>k v. (k, v) \<in> set d1 \<union> set d2 \<longrightarrow> map_of r2 k = Some v) \<and>
           (\<forall>k. k \<notin> fst ` set d1 \<union> fst ` set d2 \<longrightarrow> map_of r2 k = map_of r0 k) \<and>
           (\<forall>k v. (k, v) \<in> set d3 \<longrightarrow> map_of r3 k = Some v) \<and>
           (\<forall>k. k \<notin> fst ` set d3 \<longrightarrow> map_of r3 k = map_of r2 k) \<and>
           (map_of (fst (load_data df s0)) (str_int uid) = None \<longrightarrow> r1 = d1)"
proof -
  from save_user_step [OF io rec dist(1)] obtain s1 r1 where
    1: "save_user df uid d1 s0 = Inr (True, s1)" "readable s1 = readable s0"
       "writable s1 = writable s0" "load_user df uid s1 = (JObj r1, s1)"
       "map_of r1 = map_of r0 ++ map_of d1"
       "map_of (fst (load_data df s0)) (str_int uid) = None \<longrightarrow> r1 = d1"
    by (elim exE conjE) (rule that; assumption)
  then have io1: "readable s1 df" "writable s1 df" and rec1: "fst (load_user df uid s1) = JObj r1"
    using io by simp_all
  from save_user_step [OF io1 rec1 dist(2)] obtain s2 r2 where
    2: "save_user df uid d2 s1 = Inr (True, s2)" "readable s2 = readable s1"
       "writable s2 = writable s1" "load_user df uid s2 = (JObj r2, s2)"
       "map_of r2 = map_of r1 ++ map_of d2"
    by (elim exE conjE) (rule that; assumption)
  then have io2: "readable s2 df" "writable s2 df" and rec2: "fst (load_user df uid s2) = JObj r2"
    using io1 by simp_all
  from save_user_step [OF io2 rec2 dist(3)] obtain s3 r3 where
    3: "save_user df uid d3 s2 = Inr (True, s3)" "load_user df uid s3 = (JObj r3, s3)"
       "map_of r3 = map_of r2 ++ map_of d3"
    by (elim exE conjE) (rule that; assumption)
  have m2: "map_of r2 = map_of r0 ++ map_of d1 ++ map_of d2"
    using 1(5) 2(5) by simp
  have u: "\<forall>k v. (k, v) \<in> set d1 \<union> set d2 \<longrightarrow> map_of r2 k = Some v"
  proof (intro allI impI)
    fix k v assume kv: "(k, v) \<in> set d1 \<union> set d2"
    show "map_of r2 k = Some v"
    proof (cases "(k, v) \<in> set d2")
      case True
      then have "map_of d2 k = Some v" using dist(2) by simp
      then show ?thesis by (simp add: m2)
    next
      case False
      with kv have in1: "(k, v) \<in> set d1" by simp
      then have "k \<in> fst ` set d1" by force
      with disj have "k \<notin> fst ` set d2" by blast
      then have "map_of d2 k = None" by (simp add: map_of_eq_None_iff)
      moreover from in1 dist(1) have "map_of d1 k = Some v" by simp
      ultimately show ?thesis by (simp add: m2 map_add_def)
    qed
  qed
  have k2: "\<forall>k. k \<notin> fst ` set d1 \<union> fst ` set d2 \<longrightarrow> map_of r2 k = map_of r0 k"
  proof (intro allI impI)
    fix k assume "k \<notin> fst ` set d1 \<union> fst ` set d2"
    then have "map_of d1 k = None" "map_of d2 k = None"
      by (simp_all add: map_of_eq_None_iff)
    then show "map_of r2 k = map_of r0 k" by (simp add: m2 map_add_def)
  qed
  have o: "\<forall>k v. (k, v) \<in> set d3 \<longrightarrow> map_of r3 k = Some v"
    using dist(3) by (simp add: 3(3))
  have k3: "\<forall>k. k \<notin> fst ` set d3 \<longrightarrow> map_of r3 k = map_of r2 k"
  proof (intro allI impI)
    fix k assume "k \<notin> fst ` set d3"
    then have "map_of d3 k = None"
      by (simp add: map_of_eq_None_iff)
    then show "map_of r3 k = map_of r2 k" by (simp add: 3(3) map_add_def)
  qed
  from 1(1) rec1 2(1) rec2 3(1) 3(2) u k2 o k3 1(6) show ?thesis
    by (intro exI [of _ s1] exI [of _ s2] exI [of _ s3] exI [of _ r1] exI [of _ r2] exI [of _ r3])
       simp
qed

lemma str_int_7: "str_int 7 = ''7''"
  by (simp add: str_int_def str_nat.simps)


theorem save_user_shallow_merge_witness:
  "readable (fs_example Map.empty) ''User_Data.json'' \<and>
   writable (fs_example Map.empty) ''User_Data.json'' \<and>
   fst (load_user ''User_Data.json'' 7 (fs_example Map.empty)) = JObj [] \<and>
   distinct (map fst [(''city'', JStr ''Oslo'')]) \<and>
   fst ` set [(''city'', JStr ''Oslo'')] \<inter> fst ` set [(''lat'', JNum 59.9)] = {} \<and>
   (\<exists>s1 s2 s3 r1 r2 r3.
      save_user ''User_Data.json'' 7 [(''city'', JStr ''Oslo'')] (fs_example Map.empty) = Inr (True, s1) \<and>
      fst (load_user ''User_Data.json'' 7 s1) = JObj r1 \<and>
      save_user ''User_Data.json'' 7 [(''lat'', JNum 59.9)] s1 = Inr (True, s2) \<and>
      fst (load_user ''User_Data.json'' 7 s2) = JObj r2 \<and>
      save_user ''User_Data.json'' 7 [(''city'', JStr ''Bergen'')] s2 = Inr (True, s3) \<and>
      fst (load_user ''User_Data.json'' 7 s3) = JObj r3 \<and>
      map_of r2 ''city'' = Some (JStr ''Oslo'') \<and> map_of r2 ''lat'' = Some (JNum 59.9) \<and>
      map_of r3 ''city'' = Some (JStr ''Bergen'') \<and> map_of r3 ''lat'' = Some (JNum 59.9) \<and>
      r1 = [(''city'', JStr ''Oslo'')])"
proof -
  let ?s = "fs_example Map.empty" and ?df = "''User_Data.json''"
  have h1: "readable ?s ?df" and h2: "writable ?s ?df"
    by (simp_all add: fs_example_def)
  have ld: "load_data ?df ?s = ([], ?s)"
    by (simp add: load_data_def fs_example_def)
  have h3: "fst (load_user ?df 7 ?s) = JObj []"
    by (simp add: load_user_def ld)
  have h4: "distinct (map fst [(''city'', JStr ''Oslo'')])"
    "distinct (map fst [(''lat'', JNum 59.9)])" "distinct (map fst [(''city'', JStr ''Bergen'')])"
    by simp_all
  have h5: "fst ` set [(''city'', JStr ''Oslo'')] \<inter> fst ` set [(''lat'', JNum 59.9)] = {}"
    by simp
  have h6: "map_of (fst (load_data ?df ?s)) (str_int 7) = None"
    by (simp add: ld)
  from save_user_shallow_merge [OF h1 h2 h3 h4 h5] obtain s1 s2 s3 r1 r2 r3 where
    c: "save_user ?df 7 [(''city'', JStr ''Oslo'')] ?s = Inr (True, s1)"
       "fst (load_user ?df 7 s1) = JObj r1"
       "save_user ?df 7 [(''lat'', JNum 59.9)] s1 = Inr (True, s2)"
       "fst (load_user ?df 7 s2) = JObj r2"
       "save_user ?df 7 [(''city'', JStr ''Bergen'')] s2 = Inr (True, s3)"
       "fst (load_user ?df 7 s3) = JObj r3"
       "\<forall>k v. (k, v) \<in> set [(''city'', JStr ''Oslo'')] \<union> set [(''lat'', JNum 59.9)] \<longrightarrow> map_of r2 k = Some v"
       "\<forall>k v. (k, v) \<in> set [(''city'', JStr ''Bergen'')] \<longrightarrow> map_of r3 k = Some v"
       "\<forall>k. k \<notin> fst ` set [(''city'', JStr ''Bergen'')] \<longrightarrow> map_of r3 k = map_of r2 k"
       "map_of (fst (load_data ?df ?s)) (str_int 7) = None \<longrightarrow> r1 = [(''city'', JStr ''Oslo'')]"
    by (elim exE conjE) (rule that; assumption)
  from c(7) have a: "map_of r2 ''city'' = Some (JStr ''Oslo'')" "map_of r2 ''lat'' = Some (JNum 59.9)"
    by simp_all
  from c(8) have b: "map_of r3 ''city'' = Some (JStr ''Bergen'')" by simp
  from c(9) a(2) have b2: "map_of r3 ''lat'' = Some (JNum 59.9)" by simp
  from c(10) h6 have e: "r1 = [(''city'', JStr ''Oslo'')]" by simp
  from h1 h2 h3 h4(1) h5 c(1-6) a b b2 e show ?thesis by blast
qed


text \<open>
  \<open>load_user\<close> has no error result: every exception of the source is caught inside
  \<^verbatim>\<open>_load_data\<close>. For a user that the on-disk document does not hold it returns the empty
  record. When \<^verbatim>\<open>json.load\<close> raises \<^verbatim>\<open>JSONDecodeError\<close> on the file (and the operating system
  lets it be read, renamed and written), the load moves the text to the \<^verbatim>\<open>.corrupted\<close>
  sibling, writes an empty document in its place and returns the empty record, and so does
  every load after it.
\<close>

lemma load_user_unknown_or_syntax_error:
  "((\<forall>d. files s df = Some (Document (JObj d)) \<longrightarrow> map_of d (str_int uid) = None) \<longrightarrow>
      fst (load_user df uid s) = JObj []) \<and>
   (files s df = Some (Garbage t) \<and> readable s df \<and> renamable s df \<and> writable s df \<longrightarrow>
      (\<exists>s'. load_user df uid s = (JObj [], s') \<and>
            files s' (df @ ''.corrupted'') = Some (Garbage t) \<and>
            files s' df = Some (Document (JObj [])) \<and>
            (\<forall>uid'. load_user df uid' s' = (JObj [], s'))))"
proof (intro conjI impI)
  assume "\<forall>d. files s df = Some (Document (JObj d)) \<longrightarrow> map_of d (str_int uid) = None"
  then show "fst (load_user df uid s) = JObj []"
    by (auto simp: load_user_fst load_data_def
             split: option.splits content.splits json.splits)
next
  assume a: "files s df = Some (Garbage t) \<and> readable s df \<and> renamable s df \<and> writable s df"
  define s' where "s' = backup_and_reset df s"
  have ld: "load_data df s = ([], s')"
    using a by (simp add: load_data_def s'_def)
  have f1: "files s' (df @ ''.corrupted'') = Some (Garbage t)"
    and f2: "files s' df = Some (Document (JObj []))" and r': "readable s' df"
    using a by (simp_all add: s'_def backup_and_reset_def ensure_file_exists_def)
  have "load_data df s' = ([], s')"
    using f2 r' by (rule load_data_document)
  then have "\<forall>uid'. load_user df uid' s' = (JObj [], s')"
    by (simp add: load_user_def)
  moreover have "load_user df uid s = (JObj [], s')"
    using ld by (simp add: load_user_def)
  ultimately show "\<exists>s'. load_user df uid s = (JObj [], s') \<and>
            files s' (df @ ''.corrupted'') = Some (Garbage t) \<and>
            files s' df = Some (Document (JObj [])) \<and>
            (\<forall>uid'. load_user df uid' s' = (JObj [], s'))"
    using f1 f2 by blast
qed

lemma load_user_unknown_or_syntax_error_example:
  "files (fs_example [''User_Data.json'' \<mapsto> Document (JObj [(''7'', JObj [(''city'', JStr ''Oslo'')])])])
      ''User_Data.json'' = Some (Document (JObj [(''7'', JObj [(''city'', JStr ''Oslo'')])])) \<and>
   map_of [(''7'', JObj [(''city'', JStr ''Oslo'')])] (str_int 8) = None \<and>
   fst (load_user ''User_Data.json'' 8
         (fs_example [''User_Data.json'' \<mapsto> Document (JObj [(''7'', JObj [(''city'', JStr ''Oslo'')])])]))
     = JObj [] \<and>
   files (fs_example [''User_Data.json'' \<mapsto> Garbage ''{oops''])
      ''User_Data.json'' = Some (Garbage ''{oops'') \<and>
   (\<exists>s'. load_user ''User_Data.json'' 7 (fs_example [''User_Data.json'' \<mapsto> Garbage ''{oops'']) = (JObj [], s') \<and>
         files s' ''User_Data.json.corrupted'' = Some (Garbage ''{oops'') \<and>
         files s' ''User_Data.json'' = Some (Document (JObj [])) \<and>
         load_user ''User_Data.json'' 7 s' = (JObj [], s'))"
proof -
  let ?s = "fs_example [''User_Data.json'' \<mapsto> Document (JObj [(''7'', JObj [(''city'', JStr ''Oslo'')])])]"
  let ?g = "fs_example [''User_Data.json'' \<mapsto> Garbage ''{oops'']"
  let ?df = "''User_Data.json''"
  have h1: "\<forall>d. files ?s ?df = Some (Document (JObj d)) \<longrightarrow> map_of d (str_int 8) = None"
    by (simp add: fs_example_def str_int_def str_nat.simps)
  have h2: "files ?g ?df = Some (Garbage ''{oops'') \<and> readable ?g ?df \<and> renamable ?g ?df \<and> writable ?g ?df"
    by (simp add: fs_example_def)
  from load_user_unknown_or_syntax_error [of ?s ?df 8] h1
  have c1: "fst (load_user ?df 8 ?s) = JObj []" by blast
  from load_user_unknown_or_syntax_error [of ?g ?df 7 "''{oops''"] h2
  obtain s' where c2: "load_user ?df 7 ?g = (JObj [], s')"
      "files s' (?df @ ''.corrupted'') = Some (Garbage ''{oops'')"
      "files s' ?df = Some (Document (JObj []))"
      "\<forall>uid'. load_user ?df uid' s' = (JObj [], s')"
    by blast
  from c2(2) have c3: "files s' ''User_Data.json.corrupted'' = Some (Garbage ''{oops'')" by simp
  have h0: "files ?s ?df = Some (Document (JObj [(''7'', JObj [(''city'', JStr ''Oslo'')])]))"
    "map_of [(''7'', JObj [(''city'', JStr ''Oslo'')])] (str_int 8) = None"
    by (simp_all add: fs_example_def str_int_def str_nat.simps)
  from h0 c1 h2 c2(1) c3 c2(3) c2(4) show ?thesis by blast
qed

text \<open>A file on which the load raises anything but \<^verbatim>\<open>JSONDecodeError\<close> is left as it is.\<close>

lemma load_user_other_exception:
  assumes "files s df = Some (Undecodable t) \<or> files s df = Some (Rejected t)"
  shows "load_user df uid s = (JObj [], s)"
  using assms by (auto simp: load_user_def load_data_def)

text \<open>
  Claim C4. The claim says that a document that fails to parse is renamed to the
  \<^verbatim>\<open>.corrupted\<close> sibling, so that it is preserved, and replaced by an empty document. The code
  does this in the handler of \<^verbatim>\<open>json.JSONDecodeError\<close> only. A data file whose bytes are not
  UTF-8 makes \<^verbatim>\<open>json.load\<close> raise \<^verbatim>\<open>UnicodeDecodeError\<close>, which the handler of \<^verbatim>\<open>Exception\<close>
  catches: \<open>load_user\<close> returns the empty record, as claimed, but the file stays where it is
  and no \<^verbatim>\<open>.corrupted\<close> sibling appears. The next save then writes its document over the
  file, and its copy to the \<^verbatim>\<open>.backup\<close> sibling fails on the same bytes and leaves that
  sibling empty: the unreadable file is preserved nowhere.
\<close>

theorem load_user_undecodable_not_quarantined:
  "load_user ''User_Data.json'' 7
     (fs_example [''User_Data.json'' \<mapsto> Undecodable (CHR 0xFF # CHR 0xFE # ''{oops'')])
   = (JObj [], fs_example [''User_Data.json'' \<mapsto> Undecodable (CHR 0xFF # CHR 0xFE # ''{oops'')]) \<and>
   files (snd (load_user ''User_Data.json'' 7
                 (fs_example [''User_Data.json'' \<mapsto> Undecodable (CHR 0xFF # CHR 0xFE # ''{oops'')])))
     ''User_Data.json.corrupted'' = None \<and>
   files (snd (load_user ''User_Data.json'' 7
                 (fs_example [''User_Data.json'' \<mapsto> Undecodable (CHR 0xFF # CHR 0xFE # ''{oops'')])))
     ''User_Data.json'' = Some (Undecodable (CHR 0xFF # CHR 0xFE # ''{oops'')) \<and>
   (\<exists>s'. save_user ''User_Data.json'' 7 [(''city'', JStr ''Oslo'')]
            (snd (load_user ''User_Data.json'' 7
                    (fs_example [''User_Data.json'' \<mapsto> Undecodable (CHR 0xFF # CHR 0xFE # ''{oops'')])))
          = Inr (True, s') \<and>
         files s' ''User_Data.json'' = Some (Document (JObj [(''7'', JObj [(''city'', JStr ''Oslo'')])])) \<and>
         files s' ''User_Data.json.backup'' = Some (Garbage []) \<and>
         files s' ''User_Data.json.corrupted'' = None)"
  by (simp add: load_user_def load_data_def save_user_def save_data_def fs_example_def
        str_int_def str_nat.simps)


section \<open>Weather client: retry and cache\<close>

lemma request_state: "snd (request env url ps c) = c\<lparr>calls := Suc (calls c)\<rparr>"
  by (simp add: request_def Let_def split: http_result.splits option.splits)

lemma retry_request_cache: "cache (snd (retry_request (request env url ps) n c)) = cache c"
proof (induction n arbitrary: c)
  case 0
  then show ?case by simp
next
  case (Suc n)
  obtain r c' where rq: "request env url ps c = (r, c')" by (cases "request env url ps c")
  with request_state [of env url ps c] have c': "c' = c\<lparr>calls := Suc (calls c)\<rparr>" by simp
  show ?case
    using Suc.IH [of c'] by (cases r) (simp_all add: rq c')
qed

lemma retry_request_calls:
  "calls c \<le> calls (snd (retry_request (request env url ps) n c)) \<and>
   calls (snd (retry_request (request env url ps) n c)) \<le> calls c + n"
proof (induction n arbitrary: c)
  case 0
  then show ?case by simp
next
  case (Suc n)
  obtain r c' where rq: "request env url ps c = (r, c')" by (cases "request env url ps c")
  with request_state [of env url ps c] have c': "c' = c\<lparr>calls := Suc (calls c)\<rparr>" by simp
  show ?case
    using Suc.IH [of c'] by (cases r) (simp_all add: rq c')
qed

lemma request_429:
  "provider env (calls c) url ps = Response 429 b \<Longrightarrow>
     request env url ps c = (Inl RequestException, c\<lparr>calls := Suc (calls c)\<rparr>)"
  by (simp add: request_def)

lemma request_terminal:
  "provider env (calls c) url ps = Response st b \<Longrightarrow> st = 404 \<or> st = 401 \<Longrightarrow>
     request env url ps c = (Inr JNull, c\<lparr>calls := Suc (calls c)\<rparr>)"
  by (auto simp: request_def)

lemma request_200:
  "provider env (calls c) url ps = Response 200 (Some j) \<Longrightarrow>
     request env url ps c = (Inr j, c\<lparr>calls := Suc (calls c)\<rparr>)"
  by (simp add: request_def)

lemma make_request_miss:
  assumes "\<not> truthy (case cache_key env ep uc lat lon of Some k \<Rightarrow> load_cache env k c | None \<Rightarrow> JNull)"
  shows "fst (make_request env url params ep uc lat lon c) =
           fst (retry_request (request env url (with_key_and_language env params)) 3 c) \<and>
         calls (snd (make_request env url params ep uc lat lon c)) =
           calls (snd (retry_request (request env url (with_key_and_language env params)) 3 c))"
  using assms
  by (simp add: make_request_def Let_def save_cache_def split: prod.splits option.splits)

lemma request_cache_irrelevant:
  "request env url ps (c\<lparr>cache := cc\<rparr>) =
     (fst (request env url ps c), (snd (request env url ps c))\<lparr>cache := cc\<rparr>)"
  by (auto simp: request_def Let_def split: http_result.splits option.splits)

lemma retry_request_cache_irrelevant:
  "retry_request (request env url ps) n (c\<lparr>cache := cc\<rparr>) =
     (fst (retry_request (request env url ps) n c),
      (snd (retry_request (request env url ps) n c))\<lparr>cache := cc\<rparr>)"
proof (induction n arbitrary: c)
  case 0
  then show ?case by simp
next
  case (Suc n)
  obtain r c' where rq: "request env url ps c = (r, c')" by (cases "request env url ps c")
  then have rq': "request env url ps (c\<lparr>cache := cc\<rparr>) = (r, c'\<lparr>cache := cc\<rparr>)"
    by (simp add: request_cache_irrelevant)
  show ?case
    using Suc.IH [of c'] by (cases r) (simp_all add: rq rq')
qed

lemma make_request_uncached:
  "make_request env url params ep False lat lon c =
     retry_request (request env url (with_key_and_language env params)) 3 c"
  by (simp add: make_request_def cache_key_def Let_def split: prod.splits)


text \<open>
  Claim C5. When the cache does not answer, \<open>make_request\<close> runs the request under the retry
  primitive with a budget of three attempts, so it makes at most three outbound calls. A 429
  is retried: three of them in a row use up the budget and the call yields no data; two of
  them followed by a success yield the payload of the third attempt. A 404 or a 401 ends the
  call at once: no data, and one outbound call only.
\<close>

theorem make_request_retry_policy:
  assumes miss:
    "\<not> truthy (case cache_key env ep uc lat lon of Some k \<Rightarrow> load_cache env k c | None \<Rightarrow> JNull)"
  shows
    "calls (snd (make_request env url params ep uc lat lon c)) \<le> calls c + 3 \<and>
     (provider env (calls c) url (with_key_and_language env params) = Response 429 b1 \<and>
      provider env (calls c + 1) url (with_key_and_language env params) = Response 429 b2 \<and>
      provider env (calls c + 2) url (with_key_and_language env params) = Response 429 b3 \<longrightarrow>
        fst (make_request env url params ep uc lat lon c) = JNull \<and>
        calls (snd (make_request env url params ep uc lat lon c)) = calls c + 3) \<and>
     (provider env (calls c) url (with_key_and_language env params) = Response 429 b1 \<and>
      provider env (calls c + 1) url (with_key_and_language env params) = Response 429 b2 \<and>
      provider env (calls c + 2) url (with_key_and_language env params) = Response 200 (Some payload) \<longrightarrow>
        fst (make_request env url params ep uc lat lon c) = payload \<and>
        calls (snd (make_request env url params ep uc lat lon c)) = calls c + 3) \<and>
     (provider env (calls c) url (with_key_and_language env params) = Response 404 b1 \<or>
      provider env (calls c) url (with_key_and_language env params) = Response 401 b1 \<longrightarrow>
        fst (make_request env url params ep uc lat lon c) = JNull \<and>
        calls (snd (make_request env url params ep uc lat lon c)) = calls c + 1)"
proof -
  let ?q = "with_key_and_language env params"
  let ?c1 = "c\<lparr>calls := Suc (calls c)\<rparr>"
  let ?c2 = "c\<lparr>calls := Suc (Suc (calls c))\<rparr>"
  let ?c3 = "c\<lparr>calls := Suc (Suc (Suc (calls c)))\<rparr>"
  note m = make_request_miss [OF miss, of url params]
  have three: "retry_request (request env url ?q) 3 c =
      (case request env url ?q c of (Inr r, s') \<Rightarrow> (r, s')
       | (Inl e, s') \<Rightarrow> (case request env url ?q s' of (Inr r, s'') \<Rightarrow> (r, s'')
         | (Inl e, s'') \<Rightarrow> (case request env url ?q s'' of (Inr r, s3) \<Rightarrow> (r, s3)
           | (Inl e, s3) \<Rightarrow> (JNull, s3))))"
    by (simp add: numeral_3_eq_3 split: prod.splits sum.splits)
  have bound: "calls (snd (make_request env url params ep uc lat lon c)) \<le> calls c + 3"
    using m retry_request_calls [of c env url ?q 3] by simp
  have a: "fst (retry_request (request env url ?q) 3 c) = JNull \<and>
           calls (snd (retry_request (request env url ?q) 3 c)) = calls c + 3"
    if "provider env (calls c) url ?q = Response 429 b1"
       "provider env (calls c + 1) url ?q = Response 429 b2"
       "provider env (calls c + 2) url ?q = Response 429 b3"
  proof -
    have "request env url ?q c = (Inl RequestException, ?c1)"
      using that(1) by (rule request_429)
    moreover have "request env url ?q ?c1 = (Inl RequestException, ?c2)"
      using that(2) request_429 [of env ?c1 url ?q b2] by simp
    moreover have "request env url ?q ?c2 = (Inl RequestException, ?c3)"
      using that(3) request_429 [of env ?c2 url ?q b3] by simp
    ultimately show ?thesis by (simp add: three)
  qed
  have b: "fst (retry_request (request env url ?q) 3 c) = payload \<and>
           calls (snd (retry_request (request env url ?q) 3 c)) = calls c + 3"
    if "provider env (calls c) url ?q = Response 429 b1"
       "provider env (calls c + 1) url ?q = Response 429 b2"
       "provider env (calls c + 2) url ?q = Response 200 (Some payload)"
  proof -
    have "request env url ?q c = (Inl RequestException, ?c1)"
      using that(1) by (rule request_429)
    moreover have "request env url ?q ?c1 = (Inl RequestException, ?c2)"
      using that(2) request_429 [of env ?c1 url ?q b2] by simp
    moreover have "request env url ?q ?c2 = (Inr payload, ?c3)"
      using that(3) request_200 [of env ?c2 url ?q payload] by simp
    ultimately show ?thesis by (simp add: three)
  qed
  have t: "fst (retry_request (request env url ?q) 3 c) = JNull \<and>
           calls (snd (retry_request (request env url ?q) 3 c)) = calls c + 1"
    if "provider env (calls c) url ?q = Response 404 b1 \<or>
        provider env (calls c) url ?q = Response 401 b1"
  proof -
    from that have "request env url ?q c = (Inr JNull, ?c1)"
      using request_terminal [of env c url ?q _ b1] by blast
    then show ?thesis by (simp add: three)
  qed
  from bound a b t m show ?thesis by simp
qed


theorem make_request_retry_policy_witness:
  "\<not> truthy (case cache_key (env_example (\<lambda>n. if n < 2 then Response 429 None
                    else Response 200 (Some (JObj [(''name'', JStr ''Oslo'')]))))
                 ''weather'' True (JNum 59) (JNum 10) of
               Some k \<Rightarrow> load_cache (env_example (\<lambda>n. if n < 2 then Response 429 None
                    else Response 200 (Some (JObj [(''name'', JStr ''Oslo'')])))) k client_example
             | None \<Rightarrow> JNull) \<and>
   fst (make_request (env_example (\<lambda>n. if n < 2 then Response 429 None
                    else Response 200 (Some (JObj [(''name'', JStr ''Oslo'')]))))
          CURRENT_WEATHER_URL [(''lat'', JNum 59), (''lon'', JNum 10)] ''weather'' True
          (JNum 59) (JNum 10) client_example) = JObj [(''name'', JStr ''Oslo'')] \<and>
   calls (snd (make_request (env_example (\<lambda>n. if n < 2 then Response 429 None
                    else Response 200 (Some (JObj [(''name'', JStr ''Oslo'')]))))
          CURRENT_WEATHER_URL [(''lat'', JNum 59), (''lon'', JNum 10)] ''weather'' True
          (JNum 59) (JNum 10) client_example)) = 3"
proof -
  let ?env = "env_example (\<lambda>n. if n < 2 then Response 429 None
                    else Response 200 (Some (JObj [(''name'', JStr ''Oslo'')])))"
  have h: "\<not> truthy (case cache_key ?env ''weather'' True (JNum 59) (JNum 10) of
               Some k \<Rightarrow> load_cache ?env k client_example | None \<Rightarrow> JNull)"
    by (simp add: cache_key_def load_cache_def client_example_def)
  have p: "provider ?env (calls client_example) CURRENT_WEATHER_URL
             (with_key_and_language ?env [(''lat'', JNum 59), (''lon'', JNum 10)]) = Response 429 None"
     "provider ?env (calls client_example + 1) CURRENT_WEATHER_URL
             (with_key_and_language ?env [(''lat'', JNum 59), (''lon'', JNum 10)]) = Response 429 None"
     "provider ?env (calls client_example + 2) CURRENT_WEATHER_URL
             (with_key_and_language ?env [(''lat'', JNum 59), (''lon'', JNum 10)])
        = Response 200 (Some (JObj [(''name'', JStr ''Oslo'')]))"
    by (simp_all add: env_example_def client_example_def)
  have c0: "calls client_example = 0" by (simp add: client_example_def)
  from make_request_retry_policy [OF h, of CURRENT_WEATHER_URL
         "[(''lat'', JNum 59), (''lon'', JNum 10)]" None None None "JObj [(''name'', JStr ''Oslo'')]"] p
  have "fst (make_request ?env CURRENT_WEATHER_URL [(''lat'', JNum 59), (''lon'', JNum 10)]
               ''weather'' True (JNum 59) (JNum 10) client_example) = JObj [(''name'', JStr ''Oslo'')] \<and>
        calls (snd (make_request ?env CURRENT_WEATHER_URL [(''lat'', JNum 59), (''lon'', JNum 10)]
               ''weather'' True (JNum 59) (JNum 10) client_example)) = calls client_example + 3"
    by blast
  with h c0 show ?thesis by simp
qed

lemma get_coordinates_unfold:
  "get_coordinates env city limit c =
     (if city = [] \<or> length (strip city) < 2 then (None, c)
      else (first_candidate env
              (fst (retry_request (request env GEOCODING_URL
                     (with_key_and_language env [(''q'', JStr city), (''limit'', JNum limit)])) 3 c)),
            snd (retry_request (request env GEOCODING_URL
                     (with_key_and_language env [(''q'', JStr city), (''limit'', JNum limit)])) 3 c)))"
  by (simp add: get_coordinates_def make_request_uncached Let_def split: prod.splits)

lemma get_coordinates_cache_free:
  "cache (snd (get_coordinates env city limit c)) = cache c"
  "get_coordinates env city limit (c\<lparr>cache := other\<rparr>) =
     (fst (get_coordinates env city limit c), (snd (get_coordinates env city limit c))\<lparr>cache := other\<rparr>)"
  by (simp_all add: get_coordinates_unfold retry_request_cache retry_request_cache_irrelevant)

lemma make_request_hit:
  assumes "lat \<noteq> JNull" "lon \<noteq> JNull"
    and "cache c (format_value env lat @ ''_'' @ format_value env lon @ ''_'' @ ep) = Some (v, t)"
    and "clock env < t + ttl env" "truthy v"
  shows "make_request env url params ep True lat lon c = (v, c)"
  using assms by (simp add: make_request_def cache_key_def load_cache_def)

lemma make_request_stores:
  assumes "lat \<noteq> JNull" "lon \<noteq> JNull"
    and "\<not> truthy (load_cache env (format_value env lat @ ''_'' @ format_value env lon @ ''_'' @ ep) c)"
    and "truthy (fst (make_request env url params ep True lat lon c))"
  shows "cache (snd (make_request env url params ep True lat lon c))
           (format_value env lat @ ''_'' @ format_value env lon @ ''_'' @ ep)
         = Some (fst (make_request env url params ep True lat lon c), clock env)"
  using assms
  by (simp add: make_request_def cache_key_def Let_def save_cache_def split: prod.splits)

lemma make_request_first_success:
  assumes "lat \<noteq> JNull" "lon \<noteq> JNull"
    and "\<not> truthy (load_cache env (format_value env lat @ ''_'' @ format_value env lon @ ''_'' @ ep) c)"
    and "provider env (calls c) url (with_key_and_language env params) = Response 200 (Some payload)"
    and "truthy payload"
  shows "make_request env url params ep True lat lon c =
           (payload, save_cache env (format_value env lat @ ''_'' @ format_value env lon @ ''_'' @ ep)
                       payload (c\<lparr>calls := Suc (calls c)\<rparr>))"
proof -
  have "request env url (with_key_and_language env params) c = (Inr payload, c\<lparr>calls := Suc (calls c)\<rparr>)"
    using assms(4) by (rule request_200)
  then have "retry_request (request env url (with_key_and_language env params)) 3 c =
         (payload, c\<lparr>calls := Suc (calls c)\<rparr>)"
    by (simp add: numeral_3_eq_3)
  then show ?thesis
    using assms(1,2,3,5) by (simp add: make_request_def cache_key_def Let_def)
qed

lemma make_request_twice:
  assumes "lat \<noteq> JNull" "lon \<noteq> JNull" "0 < ttl env"
    and "\<not> truthy (load_cache env (format_value env lat @ ''_'' @ format_value env lon @ ''_'' @ ep) c)"
    and "provider env (calls c) url (with_key_and_language env params) = Response 200 (Some payload)"
    and "truthy payload"
  shows "\<exists>c1. make_request env url params ep True lat lon c = (payload, c1) \<and>
              make_request env url params ep True lat lon c1 = (payload, c1) \<and>
              calls c1 = calls c + 1"
proof -
  let ?key = "format_value env lat @ ''_'' @ format_value env lon @ ''_'' @ ep"
  let ?c1 = "save_cache env ?key payload (c\<lparr>calls := Suc (calls c)\<rparr>)"
  have 1: "make_request env url params ep True lat lon c = (payload, ?c1)"
    using assms(1,2,4,5,6) by (rule make_request_first_success)
  have "cache ?c1 ?key = Some (payload, clock env)" by (simp add: save_cache_def)
  moreover have "clock env < clock env + ttl env" using assms(3) by simp
  ultimately have 2: "make_request env url params ep True lat lon ?c1 = (payload, ?c1)"
    using assms(1,2,6) make_request_hit by blast
  have 3: "calls ?c1 = calls c + 1" by (simp add: save_cache_def)
  from 1 2 3 show ?thesis by blast
qed

lemma get_current_weather_state:
  "snd (get_current_weather env lat lon c) =
     snd (make_request env CURRENT_WEATHER_URL
            [(''lat'', lat), (''lon'', lon), (''units'', JStr ''metric'')] ''weather'' True lat lon c)"
  by (simp add: get_current_weather_def Let_def split: prod.splits sum.splits)

lemma get_forecast_5d3h_state:
  "snd (get_forecast_5d3h env lat lon c) =
     snd (make_request env FORECAST_URL
            [(''lat'', lat), (''lon'', lon), (''units'', JStr ''metric'')] ''forecast'' True lat lon c)"
  by (simp add: get_forecast_5d3h_def Let_def split: prod.splits sum.splits)

lemma get_air_pollution_state:
  "snd (get_air_pollution env lat lon c) =
     snd (make_request env AIR_POLLUTION_URL
            [(''lat'', lat), (''lon'', lon)] ''air_pollution'' True lat lon c)"
  by (simp add: get_air_pollution_def Let_def split: prod.splits sum.splits)


text \<open>
  Claim C6. A geocoding lookup leaves the cache as it was, and its result and its outbound
  calls are the same whatever the cache holds: it neither writes nor reads it. The
  current-weather, forecast and air-pollution operations change the client only through
  \<open>make_request\<close> with caching on and the endpoint names \<^verbatim>\<open>weather\<close>, \<^verbatim>\<open>forecast\<close> and
  \<^verbatim>\<open>air_pollution\<close>. For such a request with coordinates, an unexpired entry under the key made
  of latitude, longitude and endpoint name is returned with the client unchanged (no outbound
  call); a result obtained from the provider (one that Python counts as true, which is what
  the source takes for success) is stored under that key; and when the first answer of the
  provider is a success, two requests in a row at the same time make one outbound call
  between them.
\<close>

theorem cache_policy:
  assumes "lat \<noteq> JNull" "lon \<noteq> JNull" "0 < ttl env"
  shows
    "cache (snd (get_coordinates env city limit c)) = cache c \<and>
     get_coordinates env city limit (c\<lparr>cache := other\<rparr>) =
       (fst (get_coordinates env city limit c),
        (snd (get_coordinates env city limit c))\<lparr>cache := other\<rparr>) \<and>
     snd (get_current_weather env lat lon c) =
       snd (make_request env CURRENT_WEATHER_URL
              [(''lat'', lat), (''lon'', lon), (''units'', JStr ''metric'')] ''weather'' True lat lon c) \<and>
     snd (get_forecast_5d3h env lat lon c) =
       snd (make_request env FORECAST_URL
              [(''lat'', lat), (''lon'', lon), (''units'', JStr ''metric'')] ''forecast'' True lat lon c) \<and>
     snd (get_air_pollution env lat lon c) =
       snd (make_request env AIR_POLLUTION_URL
              [(''lat'', lat), (''lon'', lon)] ''air_pollution'' True lat lon c) \<and>
     (cache c (format_value env lat @ ''_'' @ format_value env lon @ ''_'' @ ep) = Some (v, t) \<and>
      clock env < t + ttl env \<and> truthy v \<longrightarrow>
        make_request env url params ep True lat lon c = (v, c)) \<and>
     (\<not> truthy (load_cache env (format_value env lat @ ''_'' @ format_value env lon @ ''_'' @ ep) c) \<and>
      truthy (fst (make_request env url params ep True lat lon c)) \<longrightarrow>
        cache (snd (make_request env url params ep True lat lon c))
          (format_value env lat @ ''_'' @ format_value env lon @ ''_'' @ ep)
        = Some (fst (make_request env url params ep True lat lon c), clock env)) \<and>
     (\<not> truthy (load_cache env (format_value env lat @ ''_'' @ format_value env lon @ ''_'' @ ep) c) \<and>
      provider env (calls c) url (with_key_and_language env params) = Response 200 (Some payload) \<and>
      truthy payload \<longrightarrow>
        (\<exists>c1. make_request env url params ep True lat lon c = (payload, c1) \<and>
              make_request env url params ep True lat lon c1 = (payload, c1) \<and>
              calls c1 = calls c + 1))"
proof (intro conjI impI)
  show "cache (snd (get_coordinates env city limit c)) = cache c"
    by (rule get_coordinates_cache_free(1))
  show "get_coordinates env city limit (c\<lparr>cache := other\<rparr>) =
       (fst (get_coordinates env city limit c),
        (snd (get_coordinates env city limit c))\<lparr>cache := other\<rparr>)"
    by (rule get_coordinates_cache_free(2))
  show "snd (get_current_weather env lat lon c) =
       snd (make_request env CURRENT_WEATHER_URL
              [(''lat'', lat), (''lon'', lon), (''units'', JStr ''metric'')] ''weather'' True lat lon c)"
    by (rule get_current_weather_state)
  show "snd (get_forecast_5d3h env lat lon c) =
       snd (make_request env FORECAST_URL
              [(''lat'', lat), (''lon'', lon), (''units'', JStr ''metric'')] ''forecast'' True lat lon c)"
    by (rule get_forecast_5d3h_state)
  show "snd (get_air_pollution env lat lon c) =
       snd (make_request env AIR_POLLUTION_URL
              [(''lat'', lat), (''lon'', lon)] ''air_pollution'' True lat lon c)"
    by (rule get_air_pollution_state)
next
  assume "cache c (format_value env lat @ ''_'' @ format_value env lon @ ''_'' @ ep) = Some (v, t) \<and>
      clock env < t + ttl env \<and> truthy v"
  then show "make_request env url params ep True lat lon c = (v, c)"
    using make_request_hit [OF assms(1,2)] by blast
next
  assume "\<not> truthy (load_cache env (format_value env lat @ ''_'' @ format_value env lon @ ''_'' @ ep) c) \<and>
      truthy (fst (make_request env url params ep True lat lon c))"
  then show "cache (snd (make_request env url params ep True lat lon c))
          (format_value env lat @ ''_'' @ format_value env lon @ ''_'' @ ep)
        = Some (fst (make_request env url params ep True lat lon c), clock env)"
    using make_request_stores [OF assms(1,2)] by blast
next
  assume "\<not> truthy (load_cache env (format_value env lat @ ''_'' @ format_value env lon @ ''_'' @ ep) c) \<and>
      provider env (calls c) url (with_key_and_language env params) = Response 200 (Some payload) \<and>
      truthy payload"
  then show "\<exists>c1. make_request env url params ep True lat lon c = (payload, c1) \<and>
              make_request env url params ep True lat lon c1 = (payload, c1) \<and>
              calls c1 = calls c + 1"
    using make_request_twice [OF assms] by blast
qed


theorem cache_policy_witness:
  "JNum 59 \<noteq> JNull \<and> JNum 10 \<noteq> JNull \<and>
   0 < ttl (env_example (\<lambda>n. Response 200 (Some (JObj [(''name'', JStr ''Oslo'')])))) \<and>
   \<not> truthy (load_cache (env_example (\<lambda>n. Response 200 (Some (JObj [(''name'', JStr ''Oslo'')]))))
               ''59_10_weather'' client_example) \<and>
   truthy (JObj [(''name'', JStr ''Oslo'')]) \<and>
   (\<exists>c1. make_request (env_example (\<lambda>n. Response 200 (Some (JObj [(''name'', JStr ''Oslo'')]))))
            CURRENT_WEATHER_URL [(''lat'', JNum 59), (''lon'', JNum 10), (''units'', JStr ''metric'')]
            ''weather'' True (JNum 59) (JNum 10) client_example
          = (JObj [(''name'', JStr ''Oslo'')], c1) \<and>
         make_request (env_example (\<lambda>n. Response 200 (Some (JObj [(''name'', JStr ''Oslo'')]))))
            CURRENT_WEATHER_URL [(''lat'', JNum 59), (''lon'', JNum 10), (''units'', JStr ''metric'')]
            ''weather'' True (JNum 59) (JNum 10) c1
          = (JObj [(''name'', JStr ''Oslo'')], c1) \<and>
         calls c1 = 1)"
proof -
  let ?env = "env_example (\<lambda>n. Response 200 (Some (JObj [(''name'', JStr ''Oslo'')])))"
  let ?ps = "[(''lat'', JNum 59), (''lon'', JNum 10), (''units'', JStr ''metric'')]"
  have h: "JNum 59 \<noteq> JNull" "JNum 10 \<noteq> JNull" "0 < ttl ?env"
    by (simp_all add: env_example_def)
  have k: "format_value ?env (JNum 59) @ ''_'' @ format_value ?env (JNum 10) @ ''_'' @ ''weather''
             = ''59_10_weather''"
    by (simp add: env_example_def str_int_def str_nat.simps)
  have m: "\<not> truthy (load_cache ?env ''59_10_weather'' client_example)"
    by (simp add: load_cache_def client_example_def)
  have p: "provider ?env (calls client_example) CURRENT_WEATHER_URL (with_key_and_language ?env ?ps)
             = Response 200 (Some (JObj [(''name'', JStr ''Oslo'')]))"
    by (simp add: env_example_def)
  have t: "truthy (JObj [(''name'', JStr ''Oslo'')])" by simp
  have c0: "calls client_example = 0" by (simp add: client_example_def)
  from cache_policy [OF h, where c = client_example and ep = "''weather''"
         and url = CURRENT_WEATHER_URL and params = ?ps
         and payload = "JObj [(''name'', JStr ''Oslo'')]"] m p t
  have "\<exists>c1. make_request ?env CURRENT_WEATHER_URL ?ps ''weather'' True (JNum 59) (JNum 10) client_example
                = (JObj [(''name'', JStr ''Oslo'')], c1) \<and>
              make_request ?env CURRENT_WEATHER_URL ?ps ''weather'' True (JNum 59) (JNum 10) c1
                = (JObj [(''name'', JStr ''Oslo'')], c1) \<and>
              calls c1 = calls client_example + 1"
    unfolding k by blast
  with h m t c0 show ?thesis by simp
qed


section \<open>Notification loop\<close>

lemma bind_err_Inr_iff:
  "bind_err m f = Inr y \<longleftrightarrow> (\<exists>x. m = Inr x \<and> f x = Inr y)"
  by (cases m) (simp_all add: bind_err_def)

lemma bind_err_simps [simp]:
  "bind_err (Inl e) f = Inl e" "bind_err (Inr x) f = f x"
  by (simp_all add: bind_err_def)

lemma py_get_JObj [simp]: "py_get (JObj d) k dflt = Inr (dict_get d k dflt)"
  by (simp add: py_get_def)

lemma py_get_Inr: "py_get x k dflt = Inr v \<Longrightarrow> \<exists>d. x = JObj d \<and> v = dict_get d k dflt"
  by (cases x) (simp_all add: py_get_def)

lemma send_message_outbox:
  "send_message env chat msg w = Inr w' \<Longrightarrow>
     w' = w\<lparr>outbox := outbox w @ [(chat, msg)]\<rparr>"
  by (simp add: send_message_def split: if_splits)

lemma send_notification_outbox:
  "outbox (send_notification env uid ud w) = outbox w \<or>
   (\<exists>m. outbox (send_notification env uid ud w) = outbox w @ [(uid, m)] \<and>
        has_saved_coordinates ud)"
proof (cases ud)
  case (JObj d)
  show ?thesis
    unfolding JObj send_notification_def
    by (auto simp: Let_def has_saved_coordinates_def send_message_def
             split: prod.splits sum.splits if_splits)
qed (simp_all add: send_notification_def py_get_def)


lemma notify_user_outbox:
  "outbox (notify_user env (k, ud) w) = outbox w \<or>
   (\<exists>uid m. outbox (notify_user env (k, ud) w) = outbox w @ [(uid, m)] \<and>
        int_of_str k = Some uid \<and> notifications_enabled ud \<and> has_saved_coordinates ud)"
proof (cases "int_of_str k")
  case None
  then show ?thesis by (simp add: notify_user_def)
next
  case (Some uid)
  show ?thesis
  proof (cases ud)
    case (JObj d)
    show ?thesis
    proof (cases "dict_get d ''notifications'' (JObj [])")
      case (JObj n)
      note n = this
      show ?thesis
      proof (cases "truthy (dict_get n ''enabled'' (JBool False)) \<and>
                    \<not> (truthy (dict_get n ''last_sent'' JNull) \<and>
                       sent_recently env (dict_get n ''last_sent'' JNull) (dict_get n ''interval_h'' (JNum 2)))")
        case True
        then have eq: "notify_user env (k, ud) w = send_notification env uid ud w"
          using Some \<open>ud = JObj d\<close> n by (auto simp: notify_user_def)
        have en: "notifications_enabled ud"
          using True \<open>ud = JObj d\<close> n by (simp add: notifications_enabled_def)
        from send_notification_outbox [of env uid ud w] show ?thesis
          unfolding eq using Some en by blast
      next
        case False
        then have "notify_user env (k, ud) w = w"
          using Some \<open>ud = JObj d\<close> n by (auto simp: notify_user_def)
        then show ?thesis by simp
      qed
    qed (simp_all add: notify_user_def Some JObj py_get_def)
  qed (simp_all add: notify_user_def Some py_get_def)
qed

lemma fold_notify_user_outbox:
  "\<exists>new. outbox (fold (notify_user env) users w) = outbox w @ new \<and>
     (\<forall>(uid, m) \<in> set new. \<exists>k ud. (k, ud) \<in> set users \<and> int_of_str k = Some uid \<and>
         notifications_enabled ud \<and> has_saved_coordinates ud)"
proof (induction users arbitrary: w)
  case Nil
  then show ?case by simp
next
  case (Cons entry users)
  obtain k ud where entry: "entry = (k, ud)" by (cases entry)
  let ?w1 = "notify_user env (k, ud) w"
  from Cons.IH [of ?w1] obtain new where
    new: "outbox (fold (notify_user env) users ?w1) = outbox ?w1 @ new"
    and ok: "\<forall>(uid, m) \<in> set new. \<exists>k ud. (k, ud) \<in> set users \<and> int_of_str k = Some uid \<and>
         notifications_enabled ud \<and> has_saved_coordinates ud"
    by blast
  from notify_user_outbox [of env k ud w] show ?case
  proof
    assume "outbox ?w1 = outbox w"
    with new ok show ?thesis
      by (intro exI [of _ new]) (fastforce simp: entry)
  next
    assume "\<exists>uid m. outbox ?w1 = outbox w @ [(uid, m)] \<and>
        int_of_str k = Some uid \<and> notifications_enabled ud \<and> has_saved_coordinates ud"
    then obtain uid m where s: "outbox ?w1 = outbox w @ [(uid, m)]"
      "int_of_str k = Some uid" "notifications_enabled ud" "has_saved_coordinates ud"
      by blast
    with new ok show ?thesis
      by (intro exI [of _ "(uid, m) # new"]) (fastforce simp: entry)
  qed
qed

lemma notify_user_too_early:
  assumes "int_of_str k = Some uid" "map_of d ''notifications'' = Some (JObj n)"
    and "truthy (dict_get n ''enabled'' (JBool False))"
    and "map_of n ''last_sent'' = Some (JStr stamp)" "strptime env stamp datetime_format = Some last_sent"
    and "stamp \<noteq> []"
    and "as_number (dict_get n ''interval_h'' (JNum 2)) = Some h"
    and "- 999999999 * 24 \<le> h" "h < 1000000000 * 24"
    and "now env - last_sent < h * 3600"
  shows "notify_user env (k, JObj d) w = w"
proof -
  have "sent_recently env (JStr stamp) (dict_get n ''interval_h'' (JNum 2))"
    using assms(5,7-10) by (simp add: sent_recently_def timedelta_hours_def)
  moreover have "dict_get n ''last_sent'' JNull = JStr stamp"
    using assms(4) by (simp add: dict_get_def)
  ultimately show ?thesis
    using assms(1-3,6) by (simp add: notify_user_def dict_get_def)
qed

lemma load_data_idem: "load_data df (snd (load_data df s)) = load_data df s"
  by (auto simp: load_data_def backup_and_reset_def ensure_file_exists_def
           split: option.splits content.splits json.splits)

lemma load_user_idem:
  "fst (load_user df uid (snd (load_user df uid s))) = fst (load_user df uid s)"
  by (simp add: load_user_fst load_user_snd load_data_idem)

lemma load_user_flags:
  "readable (snd (load_user df uid s)) = readable s \<and> writable (snd (load_user df uid s)) = writable s"
  using load_data_flags [of df s "fst (load_data df s)" "snd (load_data df s)"]
  by (simp add: load_user_snd)

lemma update_user_notification_last_sent:
  assumes io: "readable s df" "writable s df"
    and rec: "fst (load_user df uid s) = JObj r" "distinct (map fst r)"
    and nt: "map_of r ''notifications'' = None \<or> (\<exists>n. map_of r ''notifications'' = Some (JObj n))"
    and ls: "truthy last_sent"
  shows "\<exists>s' r' n'. update_user_notification df uid en iv last_sent s = Inr (True, s') \<and>
           fst (load_user df uid s') = JObj r' \<and>
           map_of r' ''notifications'' = Some (JObj n') \<and>
           map_of n' ''last_sent'' = Some last_sent"
proof -
  define s1 where "s1 = snd (load_user df uid s)"
  have lu: "load_user df uid s = (JObj r, s1)"
    using rec(1) by (simp add: s1_def prod_eq_iff)
  have io1: "readable s1 df" "writable s1 df"
    using load_user_flags [of df uid s] io by (simp_all add: s1_def)
  have rec1: "fst (load_user df uid s1) = JObj r"
    using load_user_idem [of df uid s] rec(1) by (simp add: s1_def)
  define d1 where "d1 = (if map_of r ''notifications'' = None
                        then AList.update ''notifications'' (JObj []) r else r)"
  obtain n where n: "map_of d1 ''notifications'' = Some (JObj n)"
    using nt by (auto simp: d1_def update_conv')
  have dist1: "distinct (map fst d1)"
    using rec(2) by (simp add: d1_def distinct_update)
  define n3 where "n3 = AList.update ''last_sent'' last_sent
                          (AList.update ''interval_h'' iv (AList.update ''enabled'' en n))"
  define data where "data = AList.update ''notifications'' (JObj n3) d1"
  have dist: "distinct (map fst data)"
    using dist1 by (simp add: data_def distinct_update)
  have upd: "update_user_notification df uid en iv last_sent s = save_user df uid data s1"
    using lu n ls by (simp add: update_user_notification_def Let_def d1_def data_def n3_def)
  from save_user_step [OF io1 rec1 dist] obtain s' r' where
    su: "save_user df uid data s1 = Inr (True, s')" and lu': "load_user df uid s' = (JObj r', s')"
    and m: "map_of r' = map_of r ++ map_of data"
    by (elim exE conjE) (rule that; assumption)
  have "map_of data ''notifications'' = Some (JObj n3)"
    by (simp add: data_def update_conv')
  then have 1: "map_of r' ''notifications'' = Some (JObj n3)"
    by (simp add: m)
  have 2: "map_of n3 ''last_sent'' = Some last_sent"
    by (simp add: n3_def update_conv')
  from upd su lu' 1 2 show ?thesis by auto
qed

lemma distinct_dict_update:
  "distinct (map fst d) \<Longrightarrow> distinct (map fst (dict_update d data))"
proof (induction data arbitrary: d)
  case Nil
  then show ?case by (simp add: dict_update_def)
next
  case (Cons p data)
  obtain k v where p: "p = (k, v)" by (cases p)
  have "dict_update d (p # data) = dict_update (AList.update k v d) data"
    by (simp add: dict_update_def p)
  with Cons.IH [of "AList.update k v d"] Cons.prems show ?case
    by (simp add: distinct_update)
qed

lemma load_data_nonempty:
  "load_data df s = (xs, s') \<Longrightarrow> xs \<noteq> [] \<Longrightarrow>
     s' = s \<and> readable s df \<and> files s df = Some (Document (JObj xs))"
  by (auto simp: load_data_def split: option.splits if_splits content.splits json.splits)

lemma save_user_document:
  assumes "files s df = Some (Document (JObj all_data))" "readable s df" "writable s df"
    and "save_user df uid data s = Inr (ok, s')"
  shows "readable s' = readable s \<and> writable s' = writable s \<and>
         files s' df = Some (Document (JObj (AList.update (str_int uid)
             (JObj (case map_of all_data (str_int uid) of
                      Some (JObj e) \<Rightarrow> dict_update e data
                    | _ \<Rightarrow> data)) all_data)))"
  using assms
  by (auto simp: save_user_def load_data_document save_data_def Let_def
           split: option.splits json.splits if_splits)

lemma update_user_notification_holds:
  assumes h: "holds_record df key Q s"
    and up: "update_user_notification df uid' en iv ls s = Inr (ok, s')"
    and ls: "truthy ls"
    and P_new: "\<And>r n. map_of r ''notifications'' = Some (JObj n) \<Longrightarrow>
                  map_of n ''last_sent'' = Some ls \<Longrightarrow> P r"
    and P_old: "\<And>r. key \<noteq> str_int uid' \<Longrightarrow> Q r \<Longrightarrow> P r"
  shows "holds_record df key P s'"
proof -
  from h obtain all_data r where rd: "readable s df" and wr: "writable s df"
    and f: "files s df = Some (Document (JObj all_data))"
    and m: "map_of all_data key = Some (JObj r)" and dist: "distinct (map fst r)" and q: "Q r"
    unfolding holds_record_def by blast
  have ld: "load_data df s = (all_data, s)"
    using f rd by (rule load_data_document)
  define v where "v = (case map_of all_data (str_int uid') of Some x \<Rightarrow> x | None \<Rightarrow> JObj [])"
  have lu: "load_user df uid' s = (v, s)"
    by (simp add: load_user_def ld v_def split: option.splits)
  from up lu obtain d where v: "v = JObj d"
    by (cases v) (simp_all add: update_user_notification_def)
  define d1 where "d1 = (if map_of d ''notifications'' = None
                        then AList.update ''notifications'' (JObj []) d else d)"
  from up lu v obtain n where n: "map_of d1 ''notifications'' = Some (JObj n)"
    by (auto simp: update_user_notification_def Let_def d1_def
             split: option.splits json.splits if_splits)
  define n3 where "n3 = AList.update ''last_sent'' ls
                          (AList.update ''interval_h'' iv (AList.update ''enabled'' en n))"
  define data where "data = AList.update ''notifications'' (JObj n3) d1"
  have su: "save_user df uid' data s = Inr (ok, s')"
    using up lu v n ls
    by (simp add: update_user_notification_def Let_def d1_def [symmetric] data_def n3_def)
  define r1 where "r1 = (case map_of all_data (str_int uid') of
                           Some (JObj e) \<Rightarrow> dict_update e data | _ \<Rightarrow> data)"
  from save_user_document [OF f rd wr su]
  have fl: "readable s' = readable s" "writable s' = writable s"
    and f': "files s' df = Some (Document (JObj (AList.update (str_int uid') (JObj r1) all_data)))"
    by (simp_all add: r1_def)
  show ?thesis
  proof (cases "key = str_int uid'")
    case False
    then have "map_of (AList.update (str_int uid') (JObj r1) all_data) key = Some (JObj r)"
      using m by (simp add: update_conv')
    moreover have "P r" using P_old [OF False q] .
    ultimately show ?thesis
      unfolding holds_record_def using fl rd wr f' dist by auto
  next
    case True
    with m have "v = JObj r" by (simp add: v_def)
    with v have dr: "d = r" by simp
    have r1: "r1 = dict_update r data"
      using True m by (simp add: r1_def)
    have dist1: "distinct (map fst d1)"
      using dist dr by (simp add: d1_def distinct_update)
    have distd: "distinct (map fst data)"
      using dist1 by (simp add: data_def distinct_update)
    have "map_of data ''notifications'' = Some (JObj n3)"
      by (simp add: data_def update_conv')
    then have 1: "map_of r1 ''notifications'' = Some (JObj n3)"
      by (simp add: r1 map_of_dict_update [OF distd])
    have 2: "map_of n3 ''last_sent'' = Some ls"
      by (simp add: n3_def update_conv')
    have 3: "distinct (map fst r1)"
      unfolding r1 using dist by (rule distinct_dict_update)
    have "map_of (AList.update (str_int uid') (JObj r1) all_data) key = Some (JObj r1)"
      using True by (simp add: update_conv')
    moreover have "P r1" using P_new [OF 1 2] .
    ultimately show ?thesis
      unfolding holds_record_def using fl rd wr f' 3 by auto
  qed
qed

lemma send_notification_store:
  "store (send_notification env uid ud w) = store w \<or>
   (\<exists>iv ok. update_user_notification DEFAULT_DATA_FILE uid (JBool True) iv
               (JStr (strftime env (now env) datetime_format)) (store w)
             = Inr (ok, store (send_notification env uid ud w)))"
proof (cases ud)
  case (JObj d)
  show ?thesis
    unfolding JObj send_notification_def
    by (auto simp: Let_def send_message_def split: prod.splits sum.splits if_splits)
qed (simp_all add: send_notification_def py_get_def)

lemma notify_user_cases:
  "notify_user env (k, ud) w = w \<or>
   (\<exists>uid. int_of_str k = Some uid \<and> notify_user env (k, ud) w = send_notification env uid ud w)"
  by (auto simp: notify_user_def split: option.splits sum.splits prod.splits)

lemma notify_user_holds:
  assumes h: "holds_record DEFAULT_DATA_FILE key P (store w)"
    and ts: "strftime env (now env) datetime_format \<noteq> []"
    and P_new: "\<And>r n. map_of r ''notifications'' = Some (JObj n) \<Longrightarrow>
                  map_of n ''last_sent'' = Some (JStr (strftime env (now env) datetime_format)) \<Longrightarrow> P r"
  shows "holds_record DEFAULT_DATA_FILE key P (store (notify_user env entry w))"
proof -
  obtain k ud where entry: "entry = (k, ud)" by (cases entry)
  from notify_user_cases [of env k ud w] show ?thesis
  proof
    assume "notify_user env (k, ud) w = w"
    with h show ?thesis by (simp add: entry)
  next
    assume "\<exists>uid. int_of_str k = Some uid \<and>
                  notify_user env (k, ud) w = send_notification env uid ud w"
    then obtain uid where eq: "notify_user env (k, ud) w = send_notification env uid ud w"
      by blast
    from send_notification_store [of env uid ud w] show ?thesis
    proof
      assume "store (send_notification env uid ud w) = store w"
      with h show ?thesis by (simp add: entry eq)
    next
      assume "\<exists>iv ok. update_user_notification DEFAULT_DATA_FILE uid (JBool True) iv
               (JStr (strftime env (now env) datetime_format)) (store w)
             = Inr (ok, store (send_notification env uid ud w))"
      then obtain iv ok where up: "update_user_notification DEFAULT_DATA_FILE uid (JBool True) iv
               (JStr (strftime env (now env) datetime_format)) (store w)
             = Inr (ok, store (send_notification env uid ud w))"
        by blast
      have "holds_record DEFAULT_DATA_FILE key P (store (send_notification env uid ud w))"
        using h up
      proof (rule update_user_notification_holds)
        show "truthy (JStr (strftime env (now env) datetime_format))" using ts by simp
      qed (rule P_new, assumption+)
      then show ?thesis by (simp add: entry eq)
    qed
  qed
qed

lemma fold_notify_user_holds:
  assumes ts: "strftime env (now env) datetime_format \<noteq> []"
    and P_new: "\<And>r n. map_of r ''notifications'' = Some (JObj n) \<Longrightarrow>
                  map_of n ''last_sent'' = Some (JStr (strftime env (now env) datetime_format)) \<Longrightarrow> P r"
  shows "holds_record DEFAULT_DATA_FILE key P (store w) \<Longrightarrow>
         holds_record DEFAULT_DATA_FILE key P (store (fold (notify_user env) users w))"
proof (induction users arbitrary: w)
  case Nil
  then show ?case by simp
next
  case (Cons entry users)
  have "holds_record DEFAULT_DATA_FILE key P (store (notify_user env entry w))"
    using Cons.prems ts P_new by (rule notify_user_holds)
  from Cons.IH [OF this] show ?case by simp
qed

lemma fold_notify_user_outbox_grows:
  "\<exists>new. outbox (fold (notify_user env) users w) = outbox w @ new"
  using fold_notify_user_outbox [of env users w] by blast

lemma notify_user_due:
  assumes "int_of_str k = Some uid" "map_of d ''notifications'' = Some (JObj n)"
    and "truthy (dict_get n ''enabled'' (JBool False))"
    and "map_of n ''last_sent'' = None \<or>
         (\<exists>stamp last_sent h. map_of n ''last_sent'' = Some (JStr stamp) \<and>
            strptime env stamp datetime_format = Some last_sent \<and>
            as_number (dict_get n ''interval_h'' (JNum 2)) = Some h \<and>
            h * 3600 \<le> now env - last_sent)"
  shows "notify_user env (k, JObj d) w = send_notification env uid (JObj d) w"
  using assms(4)
proof
  assume "map_of n ''last_sent'' = None"
  with assms(1-3) show ?thesis by (simp add: notify_user_def dict_get_def)
next
  assume "\<exists>stamp last_sent h. map_of n ''last_sent'' = Some (JStr stamp) \<and>
            strptime env stamp datetime_format = Some last_sent \<and>
            as_number (dict_get n ''interval_h'' (JNum 2)) = Some h \<and>
            h * 3600 \<le> now env - last_sent"
  then obtain stamp last_sent h where s: "map_of n ''last_sent'' = Some (JStr stamp)"
    "strptime env stamp datetime_format = Some last_sent"
    "as_number (dict_get n ''interval_h'' (JNum 2)) = Some h"
    "h * 3600 \<le> now env - last_sent"
    by blast
  have "\<not> sent_recently env (JStr stamp) (dict_get n ''interval_h'' (JNum 2))"
    using s(2-4) by (simp add: sent_recently_def timedelta_hours_def)
  moreover have "dict_get n ''last_sent'' JNull = JStr stamp"
    using s(1) by (simp add: dict_get_def)
  ultimately show ?thesis
    using assms(1-3) by (simp add: notify_user_def dict_get_def)
qed

lemma send_notification_delivers:
  assumes "map_of d ''notifications'' = Some (JObj n)"
    and "dict_get d ''lat'' JNull \<noteq> JNull" "dict_get d ''lon'' JNull \<noteq> JNull"
    and "get_current_weather (api env) (dict_get d ''lat'' JNull) (dict_get d ''lon'' JNull)
           (client w) = (weather, c')"
    and "truthy weather" "notification_values weather = Inr (temp, desc, humidity, wind)"
    and "delivers env uid"
  shows "send_notification env uid (JObj d) w =
     (case update_user_notification DEFAULT_DATA_FILE uid (JBool True)
             (dict_get n ''interval_h'' (JNum 2))
             (JStr (strftime env (now env) datetime_format)) (store w) of
        Inl e \<Rightarrow> w\<lparr>client := c', outbox := outbox w @
                    [(uid, Weather_notification (dict_get d ''city'' (JStr unknown_ru))
                             temp desc humidity wind)]\<rparr>
      | Inr (ok, s') \<Rightarrow> w\<lparr>client := c', outbox := outbox w @
                    [(uid, Weather_notification (dict_get d ''city'' (JStr unknown_ru))
                             temp desc humidity wind)], store := s'\<rparr>)"
proof -
  have "dict_get d ''notifications'' (JObj []) = JObj n"
    using assms(1) by (simp add: dict_get_def)
  then show ?thesis
    using assms(2-7)
    by (simp add: send_notification_def send_message_def split: sum.splits prod.splits)
qed


lemma cycle_reaches_user:
  assumes "load_all DEFAULT_DATA_FILE (store w) = (pre @ entry # post, s0)"
  shows "check_and_send_notifications env w =
           fold (notify_user env) post
             (notify_user env entry (fold (notify_user env) pre (w\<lparr>store := s0\<rparr>)))"
  using assms by (simp add: check_and_send_notifications_def)

lemma holds_record_load_user:
  assumes "holds_record df (str_int uid) P s"
  shows "\<exists>r. fst (load_user df uid s) = JObj r \<and> distinct (map fst r) \<and> P r"
proof -
  from assms obtain all_data r where rd: "readable s df"
    and f: "files s df = Some (Document (JObj all_data))"
    and m: "map_of all_data (str_int uid) = Some (JObj r)" and r: "distinct (map fst r)" "P r"
    unfolding holds_record_def by blast
  have "load_data df s = (all_data, s)" using f rd by (rule load_data_document)
  with m have "fst (load_user df uid s) = JObj r" by (simp add: load_user_fst)
  with r show ?thesis by blast
qed

lemma cycle_due_user:
  assumes la: "load_all DEFAULT_DATA_FILE (store w) = (pre @ (k, JObj d) # post, s0)"
    and k: "int_of_str k = Some uid" and n: "map_of d ''notifications'' = Some (JObj n)"
    and en: "truthy (dict_get n ''enabled'' (JBool False))"
    and due: "map_of n ''last_sent'' = None \<or>
         (\<exists>stamp last_sent h. map_of n ''last_sent'' = Some (JStr stamp) \<and>
            strptime env stamp datetime_format = Some last_sent \<and>
            as_number (dict_get n ''interval_h'' (JNum 2)) = Some h \<and>
            h * 3600 \<le> now env - last_sent)"
    and coords: "dict_get d ''lat'' JNull \<noteq> JNull" "dict_get d ''lon'' JNull \<noteq> JNull"
    and gw: "get_current_weather (api env) (dict_get d ''lat'' JNull) (dict_get d ''lon'' JNull)
               (client (fold (notify_user env) pre (w\<lparr>store := s0\<rparr>))) = (weather, c')"
    and tw: "truthy weather"
    and nv: "notification_values weather = Inr (temp, desc, humidity, wind)"
    and dl: "delivers env uid"
  shows "\<exists>before after. outbox (check_and_send_notifications env w) =
           outbox w @ before @
           (uid, Weather_notification (dict_get d ''city'' (JStr unknown_ru)) temp desc humidity wind)
           # after"
    and "k = str_int uid \<Longrightarrow> map_of (pre @ (k, JObj d) # post) k = Some (JObj d) \<Longrightarrow>
         distinct (map fst d) \<Longrightarrow> writable (store w) DEFAULT_DATA_FILE \<Longrightarrow>
         strftime env (now env) datetime_format \<noteq> [] \<Longrightarrow>
         \<exists>r' n'. fst (load_user DEFAULT_DATA_FILE uid (store (check_and_send_notifications env w)))
                    = JObj r' \<and>
                 map_of r' ''notifications'' = Some (JObj n') \<and>
                 map_of n' ''last_sent'' = Some (JStr (strftime env (now env) datetime_format))"
proof -
  let ?ts = "JStr (strftime env (now env) datetime_format)"
  let ?msg = "Weather_notification (dict_get d ''city'' (JStr unknown_ru)) temp desc humidity wind"
  let ?iv = "dict_get n ''interval_h'' (JNum 2)"
  define w0 where "w0 = w\<lparr>store := s0\<rparr>"
  define w1 where "w1 = fold (notify_user env) pre w0"
  define w2 where "w2 = notify_user env (k, JObj d) w1"
  have cyc: "check_and_send_notifications env w = fold (notify_user env) post w2"
    using cycle_reaches_user [OF la, of env] by (simp add: w2_def w1_def w0_def)
  have step: "w2 = send_notification env uid (JObj d) w1"
    unfolding w2_def using k n en due by (rule notify_user_due)
  have gw1: "get_current_weather (api env) (dict_get d ''lat'' JNull) (dict_get d ''lon'' JNull)
               (client w1) = (weather, c')"
    using gw by (simp add: w1_def w0_def)
  note sd = send_notification_delivers [OF n coords gw1 tw nv dl]
  have o2: "outbox w2 = outbox w1 @ [(uid, ?msg)]"
    unfolding step sd by (simp split: sum.splits prod.splits)
  from fold_notify_user_outbox_grows [of env pre w0] obtain before where
    o1: "outbox w1 = outbox w @ before" by (auto simp: w1_def w0_def)
  from fold_notify_user_outbox_grows [of env post w2] obtain after where
    o3: "outbox (fold (notify_user env) post w2) = outbox w2 @ after" by blast
  show "\<exists>before after. outbox (check_and_send_notifications env w) =
           outbox w @ before @ (uid, ?msg) # after"
    unfolding cyc o3 o2 o1 by (intro exI [of _ before] exI [of _ after]) simp
  assume key: "k = str_int uid" and first: "map_of (pre @ (k, JObj d) # post) k = Some (JObj d)"
    and dist: "distinct (map fst d)" and wr: "writable (store w) DEFAULT_DATA_FILE"
    and ts: "strftime env (now env) datetime_format \<noteq> []"
  let ?P1 = "\<lambda>r. map_of r ''notifications'' = None \<or> (\<exists>n. map_of r ''notifications'' = Some (JObj n))"
  let ?P2 = "\<lambda>r. \<exists>n. map_of r ''notifications'' = Some (JObj n) \<and> map_of n ''last_sent'' = Some ?ts"
  from la have "load_data DEFAULT_DATA_FILE (store w) = (pre @ (k, JObj d) # post, s0)"
    by (simp add: load_all_def)
  from load_data_nonempty [OF this] have s0: "s0 = store w"
    and rd: "readable (store w) DEFAULT_DATA_FILE"
    and f: "files (store w) DEFAULT_DATA_FILE = Some (Document (JObj (pre @ (k, JObj d) # post)))"
    by simp_all
  have h0: "holds_record DEFAULT_DATA_FILE k ?P1 (store w0)"
    unfolding holds_record_def w0_def using s0 rd wr f first dist n by auto
  have h1: "holds_record DEFAULT_DATA_FILE k ?P1 (store w1)"
    unfolding w1_def using ts _ h0 by (rule fold_notify_user_holds) simp
  from holds_record_load_user [OF h1 [unfolded key]] obtain r where
    rec: "fst (load_user DEFAULT_DATA_FILE uid (store w1)) = JObj r" "distinct (map fst r)"
    and nt: "?P1 r" by blast
  have io: "readable (store w1) DEFAULT_DATA_FILE" "writable (store w1) DEFAULT_DATA_FILE"
    using h1 by (simp_all add: holds_record_def)
  have tls: "truthy ?ts" using ts by simp
  from update_user_notification_last_sent [OF io rec nt tls, of "JBool True" ?iv]
  obtain s' where up: "update_user_notification DEFAULT_DATA_FILE uid (JBool True) ?iv ?ts (store w1)
                         = Inr (True, s')"
    by blast
  have st2: "store w2 = s'"
    unfolding step sd by (simp add: up)
  have h2: "holds_record DEFAULT_DATA_FILE k ?P2 (store w2)"
    unfolding st2 using h1 up tls
  proof (rule update_user_notification_holds)
    fix r assume "k \<noteq> str_int uid"
    with key show "?P2 r" by simp
  qed blast
  have h3: "holds_record DEFAULT_DATA_FILE k ?P2 (store (fold (notify_user env) post w2))"
    using ts _ h2 by (rule fold_notify_user_holds) blast
  from holds_record_load_user [OF h3 [unfolded key]]
  show "\<exists>r' n'. fst (load_user DEFAULT_DATA_FILE uid (store (check_and_send_notifications env w)))
                    = JObj r' \<and>
                 map_of r' ''notifications'' = Some (JObj n') \<and>
                 map_of n' ''last_sent'' = Some ?ts"
    unfolding cyc by blast
qed

lemma cycle_skips_user:
  assumes la: "load_all DEFAULT_DATA_FILE (store w) = (pre @ (k, JObj d) # post, s0)"
    and "int_of_str k = Some uid" "map_of d ''notifications'' = Some (JObj n)"
    and "truthy (dict_get n ''enabled'' (JBool False))"
    and "map_of n ''last_sent'' = Some (JStr stamp)" "strptime env stamp datetime_format = Some last_sent"
    and "stamp \<noteq> []"
    and "as_number (dict_get n ''interval_h'' (JNum 2)) = Some h"
    and "- 999999999 * 24 \<le> h" "h < 1000000000 * 24"
    and "now env - last_sent < h * 3600"
  shows "check_and_send_notifications env w =
           fold (notify_user env) post (fold (notify_user env) pre (w\<lparr>store := s0\<rparr>))"
  unfolding cycle_reaches_user [OF la]
  using notify_user_too_early [OF assms(2-11)] by simp

text \<open>
  Claim C7. One cycle of the notification loop, \<open>check_and_send_notifications\<close>, on a world
  \<open>w\<close> whose document lists the users \<open>pre\<close>, then the entry \<open>(k, JObj d)\<close>, then the users
  \<open>post\<close>.

  Every message that the cycle sends goes to a user of the document whose notifications are
  enabled and whose record holds saved coordinates.

  When the entry has notifications enabled and a \<^verbatim>\<open>last_sent\<close> that parses and lies less than
  \<^verbatim>\<open>interval_h\<close> hours (2 by default) before the clock reading, the cycle skips it: its result
  is that of the loop over \<open>pre\<close> and \<open>post\<close> alone, so nothing is fetched and nothing is sent
  for the entry.

  When the entry has notifications enabled, no \<^verbatim>\<open>last_sent\<close> (or one that lies \<^verbatim>\<open>interval_h\<close>
  hours or more before the clock reading) and saved coordinates, the same cycle serves it:
  if the weather client has the current weather for the coordinates when the loop reaches the
  entry and the platform delivers to the user, the cycle sends the user the notification. And
  if moreover the entry is the record stored under the decimal numeral of the user, in a
  store that can be written, the record of the user in the store after the cycle carries the
  clock reading, formatted, as \<^verbatim>\<open>last_sent\<close>.
\<close>

theorem notification_cycle:
  "(\<exists>new. outbox (check_and_send_notifications env w) = outbox w @ new \<and>
      (\<forall>(uid, m) \<in> set new.
          \<exists>k ud. (k, ud) \<in> set (fst (load_all DEFAULT_DATA_FILE (store w))) \<and>
                 int_of_str k = Some uid \<and> notifications_enabled ud \<and> has_saved_coordinates ud)) \<and>
   (load_all DEFAULT_DATA_FILE (store w) = (pre @ (k, JObj d) # post, s0) \<and>
    int_of_str k = Some uid \<and> map_of d ''notifications'' = Some (JObj n) \<and>
    truthy (dict_get n ''enabled'' (JBool False)) \<and>
    map_of n ''last_sent'' = Some (JStr stamp) \<and> stamp \<noteq> [] \<and>
    strptime env stamp datetime_format = Some last_sent \<and>
    as_number (dict_get n ''interval_h'' (JNum 2)) = Some h \<and>
    - 999999999 * 24 \<le> h \<and> h < 1000000000 * 24 \<and>
    now env - last_sent < h * 3600 \<longrightarrow>
      check_and_send_notifications env w =
        fold (notify_user env) post (fold (notify_user env) pre (w\<lparr>store := s0\<rparr>))) \<and>
   (load_all DEFAULT_DATA_FILE (store w) = (pre @ (k, JObj d) # post, s0) \<and>
    int_of_str k = Some uid \<and> map_of d ''notifications'' = Some (JObj n) \<and>
    truthy (dict_get n ''enabled'' (JBool False)) \<and>
    (map_of n ''last_sent'' = None \<or>
     (\<exists>stamp last_sent h. map_of n ''last_sent'' = Some (JStr stamp) \<and>
        strptime env stamp datetime_format = Some last_sent \<and>
        as_number (dict_get n ''interval_h'' (JNum 2)) = Some h \<and>
        h * 3600 \<le> now env - last_sent)) \<and>
    dict_get d ''lat'' JNull \<noteq> JNull \<and> dict_get d ''lon'' JNull \<noteq> JNull \<and>
    get_current_weather (api env) (dict_get d ''lat'' JNull) (dict_get d ''lon'' JNull)
      (client (fold (notify_user env) pre (w\<lparr>store := s0\<rparr>))) = (weather, c') \<and>
    truthy weather \<and> notification_values weather = Inr (temp, desc, humidity, wind) \<and>
    delivers env uid \<longrightarrow>
      (\<exists>before after. outbox (check_and_send_notifications env w) =
          outbox w @ before @
          (uid, Weather_notification (dict_get d ''city'' (JStr unknown_ru)) temp desc humidity wind)
          # after) \<and>
      (k = str_int uid \<and> map_of (pre @ (k, JObj d) # post) k = Some (JObj d) \<and>
       distinct (map fst d) \<and> writable (store w) DEFAULT_DATA_FILE \<and>
       strftime env (now env) datetime_format \<noteq> [] \<longrightarrow>
         (\<exists>r' n'. fst (load_user DEFAULT_DATA_FILE uid (store (check_and_send_notifications env w)))
                    = JObj r' \<and>
                  map_of r' ''notifications'' = Some (JObj n') \<and>
                  map_of n' ''last_sent'' = Some (JStr (strftime env (now env) datetime_format)))))"
proof (intro conjI impI)
  obtain all_users s' where la: "load_all DEFAULT_DATA_FILE (store w) = (all_users, s')"
    by (cases "load_all DEFAULT_DATA_FILE (store w)")
  from fold_notify_user_outbox [of env all_users "w\<lparr>store := s'\<rparr>"]
  show "\<exists>new. outbox (check_and_send_notifications env w) = outbox w @ new \<and>
      (\<forall>(uid, m) \<in> set new.
          \<exists>k ud. (k, ud) \<in> set (fst (load_all DEFAULT_DATA_FILE (store w))) \<and>
                 int_of_str k = Some uid \<and> notifications_enabled ud \<and> has_saved_coordinates ud)"
    by (simp add: check_and_send_notifications_def la)
next
  assume "load_all DEFAULT_DATA_FILE (store w) = (pre @ (k, JObj d) # post, s0) \<and>
    int_of_str k = Some uid \<and> map_of d ''notifications'' = Some (JObj n) \<and>
    truthy (dict_get n ''enabled'' (JBool False)) \<and>
    map_of n ''last_sent'' = Some (JStr stamp) \<and> stamp \<noteq> [] \<and>
    strptime env stamp datetime_format = Some last_sent \<and>
    as_number (dict_get n ''interval_h'' (JNum 2)) = Some h \<and>
    - 999999999 * 24 \<le> h \<and> h < 1000000000 * 24 \<and>
    now env - last_sent < h * 3600"
  then show "check_and_send_notifications env w =
        fold (notify_user env) post (fold (notify_user env) pre (w\<lparr>store := s0\<rparr>))"
    by (elim conjE) (rule cycle_skips_user; assumption)
next
  assume "load_all DEFAULT_DATA_FILE (store w) = (pre @ (k, JObj d) # post, s0) \<and>
    int_of_str k = Some uid \<and> map_of d ''notifications'' = Some (JObj n) \<and>
    truthy (dict_get n ''enabled'' (JBool False)) \<and>
    (map_of n ''last_sent'' = None \<or>
     (\<exists>stamp last_sent h. map_of n ''last_sent'' = Some (JStr stamp) \<and>
        strptime env stamp datetime_format = Some last_sent \<and>
        as_number (dict_get n ''interval_h'' (JNum 2)) = Some h \<and>
        h * 3600 \<le> now env - last_sent)) \<and>
    dict_get d ''lat'' JNull \<noteq> JNull \<and> dict_get d ''lon'' JNull \<noteq> JNull \<and>
    get_current_weather (api env) (dict_get d ''lat'' JNull) (dict_get d ''lon'' JNull)
      (client (fold (notify_user env) pre (w\<lparr>store := s0\<rparr>))) = (weather, c') \<and>
    truthy weather \<and> notification_values weather = Inr (temp, desc, humidity, wind) \<and>
    delivers env uid"
  then show "\<exists>before after. outbox (check_and_send_notifications env w) =
          outbox w @ before @
          (uid, Weather_notification (dict_get d ''city'' (JStr unknown_ru)) temp desc humidity wind)
          # after"
    by (elim conjE) (rule cycle_due_user(1); assumption)
next
  assume "load_all DEFAULT_DATA_FILE (store w) = (pre @ (k, JObj d) # post, s0) \<and>
    int_of_str k = Some uid \<and> map_of d ''notifications'' = Some (JObj n) \<and>
    truthy (dict_get n ''enabled'' (JBool False)) \<and>
    (map_of n ''last_sent'' = None \<or>
     (\<exists>stamp last_sent h. map_of n ''last_sent'' = Some (JStr stamp) \<and>
        strptime env stamp datetime_format = Some last_sent \<and>
        as_number (dict_get n ''interval_h'' (JNum 2)) = Some h \<and>
        h * 3600 \<le> now env - last_sent)) \<and>
    dict_get d ''lat'' JNull \<noteq> JNull \<and> dict_get d ''lon'' JNull \<noteq> JNull \<and>
    get_current_weather (api env) (dict_get d ''lat'' JNull) (dict_get d ''lon'' JNull)
      (client (fold (notify_user env) pre (w\<lparr>store := s0\<rparr>))) = (weather, c') \<and>
    truthy weather \<and> notification_values weather = Inr (temp, desc, humidity, wind) \<and>
    delivers env uid"
    and "k = str_int uid \<and> map_of (pre @ (k, JObj d) # post) k = Some (JObj d) \<and>
       distinct (map fst d) \<and> writable (store w) DEFAULT_DATA_FILE \<and>
       strftime env (now env) datetime_format \<noteq> []"
  then show "\<exists>r' n'. fst (load_user DEFAULT_DATA_FILE uid (store (check_and_send_notifications env w)))
                    = JObj r' \<and>
                  map_of r' ''notifications'' = Some (JObj n') \<and>
                  map_of n' ''last_sent'' = Some (JStr (strftime env (now env) datetime_format))"
    by (elim conjE) (rule cycle_due_user(2); assumption)
qed

lemma int_of_str_5: "int_of_str ''5'' = Some 5"
  by (simp add: int_of_str_def int_space_def int_max_str_digits_def parse_digits_def is_digit_def
      digit_value_def)

lemma int_of_str_7: "int_of_str ''7'' = Some 7"
  by (simp add: int_of_str_def int_space_def int_max_str_digits_def parse_digits_def is_digit_def
      digit_value_def)

lemmas client_eval = get_current_weather_def make_request_def cache_key_def load_cache_def
  client_example_def numeral_3_eq_3 request_def env_example_def weather_example_def
  save_cache_def add_description_ru_def py_contains_def py_item_def py_len_def py_first_def
  dict_get_def Let_def with_key_and_language_def

lemmas store_eval = update_user_notification_def load_user_def load_data_def save_user_def
  save_data_def str_int_def str_nat.simps DEFAULT_DATA_FILE_def fs_example_def dict_update_def

lemma cycle_example:
  "outbox (check_and_send_notifications (bot_env_example (\<lambda>n. Response 200 (Some weather_example)) (0, 0))
     (world_example [DEFAULT_DATA_FILE \<mapsto>
        Document (JObj [(''5'', JObj notified_user_example), (''7'', JObj user_example)])]))
   = [(7, Weather_notification (JStr ''Oslo'') (JNum 5) (JStr ''rain'') (JNum 80) (JNum 3))] \<and>
   calls (client (check_and_send_notifications (bot_env_example (\<lambda>n. Response 200 (Some weather_example)) (0, 0))
     (world_example [DEFAULT_DATA_FILE \<mapsto>
        Document (JObj [(''5'', JObj notified_user_example), (''7'', JObj user_example)])]))) = 1"
  by (simp add: check_and_send_notifications_def load_all_def notify_user_def int_of_str_5 int_of_str_7
        sent_recently_def timedelta_hours_def
        send_notification_def user_example_def notified_user_example_def world_example_def bot_env_example_def
        notification_values_def send_message_def datetime_format_def client_eval store_eval)

theorem notification_cycle_witness:
  "load_all DEFAULT_DATA_FILE (store (world_example [DEFAULT_DATA_FILE \<mapsto> Document (JObj [(''5'', JObj notified_user_example), (''7'', JObj user_example)])]))
     = ([(''5'', JObj notified_user_example), (''7'', JObj user_example)], store (world_example [DEFAULT_DATA_FILE \<mapsto> Document (JObj [(''5'', JObj notified_user_example), (''7'', JObj user_example)])])) \<and>
   int_of_str ''5'' = Some 5 \<and> int_of_str ''7'' = Some 7 \<and>
   strptime (bot_env_example (\<lambda>n. Response 200 (Some weather_example)) (0, 0)) ''1970-01-01 01:30:00'' datetime_format = Some 5400 \<and>
   now (bot_env_example (\<lambda>n. Response 200 (Some weather_example)) (0, 0)) - 5400 < 1 * 3600 \<and>
   check_and_send_notifications (bot_env_example (\<lambda>n. Response 200 (Some weather_example)) (0, 0)) (world_example [DEFAULT_DATA_FILE \<mapsto> Document (JObj [(''5'', JObj notified_user_example), (''7'', JObj user_example)])])
     = fold (notify_user (bot_env_example (\<lambda>n. Response 200 (Some weather_example)) (0, 0))) [(''7'', JObj user_example)]
         (fold (notify_user (bot_env_example (\<lambda>n. Response 200 (Some weather_example)) (0, 0))) [] ((world_example [DEFAULT_DATA_FILE \<mapsto> Document (JObj [(''5'', JObj notified_user_example), (''7'', JObj user_example)])])\<lparr>store := store (world_example [DEFAULT_DATA_FILE \<mapsto> Document (JObj [(''5'', JObj notified_user_example), (''7'', JObj user_example)])])\<rparr>)) \<and>
   truthy (fst (get_current_weather (api (bot_env_example (\<lambda>n. Response 200 (Some weather_example)) (0, 0))) (dict_get user_example ''lat'' JNull)
        (dict_get user_example ''lon'' JNull)
        (client (fold (notify_user (bot_env_example (\<lambda>n. Response 200 (Some weather_example)) (0, 0))) [(''5'', JObj notified_user_example)]
           ((world_example [DEFAULT_DATA_FILE \<mapsto> Document (JObj [(''5'', JObj notified_user_example), (''7'', JObj user_example)])])\<lparr>store := store (world_example [DEFAULT_DATA_FILE \<mapsto> Document (JObj [(''5'', JObj notified_user_example), (''7'', JObj user_example)])])\<rparr>))))) \<and>
   notification_values (fst (get_current_weather (api (bot_env_example (\<lambda>n. Response 200 (Some weather_example)) (0, 0))) (dict_get user_example ''lat'' JNull)
        (dict_get user_example ''lon'' JNull)
        (client (fold (notify_user (bot_env_example (\<lambda>n. Response 200 (Some weather_example)) (0, 0))) [(''5'', JObj notified_user_example)]
           ((world_example [DEFAULT_DATA_FILE \<mapsto> Document (JObj [(''5'', JObj notified_user_example), (''7'', JObj user_example)])])\<lparr>store := store (world_example [DEFAULT_DATA_FILE \<mapsto> Document (JObj [(''5'', JObj notified_user_example), (''7'', JObj user_example)])])\<rparr>)))))
     = Inr (JNum 5, JStr ''rain'', JNum 80, JNum 3) \<and>
   (\<exists>before after. outbox (check_and_send_notifications (bot_env_example (\<lambda>n. Response 200 (Some weather_example)) (0, 0))
        (world_example [DEFAULT_DATA_FILE \<mapsto> Document (JObj [(''5'', JObj notified_user_example), (''7'', JObj user_example)])])) =
       outbox (world_example [DEFAULT_DATA_FILE \<mapsto> Document (JObj [(''5'', JObj notified_user_example), (''7'', JObj user_example)])]) @ before @ (7, Weather_notification (JStr ''Oslo'') (JNum 5) (JStr ''rain'') (JNum 80) (JNum 3)) # after) \<and>
   (\<exists>r' n'. fst (load_user DEFAULT_DATA_FILE 7 (store (check_and_send_notifications (bot_env_example (\<lambda>n. Response 200 (Some weather_example)) (0, 0))
        (world_example [DEFAULT_DATA_FILE \<mapsto> Document (JObj [(''5'', JObj notified_user_example), (''7'', JObj user_example)])])))) = JObj r' \<and>
       map_of r' ''notifications'' = Some (JObj n') \<and>
       map_of n' ''last_sent'' = Some (JStr ''1970-01-01 02:00:00'')) \<and>
   outbox (check_and_send_notifications (bot_env_example (\<lambda>n. Response 200 (Some weather_example)) (0, 0))
        (world_example [DEFAULT_DATA_FILE \<mapsto> Document (JObj [(''5'', JObj notified_user_example), (''7'', JObj user_example)])])) = [(7, Weather_notification (JStr ''Oslo'') (JNum 5) (JStr ''rain'') (JNum 80) (JNum 3))] \<and>
   calls (client (check_and_send_notifications (bot_env_example (\<lambda>n. Response 200 (Some weather_example)) (0, 0))
        (world_example [DEFAULT_DATA_FILE \<mapsto> Document (JObj [(''5'', JObj notified_user_example), (''7'', JObj user_example)])]))) = 1"
proof -
  let ?env = "bot_env_example (\<lambda>n. Response 200 (Some weather_example)) (0, 0)"
  let ?doc = "[(''5'', JObj notified_user_example), (''7'', JObj user_example)]"
  let ?w = "world_example [DEFAULT_DATA_FILE \<mapsto> Document (JObj ?doc)]"
  let ?n5 = "[(''enabled'', JBool True), (''interval_h'', JNum 1),
              (''last_sent'', JStr ''1970-01-01 01:30:00'')]"
  let ?n7 = "[(''enabled'', JBool True), (''interval_h'', JNum 1)]"
  let ?w1 = "fold (notify_user ?env) [(''5'', JObj notified_user_example)] (?w\<lparr>store := store ?w\<rparr>)"
  let ?gcw = "get_current_weather (api ?env) (dict_get user_example ''lat'' JNull)
                (dict_get user_example ''lon'' JNull) (client ?w1)"
  let ?msg = "Weather_notification (JStr ''Oslo'') (JNum 5) (JStr ''rain'') (JNum 80) (JNum 3)"
  have la: "load_all DEFAULT_DATA_FILE (store ?w) = (?doc, store ?w)"
    by (simp add: load_all_def load_data_def world_example_def fs_example_def)
  have a5: "int_of_str ''5'' = Some 5" by (rule int_of_str_5)
  have a7: "int_of_str ''7'' = Some 7" by (rule int_of_str_7)
  have sp: "strptime ?env ''1970-01-01 01:30:00'' datetime_format = Some 5400"
    by (simp add: bot_env_example_def)
  have el: "now ?env - 5400 < 1 * 3600" by (simp add: bot_env_example_def)
  have early: "load_all DEFAULT_DATA_FILE (store ?w)
       = ([] @ (''5'', JObj notified_user_example) # [(''7'', JObj user_example)], store ?w) \<and>
    int_of_str ''5'' = Some 5 \<and> map_of notified_user_example ''notifications'' = Some (JObj ?n5) \<and>
    truthy (dict_get ?n5 ''enabled'' (JBool False)) \<and>
    map_of ?n5 ''last_sent'' = Some (JStr ''1970-01-01 01:30:00'') \<and> ''1970-01-01 01:30:00'' \<noteq> [] \<and>
    strptime ?env ''1970-01-01 01:30:00'' datetime_format = Some 5400 \<and>
    as_number (dict_get ?n5 ''interval_h'' (JNum 2)) = Some 1 \<and>
    - 999999999 * 24 \<le> (1::rat) \<and> (1::rat) < 1000000000 * 24 \<and>
    now ?env - 5400 < 1 * 3600"
    using la a5 sp el by (simp add: notified_user_example_def dict_get_def)
  have w1: "?w1 = ?w"
    by (simp add: notify_user_def int_of_str_5 sent_recently_def timedelta_hours_def
          notified_user_example_def world_example_def bot_env_example_def dict_get_def)
  have tw: "truthy (fst ?gcw)"
    unfolding w1
    by (simp add: user_example_def world_example_def bot_env_example_def client_eval)
  have nv: "notification_values (fst ?gcw) = Inr (JNum 5, JStr ''rain'', JNum 80, JNum 3)"
    unfolding w1
    by (simp add: user_example_def world_example_def bot_env_example_def notification_values_def
          client_eval)
  have due: "load_all DEFAULT_DATA_FILE (store ?w)
       = ([(''5'', JObj notified_user_example)] @ (''7'', JObj user_example) # [], store ?w) \<and>
    int_of_str ''7'' = Some 7 \<and> map_of user_example ''notifications'' = Some (JObj ?n7) \<and>
    truthy (dict_get ?n7 ''enabled'' (JBool False)) \<and>
    (map_of ?n7 ''last_sent'' = None \<or>
     (\<exists>stamp last_sent h. map_of ?n7 ''last_sent'' = Some (JStr stamp) \<and>
        strptime ?env stamp datetime_format = Some last_sent \<and>
        as_number (dict_get ?n7 ''interval_h'' (JNum 2)) = Some h \<and>
        h * 3600 \<le> now ?env - last_sent)) \<and>
    dict_get user_example ''lat'' JNull \<noteq> JNull \<and> dict_get user_example ''lon'' JNull \<noteq> JNull \<and>
    ?gcw = (fst ?gcw, snd ?gcw) \<and>
    truthy (fst ?gcw) \<and> notification_values (fst ?gcw) = Inr (JNum 5, JStr ''rain'', JNum 80, JNum 3) \<and>
    delivers ?env 7"
    using la a7 tw nv by (simp add: user_example_def dict_get_def bot_env_example_def)
  have rec: "''7'' = str_int 7 \<and>
    map_of ([(''5'', JObj notified_user_example)] @ (''7'', JObj user_example) # []) ''7''
      = Some (JObj user_example) \<and>
    distinct (map fst user_example) \<and> writable (store ?w) DEFAULT_DATA_FILE \<and>
    strftime ?env (now ?env) datetime_format \<noteq> []"
    by (simp add: str_int_def str_nat.simps user_example_def world_example_def fs_example_def
          bot_env_example_def)
  note t5 = notification_cycle [where env = ?env and w = ?w and pre = "[]" and k = "''5''"
      and d = notified_user_example and post = "[(''7'', JObj user_example)]" and ?s0.0 = "store ?w"
      and uid = 5 and n = ?n5 and stamp = "''1970-01-01 01:30:00''" and last_sent = 5400 and h = 1,
      THEN conjunct2, THEN conjunct1, THEN mp, OF early]
  note t7 = notification_cycle [where env = ?env and w = ?w and pre = "[(''5'', JObj notified_user_example)]"
      and k = "''7''" and d = user_example and post = "[]" and ?s0.0 = "store ?w"
      and uid = 7 and n = ?n7 and weather = "fst ?gcw" and c' = "snd ?gcw"
      and temp = "JNum 5" and desc = "JStr ''rain''" and humidity = "JNum 80" and wind = "JNum 3",
      THEN conjunct2, THEN conjunct2, THEN mp, OF due]
  have c2: "check_and_send_notifications ?env ?w
     = fold (notify_user ?env) [(''7'', JObj user_example)]
         (fold (notify_user ?env) [] (?w\<lparr>store := store ?w\<rparr>))"
    using t5 .
  have c3: "\<exists>before after. outbox (check_and_send_notifications ?env ?w) =
       outbox ?w @ before @ (7, ?msg) # after"
    using t7 [THEN conjunct1] by (simp add: user_example_def dict_get_def)
  have ts: "strftime ?env (now ?env) datetime_format = ''1970-01-01 02:00:00''"
    by (simp add: bot_env_example_def datetime_format_def date_format_def)
  have c4: "\<exists>r' n'. fst (load_user DEFAULT_DATA_FILE 7 (store (check_and_send_notifications ?env ?w))) = JObj r' \<and>
       map_of r' ''notifications'' = Some (JObj n') \<and>
       map_of n' ''last_sent'' = Some (JStr ''1970-01-01 02:00:00'')"
    using t7 [THEN conjunct2, THEN mp, OF rec] unfolding ts .
  note ex = cycle_example
  from la a5 a7 sp el c2 tw nv c3 c4 ex [THEN conjunct1] ex [THEN conjunct2]
  show ?thesis by (intro conjI)
qed


section \<open>Inline queries: the result identifier\<close>

text \<open>
  The hash of the text \<^verbatim>\<open>London\<close> under two hash secrets: the all-zero secret of a process
  started with \<^verbatim>\<open>PYTHONHASHSEED=0\<close>, and the secret that the interpreter derives from
  \<^verbatim>\<open>PYTHONHASHSEED=1\<close>. Each round is evaluated on its own.
\<close>

lemma py_hash_London_seed_0: "py_hash (0, 0) ''London'' = 8799244649057191355"
proof -
  have r1: "SINGLE_ROUND (8317987319222330741, 7237128888997146477,
      7816392313619706465, 8243005744410659391) =
    (12946513345680174731, 18187159309134562858,
     16049128192294871932, 4520322419719959782)"
    by (simp add: SINGLE_ROUND_def HALF_ROUND_def ROTATE_def Let_def)
  have r2: "SINGLE_ROUND (13090608574578590151, 18187159309134562858,
      16049128192294871939, 4520322419719959782) =
    (16147630005344852734, 14692542986773407109,
     3833461472896700474, 2281699466808024325)"
    by (simp add: SINGLE_ROUND_def HALF_ROUND_def ROTATE_def Let_def)
  have r3: "SINGLE_ROUND (16147630005344852734, 14692542986773407109,
      3833461472896700474, 2281699466808024325) =
    (10672424697497583749, 471122314978568514,
     11957170529810237378, 12854363098447784263)"
    by (simp add: SINGLE_ROUND_def HALF_ROUND_def ROTATE_def Let_def)
  have r4: "SINGLE_ROUND (10672424697497583749, 471122314978568514,
      11957170529810237378, 12854363098447784263) =
    (574042401046501473, 12068204188032114587,
     766836929962865815, 15002861715340883670)"
    by (simp add: SINGLE_ROUND_def HALF_ROUND_def ROTATE_def Let_def)
  show ?thesis
    by (simp add: py_hash_def siphash13_def compress_def Let_def r1 r2 r3 r4)
qed

lemma py_hash_London_seed_1: "py_hash (12598376723466036009, 16999324916296290386) ''London'' = - 3823434126151453845"
proof -
  have r1: "SINGLE_ROUND (15976802823627949660, 10342175217285988159,
      14028444029786214728, 11064414084397242989) =
    (9350202273910963534, 11649068734493804603,
     237459464939738738, 13513964393229878692)"
    by (simp add: SINGLE_ROUND_def HALF_ROUND_def ROTATE_def Let_def)
  have r2: "SINGLE_ROUND (9782655131327484418, 11649068734493804603,
      237459464939738765, 13513964393229878692) =
    (14726556203678789384, 11170948507563830130,
     16255050410962487649, 11461178654928229804)"
    by (simp add: SINGLE_ROUND_def HALF_ROUND_def ROTATE_def Let_def)
  have r3: "SINGLE_ROUND (14726556203678789384, 11170948507563830130,
      16255050410962487649, 11461178654928229804) =
    (13582763767867878229, 1911900902772583797,
     6464679938137841759, 11166436160936777543)"
    by (simp add: SINGLE_ROUND_def HALF_ROUND_def ROTATE_def Let_def)
  have r4: "SINGLE_ROUND (13582763767867878229, 1911900902772583797,
      6464679938137841759, 11166436160936777543) =
    (5294753107724273853, 10058109406613423806,
     16285846666507841737, 16869839321861410209)"
    by (simp add: SINGLE_ROUND_def HALF_ROUND_def ROTATE_def Let_def)
  show ?thesis
    by (simp add: py_hash_def siphash13_def compress_def Let_def r1 r2 r3 r4)
qed

lemma str_int_seed_0: "str_int 8799244649057191355 = ''8799244649057191355''"
  by (simp add: str_int_def str_nat.simps)

lemma str_int_seed_1: "str_int (- 3823434126151453845) = ''-3823434126151453845''"
  by (simp add: str_int_def str_nat.simps)

lemma handle_inline_query_id:
  assumes "map_sum id inline_answers (handle_inline_query env qid q w)
             = Inr (inline_answers w @ [(qid', a)])"
  shows "article_id a = str_int (py_hash (hash_secret env) (strip q))"
  using assms
  by (auto simp: handle_inline_query_def Let_def bind_err_def
           split: if_splits prod.splits option.splits json.splits sum.splits)

text \<open>
  Whenever the handler answers an inline query, the identifier of the result is the decimal
  numeral of the hash of the stripped query text under the hash secret of the process
  (lemma \<open>handle_inline_query_id\<close>): the text is the only input of the handler that enters,
  and the secret is drawn anew when a process starts.
\<close>

lemmas inline_eval = handle_inline_query_def get_coordinates_def first_candidate_def py_float_def
  strip_def is_space_def bot_env_example_def world_example_def london_answers_def
  london_weather_def get_current_weather_def make_request_def cache_key_def load_cache_def
  client_example_def numeral_3_eq_3 request_def env_example_def
  save_cache_def add_description_ru_def py_contains_def py_item_def py_len_def py_first_def
  dict_get_def Let_def with_key_and_language_def

text \<open>
  Claim C8. The claim says that the identifier is determined by the query text alone, also
  across runs of the process. The handler does derive it from the text, as
  \<^verbatim>\<open>str(hash(query_text))\<close>, but the built-in hash of a string is keyed with a secret that
  the interpreter draws at start-up. The same query text \<^verbatim>\<open>London\<close>, answered by the provider
  in the same way, gets the identifier 8799244649057191355 in a run whose secret is that of
  \<^verbatim>\<open>PYTHONHASHSEED=0\<close> and the identifier -3823434126151453845 in a run whose secret is that
  of \<^verbatim>\<open>PYTHONHASHSEED=1\<close>.
\<close>

theorem inline_result_id_differs_between_runs:
  "map_sum id inline_answers
     (handle_inline_query (bot_env_example london_answers (0, 0)) ''q1'' ''London''
        (world_example Map.empty))
   = Inr [(''q1'', \<lparr>article_id = ''8799244649057191355'', article_city = JStr ''London'',
                    article_temp = JNum 12, article_desc = JStr ''mist''\<rparr>)] \<and>
   map_sum id inline_answers
     (handle_inline_query
        (bot_env_example london_answers (12598376723466036009, 16999324916296290386))
        ''q2'' ''London'' (world_example Map.empty))
   = Inr [(''q2'', \<lparr>article_id = ''-3823434126151453845'', article_city = JStr ''London'',
                    article_temp = JNum 12, article_desc = JStr ''mist''\<rparr>)]"
  by (simp add: inline_eval py_hash_London_seed_0 py_hash_London_seed_1
        str_int_seed_0 str_int_seed_1)


section \<open>Request handlers: which stored location is used\<close>

lemma load_user_pair:
  "load_user df uid s = (fst (load_user df uid s), snd (load_user df uid s))"
  by simp

lemma load_user_settled:
  "load_user df uid (snd (load_user df uid s)) = load_user df uid s"
  by (simp add: prod_eq_iff load_user_fst load_user_snd load_data_idem)

lemma last_or_saved_JObj:
  "last_or_saved (JObj d) =
     Inr (py_or (dict_get d ''last_lat'' JNull) (dict_get d ''lat'' JNull),
          py_or (dict_get d ''last_lon'' JNull) (dict_get d ''lon'' JNull),
          py_or (dict_get d ''last_city'' JNull) (dict_get d ''city'' (JStr [])))"
  by (simp add: last_or_saved_def)

lemma handle_forecast_day_without_saved:
  assumes rec: "fst (load_user DEFAULT_DATA_FILE uid (store w)) = JObj d"
    and saved: "\<not> truthy (dict_get d ''lat'' JNull) \<or> \<not> truthy (dict_get d ''lon'' JNull)"
    and deliv: "delivers env chat"
  shows "handle_forecast_day env chat uid day_key w =
           Inr (w\<lparr>store := snd (load_user DEFAULT_DATA_FILE uid (store w)),
                  outbox := outbox w @ [(chat, Geolocation_not_found)]\<rparr>)"
proof -
  define s' where "s' = snd (load_user DEFAULT_DATA_FILE uid (store w))"
  have lu: "load_user DEFAULT_DATA_FILE uid (store w) = (JObj d, s')"
    using rec by (simp add: prod_eq_iff s'_def)
  show ?thesis
    unfolding s'_def [symmetric]
    using saved deliv
    by (auto simp: handle_forecast_day_def lu send_message_def)
qed

lemma handle_forecast_request_with_location:
  assumes rec: "fst (load_user DEFAULT_DATA_FILE uid (store w)) = JObj d"
    and loc: "truthy (py_or (dict_get d ''last_lat'' JNull) (dict_get d ''lat'' JNull))"
             "truthy (py_or (dict_get d ''last_lon'' JNull) (dict_get d ''lon'' JNull))"
    and deliv: "delivers env chat"
    and fc: "get_forecast_5d3h (api env)
               (py_or (dict_get d ''last_lat'' JNull) (dict_get d ''lat'' JNull))
               (py_or (dict_get d ''last_lon'' JNull) (dict_get d ''lon'' JNull)) (client w)
             = (forecast, c')"
    and tf: "truthy forecast" and days: "forecast_days env forecast = Inr days"
  shows "handle_forecast_request env chat uid w =
           Inr (w\<lparr>store := snd (load_user DEFAULT_DATA_FILE uid (store w)),
                  client := c',
                  outbox := outbox w @
                    [(chat, Fetching_forecast
                              (py_or (dict_get d ''last_city'' JNull) (dict_get d ''city'' (JStr [])))),
                     (chat, Day_selector (day_selector env days))]\<rparr>)"
proof -
  define s' where "s' = snd (load_user DEFAULT_DATA_FILE uid (store w))"
  have lu: "load_user DEFAULT_DATA_FILE uid (store w) = (JObj d, s')"
    using rec by (simp add: prod_eq_iff s'_def)
  show ?thesis
    unfolding s'_def [symmetric]
    using loc deliv fc tf days
    by (simp add: handle_forecast_request_def lu last_or_saved_JObj send_message_def)
qed

lemma handle_forecast_request_prompt:
  assumes rec: "fst (load_user DEFAULT_DATA_FILE uid (store w)) = JObj d"
    and loc: "\<not> truthy (py_or (dict_get d ''last_lat'' JNull) (dict_get d ''lat'' JNull)) \<or>
              \<not> truthy (py_or (dict_get d ''last_lon'' JNull) (dict_get d ''lon'' JNull))"
    and deliv: "delivers env chat"
  shows "handle_forecast_request env chat uid w =
           Inr (w\<lparr>store := snd (load_user DEFAULT_DATA_FILE uid (store w)),
                  outbox := outbox w @ [(chat, Forecast_location_prompt)],
                  user_states := (user_states w)
                     (uid \<mapsto> [(''waiting_for_city'', JBool True), (''forecast_mode'', JBool True)])\<rparr>)"
proof -
  define s' where "s' = snd (load_user DEFAULT_DATA_FILE uid (store w))"
  have lu: "load_user DEFAULT_DATA_FILE uid (store w) = (JObj d, s')"
    using rec by (simp add: prod_eq_iff s'_def)
  show ?thesis
    unfolding s'_def [symmetric]
    using loc deliv
    by (auto simp: handle_forecast_request_def lu last_or_saved_JObj send_message_def)
qed

lemma handle_extended_data_request_prompt:
  assumes rec: "fst (load_user DEFAULT_DATA_FILE uid (store w)) = JObj d"
    and loc: "\<not> truthy (py_or (dict_get d ''last_lat'' JNull) (dict_get d ''lat'' JNull)) \<or>
              \<not> truthy (py_or (dict_get d ''last_lon'' JNull) (dict_get d ''lon'' JNull))"
    and deliv: "delivers env chat"
  shows "handle_extended_data_request env chat uid w =
           Inr (w\<lparr>store := snd (load_user DEFAULT_DATA_FILE uid (store w)),
                  outbox := outbox w @ [(chat, Extended_location_prompt)],
                  user_states := (user_states w)
                     (uid \<mapsto> [(''waiting_for_city'', JBool True), (''extended_mode'', JBool True)])\<rparr>)"
proof -
  define s' where "s' = snd (load_user DEFAULT_DATA_FILE uid (store w))"
  have lu: "load_user DEFAULT_DATA_FILE uid (store w) = (JObj d, s')"
    using rec by (simp add: prod_eq_iff s'_def)
  show ?thesis
    unfolding s'_def [symmetric]
    using loc deliv
    by (auto simp: handle_extended_data_request_def lu last_or_saved_JObj send_message_def)
qed

lemma handle_current_weather_request_prompt:
  assumes rec: "fst (load_user DEFAULT_DATA_FILE uid (store w)) = JObj d"
    and loc: "\<not> truthy (dict_get d ''lat'' JNull) \<or> \<not> truthy (dict_get d ''lon'' JNull)"
    and deliv: "delivers env chat"
  shows "handle_current_weather_request env chat uid w =
           Inr (w\<lparr>store := snd (load_user DEFAULT_DATA_FILE uid (store w)),
                  outbox := outbox w @ [(chat, Location_prompt)]\<rparr>)"
proof -
  define s' where "s' = snd (load_user DEFAULT_DATA_FILE uid (store w))"
  have lu: "load_user DEFAULT_DATA_FILE uid (store w) = (JObj d, s')"
    using rec by (simp add: prod_eq_iff s'_def)
  show ?thesis
    unfolding s'_def [symmetric]
    using loc deliv
    by (auto simp: handle_current_weather_request_def lu send_message_def)
qed

lemmas handler_eval = handle_forecast_request_def handle_forecast_day_def
  handle_current_weather_request_def handle_extended_data_request_def
  last_or_saved_def py_or_def send_message_def forecast_days_def period_day_def first_seen_def
  day_selector_def day_button_def get_forecast_5d3h_def translate_forecast_def py_iter_def
  bot_env_example_def world_example_def datetime_format_def date_format_def
  forecast_example_def upt_conv_Cons

text \<open>
  Claim C9, as amended. Take a user whose stored record holds a last-queried latitude and
  longitude that are true in Python's sense (so neither is 0) and no saved \<^verbatim>\<open>lat\<close> and \<^verbatim>\<open>lon\<close>.
  When the platform delivers and the forecast fetched for the last-queried coordinates has
  periods, the forecast request fetches with exactly those coordinates and sends the day
  selector built from that forecast. In the world it leaves, the day callback, for every day
  key, fetches nothing and only replies that no geolocation was found.
\<close>

theorem forecast_day_reads_saved_location_only:
  assumes rec: "fst (load_user DEFAULT_DATA_FILE uid (store w)) = JObj d"
    and last: "truthy (dict_get d ''last_lat'' JNull)" "truthy (dict_get d ''last_lon'' JNull)"
    and saved: "map_of d ''lat'' = None" "map_of d ''lon'' = None"
    and deliv: "delivers env chat"
    and tf: "truthy (fst (get_forecast_5d3h (api env) (dict_get d ''last_lat'' JNull)
                            (dict_get d ''last_lon'' JNull) (client w)))"
    and days: "forecast_days env (fst (get_forecast_5d3h (api env) (dict_get d ''last_lat'' JNull)
                            (dict_get d ''last_lon'' JNull) (client w))) = Inr days"
  shows "\<exists>w'. handle_forecast_request env chat uid w = Inr w' \<and>
           client w' = snd (get_forecast_5d3h (api env) (dict_get d ''last_lat'' JNull)
                              (dict_get d ''last_lon'' JNull) (client w)) \<and>
           outbox w' = outbox w @
             [(chat, Fetching_forecast
                       (py_or (dict_get d ''last_city'' JNull) (dict_get d ''city'' (JStr [])))),
              (chat, Day_selector (day_selector env days))] \<and>
           (\<forall>day_key. handle_forecast_day env chat uid day_key w' =
               Inr (w'\<lparr>outbox := outbox w' @ [(chat, Geolocation_not_found)]\<rparr>))"
proof -
  let ?lat = "dict_get d ''last_lat'' JNull" and ?lon = "dict_get d ''last_lon'' JNull"
  let ?city = "py_or (dict_get d ''last_city'' JNull) (dict_get d ''city'' (JStr []))"
  define s' where "s' = snd (load_user DEFAULT_DATA_FILE uid (store w))"
  define forecast c' where "forecast = fst (get_forecast_5d3h (api env) ?lat ?lon (client w))"
    and "c' = snd (get_forecast_5d3h (api env) ?lat ?lon (client w))"
  define w' where "w' = w\<lparr>store := s', client := c',
      outbox := outbox w @ [(chat, Fetching_forecast ?city),
                            (chat, Day_selector (day_selector env days))]\<rparr>"
  have p1: "py_or ?lat (dict_get d ''lat'' JNull) = ?lat"
    and p2: "py_or ?lon (dict_get d ''lon'' JNull) = ?lon"
    using last by (simp_all add: py_or_def)
  have fc: "get_forecast_5d3h (api env) (py_or ?lat (dict_get d ''lat'' JNull))
              (py_or ?lon (dict_get d ''lon'' JNull)) (client w) = (forecast, c')"
    by (simp add: p1 p2 forecast_def c'_def)
  have 1: "handle_forecast_request env chat uid w = Inr w'"
    unfolding w'_def s'_def
    using rec _ _ deliv fc
  proof (rule handle_forecast_request_with_location)
    show "truthy (py_or ?lat (dict_get d ''lat'' JNull))" using last(1) by (simp add: p1)
    show "truthy (py_or ?lon (dict_get d ''lon'' JNull))" using last(2) by (simp add: p2)
    show "truthy forecast" using tf by (simp add: forecast_def)
    show "forecast_days env forecast = Inr days" using days by (simp add: forecast_def)
  qed
  have st: "store w' = s'" by (simp add: w'_def)
  have rec': "fst (load_user DEFAULT_DATA_FILE uid (store w')) = JObj d"
    and snd': "snd (load_user DEFAULT_DATA_FILE uid (store w')) = store w'"
    using load_user_settled [of DEFAULT_DATA_FILE uid "store w"] rec
    by (simp_all add: st s'_def)
  have absent: "\<not> truthy (dict_get d ''lat'' JNull) \<or> \<not> truthy (dict_get d ''lon'' JNull)"
    using saved by (simp add: dict_get_def)
  have 2: "handle_forecast_day env chat uid day_key w' =
             Inr (w'\<lparr>outbox := outbox w' @ [(chat, Geolocation_not_found)]\<rparr>)" for day_key
    using handle_forecast_day_without_saved [OF rec' absent deliv, of day_key]
    by (simp add: snd')
  have 3: "client w' = c'" and 4: "outbox w' = outbox w @
             [(chat, Fetching_forecast ?city), (chat, Day_selector (day_selector env days))]"
    by (simp_all add: w'_def)
  from 1 2 3 4 show ?thesis
    unfolding c'_def by blast
qed

theorem forecast_day_reads_saved_location_only_witness:
  "fst (load_user DEFAULT_DATA_FILE 7
          (store (world_example [DEFAULT_DATA_FILE \<mapsto> Document (JObj [(''7'', JObj last_only_example)])])))
     = JObj last_only_example \<and>
   truthy (dict_get last_only_example ''last_lat'' JNull) \<and>
   truthy (dict_get last_only_example ''last_lon'' JNull) \<and>
   map_of last_only_example ''lat'' = None \<and> map_of last_only_example ''lon'' = None \<and>
   (\<exists>w'. handle_forecast_request (bot_env_example (\<lambda>n. Response 200 (Some forecast_example)) (0, 0)) 1 7
            (world_example [DEFAULT_DATA_FILE \<mapsto> Document (JObj [(''7'', JObj last_only_example)])])
          = Inr w' \<and>
         outbox w' =
           outbox (world_example [DEFAULT_DATA_FILE \<mapsto> Document (JObj [(''7'', JObj last_only_example)])]) @
           [(1, Fetching_forecast (JStr ''London'')),
            (1, Day_selector [Day_button 1 3 ''forecast_day_1970-01-01'', Back_button])] \<and>
         handle_forecast_day (bot_env_example (\<lambda>n. Response 200 (Some forecast_example)) (0, 0)) 1 7
            ''1970-01-01'' w'
          = Inr (w'\<lparr>outbox := outbox w' @ [(1, Geolocation_not_found)]\<rparr>))"
proof -
  let ?env = "bot_env_example (\<lambda>n. Response 200 (Some forecast_example)) (0, 0)"
  let ?w = "world_example [DEFAULT_DATA_FILE \<mapsto> Document (JObj [(''7'', JObj last_only_example)])]"
  have rec: "fst (load_user DEFAULT_DATA_FILE 7 (store ?w)) = JObj last_only_example"
    by (simp add: world_example_def store_eval)
  have last: "truthy (dict_get last_only_example ''last_lat'' JNull)"
    "truthy (dict_get last_only_example ''last_lon'' JNull)"
    by (simp_all add: last_only_example_def dict_get_def)
  have saved: "map_of last_only_example ''lat'' = None" "map_of last_only_example ''lon'' = None"
    by (simp_all add: last_only_example_def)
  have deliv: "delivers ?env 1" by (simp add: bot_env_example_def)
  have fc: "fst (get_forecast_5d3h (api ?env) (dict_get last_only_example ''last_lat'' JNull)
                   (dict_get last_only_example ''last_lon'' JNull) (client ?w))
              = JArr [JObj [(''dt_txt'', JStr ''1970-01-01 01:30:00''),
                            (''main'', JObj [(''temp'', JNum 4)])],
                      JObj [(''dt_txt'', JStr ''1970-01-01 01:30:00''),
                            (''main'', JObj [(''temp'', JNum 6)])]]"
    by (simp add: last_only_example_def handler_eval client_eval)
  have tf: "truthy (fst (get_forecast_5d3h (api ?env) (dict_get last_only_example ''last_lat'' JNull)
                   (dict_get last_only_example ''last_lon'' JNull) (client ?w)))"
    unfolding fc by simp
  have days: "forecast_days ?env (fst (get_forecast_5d3h (api ?env)
                   (dict_get last_only_example ''last_lat'' JNull)
                   (dict_get last_only_example ''last_lon'' JNull) (client ?w))) = Inr [''1970-01-01'']"
    unfolding fc
    by (simp add: forecast_days_def period_day_def first_seen_def py_iter_def dict_get_def
          bot_env_example_def datetime_format_def date_format_def)
  have city: "py_or (dict_get last_only_example ''last_city'' JNull)
                 (dict_get last_only_example ''city'' (JStr [])) = JStr ''London''"
    by (simp add: last_only_example_def dict_get_def py_or_def)
  have sel: "day_selector ?env [''1970-01-01'']
               = [Day_button 1 3 ''forecast_day_1970-01-01'', Back_button]"
    by (simp add: day_selector_def day_button_def bot_env_example_def date_format_def
          datetime_format_def upt_conv_Cons)
  from forecast_day_reads_saved_location_only [OF rec last saved deliv tf days]
  obtain w' where
    1: "handle_forecast_request ?env 1 7 ?w = Inr w'"
    and 2: "outbox w' = outbox ?w @
             [(1, Fetching_forecast (py_or (dict_get last_only_example ''last_city'' JNull)
                                           (dict_get last_only_example ''city'' (JStr [])))),
              (1, Day_selector (day_selector ?env [''1970-01-01'']))]"
    and 3: "\<forall>day_key. handle_forecast_day ?env 1 7 day_key w' =
               Inr (w'\<lparr>outbox := outbox w' @ [(1, Geolocation_not_found)]\<rparr>)"
    by (elim exE conjE) (rule that; assumption)
  from 3 have 4: "handle_forecast_day ?env 1 7 ''1970-01-01'' w' =
               Inr (w'\<lparr>outbox := outbox w' @ [(1, Geolocation_not_found)]\<rparr>)"
    by (rule spec)
  from 2 have 5: "outbox w' = outbox ?w @
           [(1, Fetching_forecast (JStr ''London'')),
            (1, Day_selector [Day_button 1 3 ''forecast_day_1970-01-01'', Back_button])]"
    unfolding city sel .
  from rec last saved 1 5 4 show ?thesis by blast
qed

text \<open>
  Claim C9, as stated, fails for a record whose last-queried latitude is 0: the record holds
  \<^verbatim>\<open>last_lat\<close> and \<^verbatim>\<open>last_lon\<close> and no saved location, yet the forecast request builds no day
  selector and makes no request; it prompts for a location.
\<close>

theorem forecast_request_zero_latitude_counterexample:
  "map_of last_zero_example ''last_lat'' = Some (JNum 0) \<and>
   map_of last_zero_example ''last_lon'' = Some (JNum 9) \<and>
   map_of last_zero_example ''lat'' = None \<and> map_of last_zero_example ''lon'' = None \<and>
   map_sum id outbox
     (handle_forecast_request (bot_env_example (\<lambda>n. Response 200 (Some forecast_example)) (0, 0)) 1 7
        (world_example [DEFAULT_DATA_FILE \<mapsto> Document (JObj [(''7'', JObj last_zero_example)])]))
     = Inr [(1, Forecast_location_prompt)] \<and>
   map_sum id (\<lambda>w. calls (client w))
     (handle_forecast_request (bot_env_example (\<lambda>n. Response 200 (Some forecast_example)) (0, 0)) 1 7
        (world_example [DEFAULT_DATA_FILE \<mapsto> Document (JObj [(''7'', JObj last_zero_example)])]))
     = Inr 0"
  by (simp add: last_zero_example_def handler_eval client_eval store_eval)

text \<open>
  Claim C10, as amended. A coordinate that is 0 counts as absent, like a missing one. The
  current-weather request prompts for a location when the saved latitude or the saved
  longitude is 0 or missing. The forecast request and the extended-data request prompt (and
  note the pending flow in the dialog state) when, for the latitude or for the longitude, the
  last-queried value and the saved value are both 0 or missing. In all three cases nothing is
  fetched: the client is left as it was.
\<close>

theorem zero_coordinate_prompts:
  assumes rec: "fst (load_user DEFAULT_DATA_FILE uid (store w)) = JObj d"
    and deliv: "delivers env chat"
  shows
    "(dict_get d ''lat'' JNull \<in> {JNum 0, JNull} \<or> dict_get d ''lon'' JNull \<in> {JNum 0, JNull} \<longrightarrow>
        handle_current_weather_request env chat uid w =
          Inr (w\<lparr>store := snd (load_user DEFAULT_DATA_FILE uid (store w)),
                 outbox := outbox w @ [(chat, Location_prompt)]\<rparr>)) \<and>
     (dict_get d ''last_lat'' JNull \<in> {JNum 0, JNull} \<and> dict_get d ''lat'' JNull \<in> {JNum 0, JNull} \<or>
      dict_get d ''last_lon'' JNull \<in> {JNum 0, JNull} \<and> dict_get d ''lon'' JNull \<in> {JNum 0, JNull} \<longrightarrow>
        handle_forecast_request env chat uid w =
          Inr (w\<lparr>store := snd (load_user DEFAULT_DATA_FILE uid (store w)),
                 outbox := outbox w @ [(chat, Forecast_location_prompt)],
                 user_states := (user_states w)
                   (uid \<mapsto> [(''waiting_for_city'', JBool True), (''forecast_mode'', JBool True)])\<rparr>) \<and>
        handle_extended_data_request env chat uid w =
          Inr (w\<lparr>store := snd (load_user DEFAULT_DATA_FILE uid (store w)),
                 outbox := outbox w @ [(chat, Extended_location_prompt)],
                 user_states := (user_states w)
                   (uid \<mapsto> [(''waiting_for_city'', JBool True), (''extended_mode'', JBool True)])\<rparr>))"
proof (intro conjI impI)
  assume "dict_get d ''lat'' JNull \<in> {JNum 0, JNull} \<or> dict_get d ''lon'' JNull \<in> {JNum 0, JNull}"
  then have "\<not> truthy (dict_get d ''lat'' JNull) \<or> \<not> truthy (dict_get d ''lon'' JNull)"
    by auto
  then show "handle_current_weather_request env chat uid w =
          Inr (w\<lparr>store := snd (load_user DEFAULT_DATA_FILE uid (store w)),
                 outbox := outbox w @ [(chat, Location_prompt)]\<rparr>)"
    using handle_current_weather_request_prompt [OF rec _ deliv] by blast
next
  assume a: "dict_get d ''last_lat'' JNull \<in> {JNum 0, JNull} \<and> dict_get d ''lat'' JNull \<in> {JNum 0, JNull} \<or>
      dict_get d ''last_lon'' JNull \<in> {JNum 0, JNull} \<and> dict_get d ''lon'' JNull \<in> {JNum 0, JNull}"
  then have loc: "\<not> truthy (py_or (dict_get d ''last_lat'' JNull) (dict_get d ''lat'' JNull)) \<or>
              \<not> truthy (py_or (dict_get d ''last_lon'' JNull) (dict_get d ''lon'' JNull))"
    by (auto simp: py_or_def)
  show "handle_forecast_request env chat uid w =
          Inr (w\<lparr>store := snd (load_user DEFAULT_DATA_FILE uid (store w)),
                 outbox := outbox w @ [(chat, Forecast_location_prompt)],
                 user_states := (user_states w)
                   (uid \<mapsto> [(''waiting_for_city'', JBool True), (''forecast_mode'', JBool True)])\<rparr>)"
    using rec loc deliv by (rule handle_forecast_request_prompt)
  show "handle_extended_data_request env chat uid w =
          Inr (w\<lparr>store := snd (load_user DEFAULT_DATA_FILE uid (store w)),
                 outbox := outbox w @ [(chat, Extended_location_prompt)],
                 user_states := (user_states w)
                   (uid \<mapsto> [(''waiting_for_city'', JBool True), (''extended_mode'', JBool True)])\<rparr>)"
    using rec loc deliv by (rule handle_extended_data_request_prompt)
qed

theorem zero_coordinate_prompts_witness:
  "fst (load_user DEFAULT_DATA_FILE 7
          (store (world_example [DEFAULT_DATA_FILE \<mapsto> Document (JObj [(''7'', JObj zero_location_example)])])))
     = JObj zero_location_example \<and>
   delivers (bot_env_example london_answers (0, 0)) 1 \<and>
   dict_get zero_location_example ''lat'' JNull = JNum 0 \<and>
   dict_get zero_location_example ''last_lat'' JNull = JNum 0 \<and>
   handle_current_weather_request (bot_env_example london_answers (0, 0)) 1 7
     (world_example [DEFAULT_DATA_FILE \<mapsto> Document (JObj [(''7'', JObj zero_location_example)])])
   = Inr ((world_example [DEFAULT_DATA_FILE \<mapsto> Document (JObj [(''7'', JObj zero_location_example)])])
            \<lparr>store := snd (load_user DEFAULT_DATA_FILE 7
                (store (world_example [DEFAULT_DATA_FILE \<mapsto> Document (JObj [(''7'', JObj zero_location_example)])]))),
             outbox := outbox (world_example [DEFAULT_DATA_FILE \<mapsto> Document (JObj [(''7'', JObj zero_location_example)])])
                       @ [(1, Location_prompt)]\<rparr>) \<and>
   handle_forecast_request (bot_env_example london_answers (0, 0)) 1 7
     (world_example [DEFAULT_DATA_FILE \<mapsto> Document (JObj [(''7'', JObj zero_location_example)])])
   = Inr ((world_example [DEFAULT_DATA_FILE \<mapsto> Document (JObj [(''7'', JObj zero_location_example)])])
            \<lparr>store := snd (load_user DEFAULT_DATA_FILE 7
                (store (world_example [DEFAULT_DATA_FILE \<mapsto> Document (JObj [(''7'', JObj zero_location_example)])]))),
             outbox := outbox (world_example [DEFAULT_DATA_FILE \<mapsto> Document (JObj [(''7'', JObj zero_location_example)])])
                       @ [(1, Forecast_location_prompt)],
             user_states := (user_states (world_example [DEFAULT_DATA_FILE \<mapsto> Document (JObj [(''7'', JObj zero_location_example)])]))
                (7 \<mapsto> [(''waiting_for_city'', JBool True), (''forecast_mode'', JBool True)])\<rparr>) \<and>
   handle_extended_data_request (bot_env_example london_answers (0, 0)) 1 7
     (world_example [DEFAULT_DATA_FILE \<mapsto> Document (JObj [(''7'', JObj zero_location_example)])])
   = Inr ((world_example [DEFAULT_DATA_FILE \<mapsto> Document (JObj [(''7'', JObj zero_location_example)])])
            \<lparr>store := snd (load_user DEFAULT_DATA_FILE 7
                (store (world_example [DEFAULT_DATA_FILE \<mapsto> Document (JObj [(''7'', JObj zero_location_example)])]))),
             outbox := outbox (world_example [DEFAULT_DATA_FILE \<mapsto> Document (JObj [(''7'', JObj zero_location_example)])])
                       @ [(1, Extended_location_prompt)],
             user_states := (user_states (world_example [DEFAULT_DATA_FILE \<mapsto> Document (JObj [(''7'', JObj zero_location_example)])]))
                (7 \<mapsto> [(''waiting_for_city'', JBool True), (''extended_mode'', JBool True)])\<rparr>)"
proof -
  let ?env = "bot_env_example london_answers (0, 0)"
  let ?w = "world_example [DEFAULT_DATA_FILE \<mapsto> Document (JObj [(''7'', JObj zero_location_example)])]"
  have rec: "fst (load_user DEFAULT_DATA_FILE 7 (store ?w)) = JObj zero_location_example"
    by (simp add: world_example_def store_eval)
  have deliv: "delivers ?env 1" by (simp add: bot_env_example_def)
  have z: "dict_get zero_location_example ''lat'' JNull = JNum 0"
    "dict_get zero_location_example ''last_lat'' JNull = JNum 0"
    by (simp_all add: zero_location_example_def dict_get_def)
  note t = zero_coordinate_prompts [OF rec deliv]
  have p1: "dict_get zero_location_example ''lat'' JNull \<in> {JNum 0, JNull} \<or>
            dict_get zero_location_example ''lon'' JNull \<in> {JNum 0, JNull}"
    using z by simp
  have p2: "dict_get zero_location_example ''last_lat'' JNull \<in> {JNum 0, JNull} \<and>
            dict_get zero_location_example ''lat'' JNull \<in> {JNum 0, JNull} \<or>
            dict_get zero_location_example ''last_lon'' JNull \<in> {JNum 0, JNull} \<and>
            dict_get zero_location_example ''lon'' JNull \<in> {JNum 0, JNull}"
    using z by simp
  note c1 = t [THEN conjunct1, THEN mp, OF p1]
  note c2 = t [THEN conjunct2, THEN mp, OF p2]
  from rec deliv z c1 c2 show ?thesis by (intro conjI) blast+
qed

text \<open>
  Claim C10, as stated, fails for a user with a saved location whose last-queried latitude is
  0: the current-weather request offers the saved location, and the forecast request falls
  back to the saved latitude, fetches and shows the day selector; neither prompts.
\<close>

theorem fallback_chain_counterexample:
  "dict_get saved_and_last_zero_example ''last_lat'' JNull = JNum 0 \<and>
   map_sum id outbox
     (handle_current_weather_request (bot_env_example (\<lambda>n. Response 200 (Some forecast_example)) (0, 0)) 1 7
        (world_example [DEFAULT_DATA_FILE \<mapsto> Document (JObj [(''7'', JObj saved_and_last_zero_example)])]))
     = Inr [(1, Saved_location_menu (JStr ''Moscow''))] \<and>
   map_sum id outbox
     (handle_forecast_request (bot_env_example (\<lambda>n. Response 200 (Some forecast_example)) (0, 0)) 1 7
        (world_example [DEFAULT_DATA_FILE \<mapsto> Document (JObj [(''7'', JObj saved_and_last_zero_example)])]))
     = Inr [(1, Fetching_forecast (JStr ''Moscow'')),
            (1, Day_selector [Day_button 1 3 ''forecast_day_1970-01-01'', Back_button])] \<and>
   map_sum id (\<lambda>w. calls (client w))
     (handle_forecast_request (bot_env_example (\<lambda>n. Response 200 (Some forecast_example)) (0, 0)) 1 7
        (world_example [DEFAULT_DATA_FILE \<mapsto> Document (JObj [(''7'', JObj saved_and_last_zero_example)])]))
     = Inr 1"
  by (simp add: saved_and_last_zero_example_def handler_eval client_eval store_eval)

end
